(* ===== verification/Prelude.thy ===== *)
theory Prelude
  imports Main "HOL-Library.Sublist"
begin

text \<open>
  Shared vocabulary of the timetable development: the types that name the columns of the
  school database, the Python runtime errors the handlers of \<open>src/functions.py\<close> can
  raise, and the small Python idioms the handlers are built from (\<open>str.split(" - ")[0]\<close>
  on a select-box label, a dictionary built by a comprehension, \<open>next\<close> over a
  generator).  The collection \<open>query_simps\<close> gathers the rewrite rules of the SQL
  combinators, so that component proofs say \<open>simp add: query_simps\<close>.
\<close>

named_theorems query_simps "rewrite rules of the SQL table operations"

type_synonym teacher_id = nat
type_synonym class_id = string
type_synonym subject_id = string
type_synonym row_id = nat
type_synonym period = nat
type_synonym day_name = string

section \<open>Python runtime errors\<close>

text \<open>
  The exceptions the handlers can raise and do not catch.  \<open>Attribute_error\<close> is
  \<open>None.split(...)\<close> on an empty select box, \<open>Value_error\<close> a failed \<open>int(...)\<close>,
  \<open>Key_error\<close> a missing dictionary key, \<open>Stop_iteration\<close> an exhausted \<open>next\<close>.
\<close>

datatype py_error = Attribute_error | Value_error | Key_error | Stop_iteration

section \<open>Select-box labels: \<open>f"{id} - {name}"\<close> and \<open>label.split(" - ")[0]\<close>\<close>

definition label_sep :: string where
  "label_sep = '' - ''"

definition option_label :: "string \<Rightarrow> string \<Rightarrow> string" where
  "option_label k v = k @ label_sep @ v"

text \<open>The part of a label before the first occurrence of the separator.\<close>

fun split_label :: "string \<Rightarrow> string" where
  "split_label [] = []"
| "split_label (c # cs) = (if prefix label_sep (c # cs) then [] else c # split_label cs)"

section \<open>Dictionaries built by comprehension\<close>

text \<open>
  \<open>{k(r): v(r) for r in rows}\<close>: a later row overwrites an earlier one with the same
  key, and the keys keep the order of their first insertion.
\<close>

definition dict_of :: "('k \<times> 'v) list \<Rightarrow> 'k \<Rightarrow> 'v option" where
  "dict_of kvs = map_of (rev kvs)"

fun dedup_first :: "'a list \<Rightarrow> 'a list" where
  "dedup_first [] = []"
| "dedup_first (x # xs) = x # dedup_first (filter (\<lambda>y. y \<noteq> x) xs)"

definition dict_keys :: "('k \<times> 'v) list \<Rightarrow> 'k list" where
  "dict_keys kvs = dedup_first (map fst kvs)"

section \<open>Generic lemmas\<close>

lemma split_label_option_label_aux:
  "CHR '' '' \<notin> set k \<Longrightarrow> split_label (k @ label_sep @ v) = k"
  by (induction k) (auto simp: label_sep_def)

lemma set_dedup_first [simp]: "set (dedup_first xs) = set xs"
  by (induction xs rule: dedup_first.induct) auto

lemma distinct_dedup_first [simp]: "distinct (dedup_first xs)"
  by (induction xs rule: dedup_first.induct) auto

lemma dict_of_Some_in: "dict_of kvs k = Some v \<Longrightarrow> (k, v) \<in> set kvs"
  by (auto simp: dict_of_def dest: map_of_SomeD)

lemma dict_of_None_iff: "dict_of kvs k = None \<longleftrightarrow> k \<notin> fst ` set kvs"
  by (simp add: dict_of_def map_of_eq_None_iff)

lemma dict_of_append_in:
  "k \<in> fst ` set ys \<Longrightarrow> dict_of (xs @ ys) k = dict_of ys k"
proof -
  assume "k \<in> fst ` set ys"
  then have "k \<in> dom (map_of (rev ys))" by (simp add: dom_map_of_conv_image_fst)
  then show ?thesis by (simp add: dict_of_def map_add_dom_app_simps(1))
qed

lemma nth_notin_drop: "distinct xs \<Longrightarrow> i < length xs \<Longrightarrow> xs ! i \<notin> set (drop (Suc i) xs)"
proof
  assume "distinct xs" "i < length xs" "xs ! i \<in> set (drop (Suc i) xs)"
  moreover have "xs ! i \<in> set (take (Suc i) xs)"
    using \<open>i < length xs\<close> by (simp add: take_Suc_conv_app_nth)
  ultimately show False
    using set_take_disj_set_drop_if_distinct [of xs "Suc i" "Suc i"] by blast
qed

text \<open>A dictionary \<open>{f(x): g(x) for x in xs}\<close> with \<open>g\<close> a key of the rows: a row whose
  \<open>f\<close> is shared with a later row is shadowed, no lookup returns its \<open>g\<close>.\<close>

lemma dict_of_shadowed:
  assumes dist: "distinct (map g xs)" and ij: "i < j" "j < length xs"
    and same: "f (xs ! i) = f (xs ! j)"
    and v: "dict_of (map (\<lambda>x. (f x, g x)) xs) k = Some v"
  shows "v \<noteq> g (xs ! i)"
proof
  assume eq: "v = g (xs ! i)"
  let ?kv = "\<lambda>x. (f x, g x)" and ?S = "drop (Suc i) xs"
  have inj: "inj_on g (set xs)" using dist by (simp add: distinct_map)
  have xi: "xs ! i \<in> set xs" using ij by simp
  from v have "(k, v) \<in> set (map ?kv xs)" by (rule dict_of_Some_in)
  then obtain y where y: "y \<in> set xs" "f y = k" "g y = v" by auto
  with eq inj xi have "y = xs ! i" by (metis inj_onD)
  with y have k: "k = f (xs ! j)" using same by simp
  have "xs ! j = ?S ! (j - Suc i)" using ij by simp
  moreover have "j - Suc i < length ?S" using ij by simp
  ultimately have "xs ! j \<in> set ?S" by (metis nth_mem)
  then have key: "k \<in> fst ` set (map ?kv ?S)" using k by force
  have "map ?kv xs = map ?kv (take (Suc i) xs) @ map ?kv ?S"
    by (simp flip: map_append)
  with v key have "dict_of (map ?kv ?S) k = Some v"
    by (simp add: dict_of_append_in)
  then have "(k, v) \<in> set (map ?kv ?S)" by (rule dict_of_Some_in)
  then obtain z where z: "z \<in> set ?S" "g z = v" by auto
  then have "z \<in> set xs" using set_drop_subset by fast
  with z eq inj xi have "z = xs ! i" by (metis inj_onD)
  with z(1) have "xs ! i \<in> set ?S" by simp
  moreover have "distinct xs" using dist by (simp add: distinct_map)
  ultimately show False using nth_notin_drop ij by fastforce
qed

lemma dict_keys_lookup: "k \<in> set (dict_keys kvs) \<Longrightarrow> dict_of kvs k \<noteq> None"
  by (simp add: dict_keys_def dict_of_None_iff)

lemma find_Some_first:
  "find P xs = Some x \<Longrightarrow> x \<in> set xs \<and> P x"
  by (metis find_Some_iff nth_mem)

lemma find_None_iff': "find P xs = None \<longleftrightarrow> (\<forall>x \<in> set xs. \<not> P x)"
  by (induction xs) auto

lemma filter_key_le1: "distinct (map k xs) \<Longrightarrow> length (filter (\<lambda>x. k x = v) xs) \<le> 1"
proof (induction xs)
  case (Cons a xs)
  then have "k a = v \<Longrightarrow> filter (\<lambda>x. k x = v) xs = []"
    by (auto simp: filter_empty_conv image_iff)
  with Cons show ?case by auto
qed simp

lemma concat_map_guard:
  "concat (map (\<lambda>x. if P x then F x else []) xs) = concat (map F (filter P xs))"
  by (induction xs) auto

lemma filter_eq_single: "filter P xs = [r] \<Longrightarrow> r \<in> set xs \<and> P r"
proof -
  assume "filter P xs = [r]"
  then have "r \<in> set (filter P xs)" by simp
  then show ?thesis by simp
qed

lemma dict_of_single_key:
  assumes "[p \<leftarrow> kvs. fst p = k] = [(k, v)]"
  shows "dict_of kvs k = Some v"
proof -
  have "(k, v) \<in> set kvs" using filter_eq_single [OF assms] by simp
  then have "k \<in> fst ` set kvs" by force
  then have "dict_of kvs k \<noteq> None" by (simp add: dict_of_None_iff)
  then obtain v' where v': "dict_of kvs k = Some v'" by blast
  then have "(k, v') \<in> set [p \<leftarrow> kvs. fst p = k]" by (simp add: dict_of_Some_in)
  with assms v' show ?thesis by simp
qed

lemma guarded_concat_le1:
  assumes "length (filter P xs) \<le> 1" and "\<And>x. x \<in> set xs \<Longrightarrow> length (F x) \<le> 1"
  shows "length (concat (map (\<lambda>x. if P x then F x else []) xs)) \<le> 1"
proof (cases "filter P xs")
  case (Cons y ys)
  with assms(1) have "filter P xs = [y]" by simp
  moreover from this have "y \<in> set xs" by (rule conjunct1 [OF filter_eq_single])
  ultimately show ?thesis using assms(2) [of y] by (simp add: concat_map_guard)
qed (simp add: concat_map_guard)

lemma concat_key_distinct:
  assumes "distinct (map h xs)" and "\<And>x. x \<in> set xs \<Longrightarrow> length (F x) \<le> 1"
    and "\<And>x y. x \<in> set xs \<Longrightarrow> y \<in> set (F x) \<Longrightarrow> k y = h x"
  shows "distinct (map k (concat (map F xs)))"
  using assms
proof (induction xs)
  case (Cons x xs)
  have "k y \<noteq> k z" if "y \<in> set (F x)" and "z \<in> set (concat (map F xs))" for y z
  proof -
    from that(2) obtain x' where "x' \<in> set xs" and "z \<in> set (F x')" by auto
    with Cons.prems that(1) show ?thesis by force
  qed
  moreover have "distinct (map k (F x))"
    using Cons.prems(2) [of x] by (cases "F x") auto
  moreover have "distinct (map k (concat (map F xs)))"
    using Cons by simp
  ultimately show ?case by (auto simp: image_iff)
qed simp

lemma distinct_map_sort_key: "distinct (map g (sort_key f xs)) = distinct (map g xs)"
  by (simp add: distinct_map)

lemma map_insort_key: "map f (insort_key (\<lambda>y. g (f y)) x xs) = insort_key g (f x) (map f xs)"
  by (induction xs) auto

lemma map_sort_key: "map f (sort_key (\<lambda>y. g (f y)) xs) = sort_key g (map f xs)"
  by (induction xs) (simp_all add: map_insort_key)

lemma length_le1_cases: "length xs \<le> 1 \<Longrightarrow> xs = [] \<or> (\<exists>x. xs = [x])"
  by (cases xs) auto

lemma bex_set_filter: "(\<exists>a \<in> set (filter P xs). Q a) \<longleftrightarrow> (\<exists>a \<in> set xs. P a \<and> Q a)"
  by auto

lemma key_in_image_filter: "k \<in> f ` set xs \<longleftrightarrow> filter (\<lambda>x. f x = k) xs \<noteq> []"
  by (auto simp: filter_empty_conv)

lemma map_comprehension:
  "map g [r. (t', r) \<leftarrow> xs, Q t' r] = [g r. (t', r) \<leftarrow> xs, Q t' r]"
  by (induction xs) auto

lemma comprehension_concat:
  "[g r. (t', r) \<leftarrow> concat xss, Q t' r] = concat (map (\<lambda>xs. [g r. (t', r) \<leftarrow> xs, Q t' r]) xss)"
  by (induction xss) auto

end
