(* ===== verification/Schema.thy ===== *)
theory Schema
  imports Prelude
begin

text \<open>
  The schedule store: the six MySQL tables the handlers of \<open>src/functions.py\<close> read and
  write, as lists of rows in table order, and the statements they issue.  The schema itself
  lives in \<open>db.py\<close> and the database, which are not part of the sources; it is modelled
  from the table and column names the queries use and from the spec (section 3): the
  auto-increment keys \<open>t_id\<close>, \<open>id\<close>, the primary keys \<open>c_id\<close> and \<open>s_id\<close> of the
  text-keyed tables, and the unique key \<open>unique_subject_class\<close> on
  \<open>(subject_id, class_id)\<close> that \<open>manage_teachers\<close> reports by name.  A \<open>SELECT\<close>
  without \<open>ORDER BY\<close> returns the rows in table order; the model fixes that one of the
  orders SQL allows, and every property below that is not about an \<open>ORDER BY\<close> holds
  whatever the order is.
\<close>

datatype status = Present | Absent

type_synonym date = nat

record teacher_row =
  t_id :: teacher_id
  t_name :: string

record class_row =
  c_id :: class_id
  c_name :: string

record subject_row =
  s_id :: subject_id
  s_name :: string

text \<open>A row of \<open>teacher_subject_class\<close>: teacher \<open>tsc_teacher\<close> teaches subject
  \<open>tsc_subject\<close> to class \<open>tsc_class\<close>.\<close>

record tsc_row =
  tsc_id :: row_id
  tsc_teacher :: teacher_id
  tsc_subject :: subject_id
  tsc_class :: class_id

text \<open>A row of \<open>class_timetable\<close>: class \<open>ct_class\<close> has subject \<open>ct_subject\<close> in
  period \<open>ct_period\<close> of day \<open>ct_day\<close>.\<close>

record tt_row =
  ct_id :: row_id
  ct_class :: class_id
  ct_subject :: subject_id
  ct_day :: day_name
  ct_period :: period

text \<open>A row of \<open>teacher_attendence\<close> (the table's name as the code spells it).\<close>

record att_row =
  ta_teacher :: teacher_id
  ta_date :: date
  ta_status :: status

text \<open>The database: one list per table and the next value of each auto-increment key.\<close>

record db =
  tbl_teachers :: "teacher_row list"
  tbl_classes :: "class_row list"
  tbl_subjects :: "subject_row list"
  tbl_tsc :: "tsc_row list"
  tbl_timetable :: "tt_row list"
  tbl_attendance :: "att_row list"
  next_t_id :: nat
  next_tsc_id :: nat
  next_ct_id :: nat

definition empty_db :: db where
  "empty_db = \<lparr>tbl_teachers = [], tbl_classes = [], tbl_subjects = [], tbl_tsc = [],
     tbl_timetable = [], tbl_attendance = [], next_t_id = 1, next_tsc_id = 1, next_ct_id = 1\<rparr>"

section \<open>Statements\<close>

text \<open>\<open>DELETE ... WHERE P\<close> and \<open>UPDATE ... SET f WHERE P\<close> on one table.\<close>

definition sql_delete :: "('r \<Rightarrow> bool) \<Rightarrow> 'r list \<Rightarrow> 'r list" where
  "sql_delete P rs = filter (\<lambda>r. \<not> P r) rs"

definition sql_update :: "('r \<Rightarrow> bool) \<Rightarrow> ('r \<Rightarrow> 'r) \<Rightarrow> 'r list \<Rightarrow> 'r list" where
  "sql_update P f rs = map (\<lambda>r. if P r then f r else r) rs"

lemma set_sql_delete [query_simps]: "set (sql_delete P rs) = {r \<in> set rs. \<not> P r}"
  by (auto simp: sql_delete_def)

lemma sql_delete_Nil [simp]: "sql_delete P [] = []"
  and sql_delete_Cons [simp]:
    "sql_delete P (r # rs) = (if P r then sql_delete P rs else r # sql_delete P rs)"
  by (simp_all add: sql_delete_def)

lemma sql_update_Nil [simp]: "sql_update P f [] = []"
  and sql_update_Cons [simp]:
    "sql_update P f (r # rs) = (if P r then f r else r) # sql_update P f rs"
  by (simp_all add: sql_update_def)

lemma set_sql_update [query_simps]:
  "set (sql_update P f rs) = {f r |r. r \<in> set rs \<and> P r} \<union> {r \<in> set rs. \<not> P r}"
  by (auto simp: sql_update_def)

lemma sql_update_map_id [query_simps]:
  "(\<And>r. P r \<Longrightarrow> g (f r) = g r) \<Longrightarrow> map g (sql_update P f rs) = map g rs"
  by (induction rs) auto

text \<open>\<open>INSERT INTO teachers (t_name) VALUES (%s)\<close>: the key is the next auto-increment
  value.\<close>

definition insert_teacher :: "string \<Rightarrow> db \<Rightarrow> db" where
  "insert_teacher name d =
     d\<lparr>tbl_teachers := tbl_teachers d @ [\<lparr>t_id = next_t_id d, t_name = name\<rparr>],
       next_t_id := Suc (next_t_id d)\<rparr>"

text \<open>
  \<open>INSERT INTO teacher_subject_class (teacher_id, subject_id, class_id)\<close>: refused with
  an \<open>IntegrityError\<close> (here \<open>None\<close>) when the pair \<open>(subject_id, class_id)\<close> is
  already assigned, the unique key \<open>unique_subject_class\<close>.
\<close>

definition insert_tsc :: "teacher_id \<Rightarrow> subject_id \<Rightarrow> class_id \<Rightarrow> db \<Rightarrow> db option" where
  "insert_tsc t s c d =
     (if \<exists>a \<in> set (tbl_tsc d). tsc_subject a = s \<and> tsc_class a = c then None
      else Some (d\<lparr>tbl_tsc := tbl_tsc d @
                     [\<lparr>tsc_id = next_tsc_id d, tsc_teacher = t, tsc_subject = s, tsc_class = c\<rparr>],
                   next_tsc_id := Suc (next_tsc_id d)\<rparr>))"

text \<open>\<open>INSERT INTO class_timetable (class_id, subject_id, day, period)\<close>.\<close>

definition insert_tt :: "class_id \<Rightarrow> subject_id \<Rightarrow> day_name \<Rightarrow> period \<Rightarrow> db \<Rightarrow> db" where
  "insert_tt c s dy p d =
     d\<lparr>tbl_timetable := tbl_timetable d @
          [\<lparr>ct_id = next_ct_id d, ct_class = c, ct_subject = s, ct_day = dy, ct_period = p\<rparr>],
       next_ct_id := Suc (next_ct_id d)\<rparr>"

text \<open>\<open>INSERT INTO classes\<close> and \<open>INSERT INTO subjects\<close>: refused (\<open>None\<close>) on a
  duplicate primary key.\<close>

definition insert_class :: "class_id \<Rightarrow> string \<Rightarrow> db \<Rightarrow> db option" where
  "insert_class k n d =
     (if k \<in> c_id ` set (tbl_classes d) then None
      else Some (d\<lparr>tbl_classes := tbl_classes d @ [\<lparr>c_id = k, c_name = n\<rparr>]\<rparr>))"

definition insert_subject :: "subject_id \<Rightarrow> string \<Rightarrow> db \<Rightarrow> db option" where
  "insert_subject k n d =
     (if k \<in> s_id ` set (tbl_subjects d) then None
      else Some (d\<lparr>tbl_subjects := tbl_subjects d @ [\<lparr>s_id = k, s_name = n\<rparr>]\<rparr>))"

text \<open>\<open>INSERT INTO teacher_attendence (teacher_id, date, status)\<close>: no key of its own.\<close>

definition insert_att :: "teacher_id \<Rightarrow> date \<Rightarrow> status \<Rightarrow> db \<Rightarrow> db" where
  "insert_att t dt st d =
     d\<lparr>tbl_attendance := tbl_attendance d @ [\<lparr>ta_teacher = t, ta_date = dt, ta_status = st\<rparr>]\<rparr>"

lemmas insert_defs [query_simps] =
  insert_teacher_def insert_tsc_def insert_tt_def insert_class_def insert_subject_def
  insert_att_def

end
