(* ===== verification/Catalog.thy ===== *)
theory Catalog
  imports Schema
begin

text \<open>
  The class and subject forms, \<open>manage_classes\<close> (lines 370-403) and
  \<open>manage_subjects\<close> (lines 405-439) of \<open>src/functions.py\<close>.  Each lists its table with a
  delete button per row and has an add form of two text inputs; the insert runs only when
  both inputs are non-empty, and a failed insert (a duplicate primary key) is caught and
  shown as an error, leaving the table as it was.  Deleting a class or a subject deletes
  only that row: assignments and timetable rows that name it stay.
\<close>

datatype catalog_action = Cat_view | Cat_delete string | Cat_add string string

definition manage_classes :: "db \<Rightarrow> catalog_action \<Rightarrow> db" where
  "manage_classes d act =
     (case act of
        Cat_view \<Rightarrow> d
      | Cat_delete k \<Rightarrow>
          (if k \<in> c_id ` set (tbl_classes d)
           then d\<lparr>tbl_classes := sql_delete (\<lambda>c. c_id c = k) (tbl_classes d)\<rparr> else d)
      | Cat_add k n \<Rightarrow>
          (if k \<noteq> [] \<and> n \<noteq> []
           then (case insert_class k n d of None \<Rightarrow> d | Some d' \<Rightarrow> d') else d))"

definition manage_subjects :: "db \<Rightarrow> catalog_action \<Rightarrow> db" where
  "manage_subjects d act =
     (case act of
        Cat_view \<Rightarrow> d
      | Cat_delete k \<Rightarrow>
          (if k \<in> s_id ` set (tbl_subjects d)
           then d\<lparr>tbl_subjects := sql_delete (\<lambda>s. s_id s = k) (tbl_subjects d)\<rparr> else d)
      | Cat_add k n \<Rightarrow>
          (if k \<noteq> [] \<and> n \<noteq> []
           then (case insert_subject k n d of None \<Rightarrow> d | Some d' \<Rightarrow> d') else d))"

section \<open>The invariant\<close>

definition catalog_wf :: "db \<Rightarrow> bool" where
  "catalog_wf d \<longleftrightarrow> distinct (map c_id (tbl_classes d)) \<and> distinct (map s_id (tbl_subjects d))"

lemma manage_classes_wf: "catalog_wf d \<Longrightarrow> catalog_wf (manage_classes d act)"
  by (auto simp: catalog_wf_def manage_classes_def insert_class_def sql_delete_def
      distinct_map_filter split: catalog_action.splits option.splits if_splits)

lemma manage_subjects_wf: "catalog_wf d \<Longrightarrow> catalog_wf (manage_subjects d act)"
  by (auto simp: catalog_wf_def manage_subjects_def insert_subject_def sql_delete_def
      distinct_map_filter split: catalog_action.splits option.splits if_splits)

lemma manage_classes_frame: "\<exists>cs. manage_classes d act = d\<lparr>tbl_classes := cs\<rparr>"
proof -
  have "manage_classes d act = d\<lparr>tbl_classes := tbl_classes (manage_classes d act)\<rparr>"
    by (cases d) (auto simp: manage_classes_def insert_class_def
        split: catalog_action.splits option.splits if_splits)
  then show ?thesis ..
qed

lemma manage_subjects_frame: "\<exists>ss. manage_subjects d act = d\<lparr>tbl_subjects := ss\<rparr>"
proof -
  have "manage_subjects d act = d\<lparr>tbl_subjects := tbl_subjects (manage_subjects d act)\<rparr>"
    by (cases d) (auto simp: manage_subjects_def insert_subject_def
        split: catalog_action.splits option.splits if_splits)
  then show ?thesis ..
qed

end
