(* ===== verification/Calendar.thy ===== *)
theory Calendar
  imports Schema
begin

text \<open>
  Dates and day names.  A date is its proleptic Gregorian ordinal, as Python's
  \<open>date.toordinal()\<close> numbers it (day 1 is Monday, 1 January of year 1); MySQL's
  \<open>CURDATE()\<close> and Python's \<open>date.today()\<close> both give the date of the request, and
  \<open>DAYNAME\<close> its English weekday name, \<open>(ordinal + 6) mod 7\<close> counted from Monday as
  in \<open>date.weekday()\<close>.  The school days are the six names the timetable form offers
  (\<open>manage_class_timetable\<close>), Monday to Saturday.
\<close>

definition week_days :: "day_name list" where
  "week_days = [''Monday'', ''Tuesday'', ''Wednesday'', ''Thursday'', ''Friday'', ''Saturday'',
     ''Sunday'']"

definition dayname :: "date \<Rightarrow> day_name" where
  "dayname d = week_days ! ((d + 6) mod 7)"

definition school_days :: "day_name list" where
  "school_days = [''Monday'', ''Tuesday'', ''Wednesday'', ''Thursday'', ''Friday'', ''Saturday'']"

lemma distinct_week_days: "distinct week_days"
  by (simp add: week_days_def)
lemma dayname_in_week_days: "dayname d \<in> set week_days"
  unfolding dayname_def by (rule nth_mem) (simp add: week_days_def)
lemma dayname_add_week: "dayname (d + 7) = dayname d"
proof -
  have "(d + 7 + 6) mod 7 = (d + 6) mod 7" by presburger
  then show ?thesis by (simp only: dayname_def)
qed
lemma dayname_Sunday_iff: "dayname d = ''Sunday'' \<longleftrightarrow> d mod 7 = 0"
proof -
  have len: "length week_days = 7" by (simp add: week_days_def)
  have sun: "''Sunday'' = week_days ! 6" by (simp add: week_days_def)
  have "dayname d = week_days ! 6 \<longleftrightarrow> (d + 6) mod 7 = 6"
    unfolding dayname_def using distinct_week_days len
    by (simp add: nth_eq_iff_index_eq)
  also have "\<dots> \<longleftrightarrow> d mod 7 = 0" by presburger
  finally show ?thesis by (simp only: sun)
qed
lemma week_days_school_days: "week_days = school_days @ [''Sunday'']"
  by (simp add: week_days_def school_days_def)
lemma dayname_school_day_iff: "dayname d \<in> set school_days \<longleftrightarrow> d mod 7 \<noteq> 0"
proof -
  have "''Sunday'' \<notin> set school_days" by (simp add: school_days_def)
  then show ?thesis
    using dayname_in_week_days [of d] dayname_Sunday_iff [of d]
    unfolding week_days_school_days by auto
qed
end
