(* ===== verification/Substitution.thy ===== *)
theory Substitution
  imports Calendar
begin

text \<open>
  The substitution engine, \<open>find_substitutions\<close> in \<open>src/functions.py\<close>: the three
  queries it issues (absent teachers of the day, the periods the selected teacher misses,
  the teachers free in one period) and the pipeline that connects them through the
  absentee select box.  The date of the request is the parameter \<open>today\<close>, which stands
  for both \<open>CURDATE()\<close> in the SQL and the day of the request.
\<close>

section \<open>The join that says who teaches a slot\<close>

text \<open>A timetable slot is taught by the teacher whose assignment has the slot's class and
  subject: \<open>tsc.class_id = ct.class_id AND tsc.subject_id = ct.subject_id\<close>.\<close>

definition teaches :: "tsc_row \<Rightarrow> tt_row \<Rightarrow> bool" where
  "teaches a ct \<longleftrightarrow> tsc_class a = ct_class ct \<and> tsc_subject a = ct_subject ct"

section \<open>Step 1: the absent teachers of the day\<close>

text \<open>
  \<open>SELECT DISTINCT t.t_id, t.t_name FROM teacher_attendence ta JOIN teachers t ON
  ta.teacher_id = t.t_id WHERE ta.status = 'Absent' AND ta.date = CURDATE()\<close>.
\<close>

definition absentees :: "db \<Rightarrow> date \<Rightarrow> teacher_row list" where
  "absentees d today =
     remdups [t. a \<leftarrow> tbl_attendance d, ta_status a = Absent \<and> ta_date a = today,
                 t \<leftarrow> tbl_teachers d, ta_teacher a = t_id t]"

section \<open>Step 2: the periods the absent teacher misses\<close>

text \<open>One row of the missed-period query, and of the timetable views.\<close>

record slot_info =
  si_class :: class_id
  si_c_name :: string
  si_subject :: subject_id
  si_s_name :: string
  si_day :: day_name
  si_period :: period

text \<open>
  \<open>SELECT ct.class_id, c.c_name, ct.subject_id, s.s_name, ct.day, ct.period FROM
  class_timetable ct JOIN teacher_subject_class tsc ON ... JOIN classes c ON c.c_id =
  ct.class_id JOIN subjects s ON s.s_id = ct.subject_id WHERE tsc.teacher_id = %s AND
  ct.day = DAYNAME(CURDATE()) ORDER BY ct.period\<close>; \<open>sort_key\<close> is a stable sort, so
  rows of one period keep table order, one of the orders \<open>ORDER BY\<close> allows.
\<close>

definition slot_join :: "db \<Rightarrow> (teacher_id \<times> slot_info) list" where
  "slot_join d =
     [(tsc_teacher a, \<lparr>si_class = ct_class ct, si_c_name = c_name c, si_subject = ct_subject ct,
        si_s_name = s_name s, si_day = ct_day ct, si_period = ct_period ct\<rparr>).
        ct \<leftarrow> tbl_timetable d, a \<leftarrow> tbl_tsc d, teaches a ct,
        c \<leftarrow> tbl_classes d, c_id c = ct_class ct,
        s \<leftarrow> tbl_subjects d, s_id s = ct_subject ct]"

definition missed_classes :: "db \<Rightarrow> date \<Rightarrow> teacher_id \<Rightarrow> slot_info list" where
  "missed_classes d today t =
     sort_key si_period [r. (t', r) \<leftarrow> slot_join d, t' = t \<and> si_day r = dayname today]"

section \<open>Step 3: the teachers free in a period\<close>

text \<open>The teachers who teach some class in the period:
  \<open>SELECT tsc.teacher_id FROM teacher_subject_class tsc JOIN class_timetable ct ON ...
  WHERE ct.day = DAYNAME(CURDATE()) AND ct.period = %s\<close>.\<close>

definition busy_teachers :: "db \<Rightarrow> date \<Rightarrow> period \<Rightarrow> teacher_id list" where
  "busy_teachers d today p =
     [tsc_teacher a. a \<leftarrow> tbl_tsc d, ct \<leftarrow> tbl_timetable d,
        teaches a ct \<and> ct_day ct = dayname today \<and> ct_period ct = p]"

text \<open>\<open>SELECT teacher_id FROM teacher_attendence WHERE date = CURDATE() AND status =
  'Absent'\<close>.\<close>

definition absent_ids :: "db \<Rightarrow> date \<Rightarrow> teacher_id list" where
  "absent_ids d today =
     [ta_teacher a. a \<leftarrow> tbl_attendance d, ta_date a = today \<and> ta_status a = Absent]"

text \<open>\<open>SELECT t.t_id, t.t_name FROM teachers t WHERE t.t_id NOT IN (busy) AND t.t_id != %s
  AND t.t_id NOT IN (absent)\<close>.\<close>

definition free_teachers :: "db \<Rightarrow> date \<Rightarrow> teacher_id \<Rightarrow> period \<Rightarrow> teacher_row list" where
  "free_teachers d today t p =
     [x \<leftarrow> tbl_teachers d. t_id x \<notin> set (busy_teachers d today p) \<and> t_id x \<noteq> t
        \<and> t_id x \<notin> set (absent_ids d today)]"

section \<open>The pipeline\<close>

text \<open>
  What the page shows: the success message when nobody is absent, the information message
  when the selected teacher has no period that day, or, for each missed period in order,
  the period and its available teachers (an empty list is the warning "No available
  substitute found for this period").
\<close>

datatype subst_report =
    All_present
  | No_periods
  | Suggestions "(slot_info \<times> teacher_row list) list"

text \<open>Steps 2 and 3 for the teacher the select box resolved to.\<close>

definition substitutions_for :: "db \<Rightarrow> date \<Rightarrow> teacher_id \<Rightarrow> subst_report" where
  "substitutions_for d today t =
     (let missed = missed_classes d today t in
      if missed = [] then No_periods
      else Suggestions (map (\<lambda>r. (r, free_teachers d today t (si_period r))) missed))"

text \<open>
  \<open>sel\<close> is the name the absentee select box returns; the code maps it back to an id with
  \<open>next(t["t_id"] for t in absentees if t["t_name"] == selected_teacher)\<close>, which
  raises \<open>StopIteration\<close> when no absentee has that name.
\<close>

definition selected_absentee :: "db \<Rightarrow> date \<Rightarrow> string \<Rightarrow> teacher_row option" where
  "selected_absentee d today sel = find (\<lambda>x. t_name x = sel) (absentees d today)"

definition find_substitutions :: "db \<Rightarrow> date \<Rightarrow> string \<Rightarrow> py_error + subst_report" where
  "find_substitutions d today sel =
     (if absentees d today = [] then Inr All_present
      else case selected_absentee d today sel of
        None \<Rightarrow> Inl Stop_iteration
      | Some x \<Rightarrow> Inr (substitutions_for d today (t_id x)))"

section \<open>The specification of the engine\<close>

text \<open>
  The spec's sets (section 4.3): the teachers teaching at a day and period, derived by the
  assignment/timetable join; the teachers with an \<open>Absent\<close> record on a date; and the
  eligible substitutes, all teachers minus those two sets minus the absent teacher.
\<close>

definition teaching_at :: "db \<Rightarrow> day_name \<Rightarrow> period \<Rightarrow> teacher_id set" where
  "teaching_at d dy p =
     {tsc_teacher a |a ct. a \<in> set (tbl_tsc d) \<and> ct \<in> set (tbl_timetable d) \<and> teaches a ct
        \<and> ct_day ct = dy \<and> ct_period ct = p}"

definition absent_on :: "db \<Rightarrow> date \<Rightarrow> teacher_id set" where
  "absent_on d dt = {ta_teacher a |a. a \<in> set (tbl_attendance d) \<and> ta_date a = dt \<and> ta_status a = Absent}"

definition eligible :: "db \<Rightarrow> date \<Rightarrow> teacher_id \<Rightarrow> period \<Rightarrow> teacher_id set" where
  "eligible d today t p =
     t_id ` set (tbl_teachers d) - teaching_at d (dayname today) p - {t} - absent_on d today"

text \<open>The absent teacher's lessons of the day in the spec's sense: a timetable row of
  today whose subject and class the teacher is assigned, for a class and a subject that
  exist.\<close>

definition lesson_today :: "db \<Rightarrow> date \<Rightarrow> teacher_id \<Rightarrow> tt_row \<Rightarrow> bool" where
  "lesson_today d today t ct \<longleftrightarrow> ct_day ct = dayname today
     \<and> (\<exists>a \<in> set (tbl_tsc d). teaches a ct \<and> tsc_teacher a = t)
     \<and> ct_class ct \<in> c_id ` set (tbl_classes d) \<and> ct_subject ct \<in> s_id ` set (tbl_subjects d)"

section \<open>What the queries compute\<close>

lemma set_absent_ids [query_simps]: "set (absent_ids d today) = absent_on d today"
  by (auto simp: absent_ids_def absent_on_def)

lemma set_busy_teachers [query_simps]:
  "set (busy_teachers d today p) = teaching_at d (dayname today) p"
  by (auto simp: busy_teachers_def teaching_at_def)

lemma set_absentees [query_simps]:
  "set (absentees d today) = {x \<in> set (tbl_teachers d). t_id x \<in> absent_on d today}"
  by (auto simp: absentees_def absent_on_def) (metis)

lemma set_free_teachers [query_simps]:
  "set (free_teachers d today t p) = {x \<in> set (tbl_teachers d). t_id x \<in> eligible d today t p}"
  by (auto simp: free_teachers_def eligible_def query_simps)

lemma mem_slot_join:
  "(t, r) \<in> set (slot_join d) \<longleftrightarrow>
     (\<exists>ct \<in> set (tbl_timetable d). \<exists>a \<in> set (tbl_tsc d). \<exists>c \<in> set (tbl_classes d).
      \<exists>s \<in> set (tbl_subjects d). teaches a ct \<and> c_id c = ct_class ct \<and> s_id s = ct_subject ct
        \<and> t = tsc_teacher a
        \<and> r = \<lparr>si_class = ct_class ct, si_c_name = c_name c, si_subject = ct_subject ct,
               si_s_name = s_name s, si_day = ct_day ct, si_period = ct_period ct\<rparr>)"
  by (auto simp: slot_join_def)

lemma set_missed_classes [query_simps]:
  "set (missed_classes d today t) = {r. (t, r) \<in> set (slot_join d) \<and> si_day r = dayname today}"
  by (auto simp: missed_classes_def)

lemma selected_absentee_in:
  "selected_absentee d today sel = Some x \<Longrightarrow> x \<in> set (absentees d today) \<and> t_name x = sel"
  unfolding selected_absentee_def by (rule find_Some_first)

lemma eligible_subset: "eligible d today t p \<subseteq> t_id ` set (tbl_teachers d)"
  by (auto simp: eligible_def)

lemma free_teachers_ids [query_simps]:
  "t_id ` set (free_teachers d today t p) = eligible d today t p"
  using eligible_subset [of d today t p] by (auto simp: set_free_teachers)

lemma find_substitutions_cases:
  "find_substitutions d today sel = Inr rep \<Longrightarrow>
     (absentees d today = [] \<and> rep = All_present) \<or>
     (\<exists>x. selected_absentee d today sel = Some x \<and> rep = substitutions_for d today (t_id x))"
  by (auto simp: find_substitutions_def split: if_splits option.splits)

lemma substitutions_for_Suggestions:
  "substitutions_for d today t = Suggestions xs \<longleftrightarrow>
     missed_classes d today t \<noteq> []
     \<and> xs = map (\<lambda>r. (r, free_teachers d today t (si_period r))) (missed_classes d today t)"
  by (auto simp: substitutions_for_def Let_def)

lemma find_substitutions_suggestions_core:
  assumes "find_substitutions d today sel = Inr (Suggestions xs)"
  obtains x where "selected_absentee d today sel = Some x"
    and "missed_classes d today (t_id x) \<noteq> []"
    and "xs = map (\<lambda>r. (r, free_teachers d today (t_id x) (si_period r)))
                (missed_classes d today (t_id x))"
proof -
  from find_substitutions_cases [OF assms] obtain x
    where "selected_absentee d today sel = Some x"
      and "Suggestions xs = substitutions_for d today (t_id x)"
    by auto
  with that show ?thesis using substitutions_for_Suggestions by metis
qed

lemma mem_suggestions:
  "(r, subs) \<in> set (map (\<lambda>r. (r, free_teachers d today t (si_period r))) rs) \<longleftrightarrow>
     r \<in> set rs \<and> subs = free_teachers d today t (si_period r)"
  by auto

lemma suggestion_free:
  assumes "find_substitutions d today sel = Inr (Suggestions xs)" and "(r, subs) \<in> set xs"
  obtains y where "selected_absentee d today sel = Some y"
    and "subs = free_teachers d today (t_id y) (si_period r)"
proof -
  obtain y where "selected_absentee d today sel = Some y"
    and xs: "xs = map (\<lambda>r. (r, free_teachers d today (t_id y) (si_period r)))
                         (missed_classes d today (t_id y))"
    using find_substitutions_suggestions_core [OF assms(1)] .
  with assms(2) that show ?thesis by auto
qed

text \<open>With the keys of assignments, classes and subjects, the four-table join yields at
  most one row per timetable row.\<close>

lemma slot_rows_one:
  assumes tsc: "distinct (map (\<lambda>a. (tsc_subject a, tsc_class a)) (tbl_tsc d))"
    and cls: "distinct (map c_id (tbl_classes d))" and sub: "distinct (map s_id (tbl_subjects d))"
  shows "[(si_class r, si_subject r, si_period r). (t', r) \<leftarrow>
            [(tsc_teacher a, \<lparr>si_class = ct_class ct, si_c_name = c_name c, si_subject = ct_subject ct,
               si_s_name = s_name s, si_day = ct_day ct, si_period = ct_period ct\<rparr>).
               a \<leftarrow> tbl_tsc d, teaches a ct, c \<leftarrow> tbl_classes d, c_id c = ct_class ct,
               s \<leftarrow> tbl_subjects d, s_id s = ct_subject ct],
            t' = t \<and> si_day r = dayname today]
         = (if ct_day ct = dayname today
               \<and> (\<exists>a \<in> set (filter (\<lambda>a. teaches a ct) (tbl_tsc d)). tsc_teacher a = t)
               \<and> filter (\<lambda>c. c_id c = ct_class ct) (tbl_classes d) \<noteq> []
               \<and> filter (\<lambda>s. s_id s = ct_subject ct) (tbl_subjects d) \<noteq> []
            then [(ct_class ct, ct_subject ct, ct_period ct)] else [])"
proof -
  have "teaches a ct \<longleftrightarrow> (tsc_subject a, tsc_class a) = (ct_subject ct, ct_class ct)" for a
    by (auto simp: teaches_def)
  then have A: "length (filter (\<lambda>a. teaches a ct) (tbl_tsc d)) \<le> 1"
    using filter_key_le1 [OF tsc, of "(ct_subject ct, ct_class ct)"] by simp
  have C: "length (filter (\<lambda>c. c_id c = ct_class ct) (tbl_classes d)) \<le> 1"
    by (rule filter_key_le1 [OF cls])
  have S: "length (filter (\<lambda>s. s_id s = ct_subject ct) (tbl_subjects d)) \<le> 1"
    by (rule filter_key_le1 [OF sub])
  show ?thesis
    using length_le1_cases [OF A] length_le1_cases [OF C] length_le1_cases [OF S]
    by (elim disjE exE; simp add: concat_map_guard)
qed

section \<open>Scenario A of the spec\<close>

text \<open>Three teachers; \<open>T1\<close> is absent on Monday 6 January 2025 (ordinal 739257) and
  teaches class \<open>C1\<close> in period 2, when \<open>T2\<close> teaches \<open>C2\<close>; \<open>T3\<close> is free.\<close>

definition scen_monday :: date where
  "scen_monday = 739257"

definition scen_a :: db where
  "scen_a =
     \<lparr>tbl_teachers = [\<lparr>t_id = 1, t_name = ''T1''\<rparr>, \<lparr>t_id = 2, t_name = ''T2''\<rparr>,
                      \<lparr>t_id = 3, t_name = ''T3''\<rparr>],
      tbl_classes = [\<lparr>c_id = ''C1'', c_name = ''1A''\<rparr>, \<lparr>c_id = ''C2'', c_name = ''2B''\<rparr>],
      tbl_subjects = [\<lparr>s_id = ''S1'', s_name = ''Maths''\<rparr>, \<lparr>s_id = ''S2'', s_name = ''Art''\<rparr>],
      tbl_tsc = [\<lparr>tsc_id = 1, tsc_teacher = 1, tsc_subject = ''S1'', tsc_class = ''C1''\<rparr>,
                 \<lparr>tsc_id = 2, tsc_teacher = 2, tsc_subject = ''S2'', tsc_class = ''C2''\<rparr>],
      tbl_timetable =
        [\<lparr>ct_id = 1, ct_class = ''C1'', ct_subject = ''S1'', ct_day = ''Monday'', ct_period = 2\<rparr>,
         \<lparr>ct_id = 2, ct_class = ''C2'', ct_subject = ''S2'', ct_day = ''Monday'', ct_period = 2\<rparr>],
      tbl_attendance = [\<lparr>ta_teacher = 1, ta_date = scen_monday, ta_status = Absent\<rparr>],
      next_t_id = 4, next_tsc_id = 3, next_ct_id = 3\<rparr>"

definition scen_a_slot :: slot_info where
  "scen_a_slot = \<lparr>si_class = ''C1'', si_c_name = ''1A'', si_subject = ''S1'', si_s_name = ''Maths'',
     si_day = ''Monday'', si_period = 2\<rparr>"

text \<open>Two absent teachers who share the name \<open>Smith\<close>.\<close>

definition scen_dup :: db where
  "scen_dup =
     scen_a\<lparr>tbl_teachers := [\<lparr>t_id = 1, t_name = ''Smith''\<rparr>, \<lparr>t_id = 2, t_name = ''Smith''\<rparr>],
            tbl_attendance := [\<lparr>ta_teacher = 1, ta_date = scen_monday, ta_status = Absent\<rparr>,
                               \<lparr>ta_teacher = 2, ta_date = scen_monday, ta_status = Absent\<rparr>]\<rparr>"

lemmas scen_a_defs = scen_a_def scen_monday_def scen_a_slot_def

lemma scen_a_dayname: "dayname scen_monday = ''Monday''"
  by (simp add: scen_monday_def dayname_def week_days_def)

lemma scen_a_absentees: "absentees scen_a scen_monday = [\<lparr>t_id = 1, t_name = ''T1''\<rparr>]"
  by (simp add: absentees_def scen_a_defs)

lemma scen_a_report:
  "find_substitutions scen_a scen_monday ''T1'' =
     Inr (Suggestions [(scen_a_slot, [\<lparr>t_id = 3, t_name = ''T3''\<rparr>])])"
proof -
  have sel: "selected_absentee scen_a scen_monday ''T1'' = Some \<lparr>t_id = 1, t_name = ''T1''\<rparr>"
    by (simp add: selected_absentee_def scen_a_absentees)
  have "substitutions_for scen_a scen_monday 1 =
          Suggestions [(scen_a_slot, [\<lparr>t_id = 3, t_name = ''T3''\<rparr>])]"
    by (simp add: substitutions_for_def missed_classes_def slot_join_def free_teachers_def
        busy_teachers_def absent_ids_def teaches_def dayname_def week_days_def scen_a_defs)
  then show ?thesis
    by (simp add: find_substitutions_def scen_a_absentees sel)
qed

section \<open>Correctness of the engine\<close>

text \<open>
  C1: when the page lists suggestions, they are for an absent teacher with the selected
  name; the listed periods are exactly that teacher's missed periods of the day, in the
  query's order, and the teachers offered for each period are exactly the spec's eligible
  set for that period: all teachers, minus those teaching then, minus the absent teacher,
  minus those marked absent that day.
\<close>

theorem find_substitutions_suggestions:
  assumes "find_substitutions d today sel = Inr (Suggestions xs)"
  shows "\<exists>x \<in> set (absentees d today). t_name x = sel
           \<and> xs \<noteq> [] \<and> map fst xs = missed_classes d today (t_id x)
           \<and> (\<forall>(r, subs) \<in> set xs. t_id ` set subs = eligible d today (t_id x) (si_period r))"
proof -
  obtain x where sel: "selected_absentee d today sel = Some x"
    and "missed_classes d today (t_id x) \<noteq> []"
    and "xs = map (\<lambda>r. (r, free_teachers d today (t_id x) (si_period r)))
                (missed_classes d today (t_id x))"
    using find_substitutions_suggestions_core [OF assms] .
  with selected_absentee_in [OF sel] show ?thesis
    by (auto simp: free_teachers_ids comp_def)
qed

theorem find_substitutions_suggestions_witness:
  "find_substitutions scen_a scen_monday ''T1'' =
     Inr (Suggestions [(scen_a_slot, [\<lparr>t_id = 3, t_name = ''T3''\<rparr>])])
   \<and> eligible scen_a scen_monday 1 2 = {3}"
proof -
  from find_substitutions_suggestions [OF scen_a_report]
  have "t_id ` set [\<lparr>t_id = 3, t_name = ''T3''\<rparr>] = eligible scen_a scen_monday 1 2"
    by (auto simp: scen_a_absentees scen_a_slot_def)
  with scen_a_report show ?thesis by simp
qed

text \<open>
  C2: the free-teacher query refines the spec's eligible set: it returns the rows of the
  \<open>teachers\<close> table, in table order, whose id is eligible.
\<close>

theorem free_teachers_refines_eligible:
  "free_teachers d today t p = filter (\<lambda>x. t_id x \<in> eligible d today t p) (tbl_teachers d)"
  unfolding free_teachers_def
  by (rule filter_cong) (auto simp: eligible_def query_simps)

text \<open>
  C3: the missed periods are the absent teacher's lessons of the day, each exactly once, in
  ascending period order: with the keys of assignments, classes and subjects the join
  neither loses nor duplicates a lesson, and \<open>ORDER BY ct.period\<close> orders them.
\<close>

theorem missed_classes_lessons:
  assumes tsc: "distinct (map (\<lambda>a. (tsc_subject a, tsc_class a)) (tbl_tsc d))"
    and cls: "distinct (map c_id (tbl_classes d))" and sub: "distinct (map s_id (tbl_subjects d))"
  shows "map (\<lambda>r. (si_class r, si_subject r, si_period r)) (missed_classes d today t) =
     sort_key (\<lambda>(c, s, p). p)
       [(ct_class ct, ct_subject ct, ct_period ct). ct \<leftarrow> tbl_timetable d, lesson_today d today t ct]"
proof -
  let ?f = "\<lambda>r. (si_class r, si_subject r, si_period r)"
  let ?L = "[r. (t', r) \<leftarrow> slot_join d, t' = t \<and> si_day r = dayname today]"
  define R where "R ct = [(tsc_teacher a, \<lparr>si_class = ct_class ct, si_c_name = c_name c,
      si_subject = ct_subject ct, si_s_name = s_name s, si_day = ct_day ct, si_period = ct_period ct\<rparr>).
      a \<leftarrow> tbl_tsc d, teaches a ct, c \<leftarrow> tbl_classes d, c_id c = ct_class ct,
      s \<leftarrow> tbl_subjects d, s_id s = ct_subject ct]" for ct
  have sj: "slot_join d = concat (map R (tbl_timetable d))"
    by (simp only: slot_join_def R_def [abs_def])
  have "map ?f (missed_classes d today t) = sort_key (\<lambda>(c, s, p). p) (map ?f ?L)"
    using map_sort_key [of ?f "\<lambda>(c, s, p). p" ?L] by (simp add: missed_classes_def)
  also have "map ?f ?L = [?f r. (t', r) \<leftarrow> slot_join d, t' = t \<and> si_day r = dayname today]"
    by (rule map_comprehension)
  also have "\<dots> = concat (map (\<lambda>ct. [?f r. (t', r) \<leftarrow> R ct, t' = t \<and> si_day r = dayname today])
                         (tbl_timetable d))"
    by (simp only: sj comprehension_concat map_map o_def)
  also have "\<dots> = [(ct_class ct, ct_subject ct, ct_period ct). ct \<leftarrow> tbl_timetable d, lesson_today d today t ct]"
    unfolding R_def slot_rows_one [OF assms]
    by (simp add: lesson_today_def bex_set_filter key_in_image_filter Bex_def)
  finally show ?thesis .
qed
 
theorem missed_classes_lessons_witness:
  "map (\<lambda>r. (si_class r, si_subject r, si_period r)) (missed_classes scen_a scen_monday 1) =
     [(''C1'', ''S1'', 2)]"
proof -
  have "distinct (map (\<lambda>a. (tsc_subject a, tsc_class a)) (tbl_tsc scen_a))"
    and "distinct (map c_id (tbl_classes scen_a))" and "distinct (map s_id (tbl_subjects scen_a))"
    by (simp_all add: scen_a_def)
  from missed_classes_lessons [OF this, of scen_monday 1] show ?thesis
    by (simp add: lesson_today_def scen_a_dayname teaches_def scen_a_def)
qed

text \<open>
  C4: no teacher with an \<open>Absent\<close> record on the day of the request is ever offered as a
  substitute, for any missed period.
\<close>

theorem suggestions_exclude_absent:
  assumes "find_substitutions d today sel = Inr (Suggestions xs)"
    and "(r, subs) \<in> set xs" and "x \<in> set subs"
  shows "t_id x \<notin> absent_on d today"
proof -
  obtain y where "selected_absentee d today sel = Some y"
    and "subs = free_teachers d today (t_id y) (si_period r)"
    using suggestion_free [OF assms(1,2)] .
  with assms(3) have "t_id x \<in> eligible d today (t_id y) (si_period r)"
    by (simp add: set_free_teachers)
  then show ?thesis by (simp add: eligible_def)
qed

theorem suggestions_exclude_absent_witness:
  "t_id \<lparr>t_id = 3, t_name = ''T3''\<rparr> \<notin> absent_on scen_a scen_monday"
  using suggestions_exclude_absent [OF scen_a_report, of scen_a_slot "[\<lparr>t_id = 3, t_name = ''T3''\<rparr>]"]
  by simp

text \<open>
  C6: a teacher who teaches some class in a period, by the assignment/timetable join on
  the weekday of the request, is never offered as a substitute for that period.
\<close>

theorem suggestions_exclude_busy:
  assumes "find_substitutions d today sel = Inr (Suggestions xs)"
    and "(r, subs) \<in> set xs" and "x \<in> set subs"
  shows "t_id x \<notin> teaching_at d (dayname today) (si_period r)"
proof -
  obtain y where "selected_absentee d today sel = Some y"
    and "subs = free_teachers d today (t_id y) (si_period r)"
    using suggestion_free [OF assms(1,2)] .
  with assms(3) show ?thesis by (simp add: set_free_teachers eligible_def)
qed

theorem suggestions_exclude_busy_witness:
  "3 \<notin> teaching_at scen_a ''Monday'' 2"
  using suggestions_exclude_busy [OF scen_a_report, of scen_a_slot "[\<lparr>t_id = 3, t_name = ''T3''\<rparr>]"]
  by (simp add: scen_a_dayname scen_a_slot_def)

text \<open>
  C7: the page reports that all teachers are present exactly when no teacher of the
  \<open>teachers\<close> table has an \<open>Absent\<close> record for the day (attendance rows of deleted
  teachers do not count).
\<close>

theorem find_substitutions_all_present:
  "find_substitutions d today sel = Inr All_present \<longleftrightarrow>
     (\<forall>x \<in> set (tbl_teachers d). t_id x \<notin> absent_on d today)"
proof -
  have "find_substitutions d today sel = Inr All_present \<longleftrightarrow> absentees d today = []"
    by (auto simp: find_substitutions_def substitutions_for_def Let_def split: option.splits)
  also have "\<dots> \<longleftrightarrow> set (absentees d today) = {}" by simp
  also have "\<dots> \<longleftrightarrow> (\<forall>x \<in> set (tbl_teachers d). t_id x \<notin> absent_on d today)"
    by (auto simp: set_absentees)
  finally show ?thesis .
qed

theorem find_substitutions_all_present_witness:
  "find_substitutions (scen_a\<lparr>tbl_attendance := []\<rparr>) scen_monday ''T1'' = Inr All_present"
  by (rule find_substitutions_all_present [THEN iffD2]) (simp add: absent_on_def)

text \<open>
  C8: the only error of the engine is the \<open>StopIteration\<close> of \<open>next\<close>, raised exactly
  when some teacher is absent and the selected name is not an absentee's name; a
  selection from the select box's options never fails.
\<close>

theorem find_substitutions_error_iff:
  "find_substitutions d today sel = Inl e \<longleftrightarrow>
     e = Stop_iteration \<and> absentees d today \<noteq> [] \<and> sel \<notin> t_name ` set (absentees d today)"
  by (auto simp: find_substitutions_def selected_absentee_def find_None_iff' split: option.splits
      dest: find_Some_first)

theorem find_substitutions_error_iff_witness:
  "find_substitutions scen_a scen_monday ''T2'' = Inl Stop_iteration"
  by (rule find_substitutions_error_iff [THEN iffD2]) (simp add: scen_a_absentees)

text \<open>
  C9: the select box offers names, and the code resolves a name to the first absentee
  that has it: an absentee whose name an earlier absentee also has can never be selected.
\<close>

theorem duplicate_name_unselectable:
  assumes "i < j" and "j < length (absentees d today)"
    and "t_name (absentees d today ! i) = t_name (absentees d today ! j)"
  shows "selected_absentee d today sel \<noteq> Some (absentees d today ! j)"
proof
  let ?xs = "absentees d today"
  assume "selected_absentee d today sel = Some (?xs ! j)"
  then have "\<exists>k < length ?xs. t_name (?xs ! k) = sel \<and> ?xs ! j = ?xs ! k
               \<and> (\<forall>i' < k. t_name (?xs ! i') \<noteq> sel)"
    by (simp add: selected_absentee_def find_Some_iff)
  then obtain k where k: "k < length ?xs" "t_name (?xs ! k) = sel" "?xs ! j = ?xs ! k"
    and first: "\<forall>i' < k. t_name (?xs ! i') \<noteq> sel"
    by blast
  have "distinct ?xs" by (simp add: absentees_def)
  with k(1,3) assms(2) have "k = j" by (simp add: nth_eq_iff_index_eq)
  with k(2) assms(3) have "t_name (?xs ! i) = sel" by simp
  moreover from first assms(1) \<open>k = j\<close> have "t_name (?xs ! i) \<noteq> sel" by simp
  ultimately show False by simp
qed

theorem duplicate_name_unselectable_witness:
  "absentees scen_dup scen_monday = [\<lparr>t_id = 1, t_name = ''Smith''\<rparr>, \<lparr>t_id = 2, t_name = ''Smith''\<rparr>]
   \<and> selected_absentee scen_dup scen_monday ''Smith'' \<noteq> Some \<lparr>t_id = 2, t_name = ''Smith''\<rparr>"
proof -
  have abs: "absentees scen_dup scen_monday =
               [\<lparr>t_id = 1, t_name = ''Smith''\<rparr>, \<lparr>t_id = 2, t_name = ''Smith''\<rparr>]"
    by (simp add: absentees_def scen_dup_def scen_a_def)
  have "selected_absentee scen_dup scen_monday ''Smith'' \<noteq> Some (absentees scen_dup scen_monday ! 1)"
    by (rule duplicate_name_unselectable [of 0]) (simp_all add: abs)
  with abs show ?thesis by simp
qed
end
