(* ===== verification/PyInt.thy ===== *)
theory PyInt
  imports Prelude
begin

text \<open>
  Python's \<open>int(s)\<close> on a string and \<open>str(i)\<close> on an integer, the two conversions the
  timetable editor applies to a class id (\<open>int(class_option.split(" - ")[0])\<close>, then the
  integer bound into SQL, which MySQL stores in the text column as its decimal digits).
  \<open>int\<close> strips surrounding whitespace, takes an optional sign and a group of ASCII
  digits in which single underscores may separate digits; anything else is a
  \<open>ValueError\<close>, here \<open>None\<close>.  Non-ASCII digits and whitespace are not modelled
  (a \<open>char\<close> is a byte).  The main fact is the round trip
  \<open>py_int (dec_string i) = Some i\<close>, and \<open>canonical_dec\<close>, the syntactic description of
  the strings \<open>dec_string\<close> prints.
\<close>

definition is_digit :: "char \<Rightarrow> bool" where
  "is_digit c \<longleftrightarrow> 48 \<le> (of_char c :: nat) \<and> (of_char c :: nat) \<le> 57"

definition digit_val :: "char \<Rightarrow> nat" where
  "digit_val c = of_char c - 48"

definition digit_char :: "nat \<Rightarrow> char" where
  "digit_char n = char_of (48 + n)"

definition is_space :: "char \<Rightarrow> bool" where
  "is_space c \<longleftrightarrow> (of_char c :: nat) \<in> {9, 10, 11, 12, 13, 32}"

definition py_strip :: "string \<Rightarrow> string" where
  "py_strip s = rev (dropWhile is_space (rev (dropWhile is_space s)))"

definition digits_value :: "string \<Rightarrow> nat" where
  "digits_value ds = foldl (\<lambda>acc c. 10 * acc + digit_val c) 0 ds"

definition digit_group_ok :: "string \<Rightarrow> bool" where
  "digit_group_ok ds \<longleftrightarrow> ds \<noteq> [] \<and> is_digit (hd ds) \<and> is_digit (last ds)
     \<and> (\<forall>c \<in> set ds. is_digit c \<or> c = CHR ''_'') \<and> \<not> sublist ''__'' ds"

definition parse_unsigned :: "string \<Rightarrow> nat option" where
  "parse_unsigned ds =
     (if digit_group_ok ds then Some (digits_value (filter (\<lambda>c. c \<noteq> CHR ''_'') ds)) else None)"

fun py_int_body :: "string \<Rightarrow> int option" where
  "py_int_body [] = None"
| "py_int_body (c # cs) =
     (if c = CHR ''-'' then map_option (\<lambda>n. - int n) (parse_unsigned cs)
      else if c = CHR ''+'' then map_option int (parse_unsigned cs)
      else map_option int (parse_unsigned (c # cs)))"

definition py_int :: "string \<Rightarrow> int option" where
  "py_int s = py_int_body (py_strip s)"

fun nat_digits :: "nat \<Rightarrow> string" where
  "nat_digits n = (if n < 10 then [digit_char n] else nat_digits (n div 10) @ [digit_char (n mod 10)])"

definition dec_string :: "int \<Rightarrow> string" where
  "dec_string i = (if i < 0 then CHR ''-'' # nat_digits (nat (- i)) else nat_digits (nat i))"

text \<open>The strings \<open>str()\<close> prints: an optional minus sign and ASCII digits without a
  leading zero (\<open>0\<close> itself apart, and no \<open>-0\<close>).\<close>

definition canonical_nat :: "string \<Rightarrow> bool" where
  "canonical_nat ds \<longleftrightarrow> ds \<noteq> [] \<and> (\<forall>c \<in> set ds. is_digit c) \<and> (hd ds = CHR ''0'' \<longrightarrow> ds = ''0'')"

definition canonical_dec :: "string \<Rightarrow> bool" where
  "canonical_dec s =
     (case s of
        [] \<Rightarrow> False
      | c # ds \<Rightarrow> (if c = CHR ''-'' then canonical_nat ds \<and> ds \<noteq> ''0'' else canonical_nat s))"

declare nat_digits.simps [simp del]

section \<open>Digits\<close>

lemma of_char_digit_char: "n < 10 \<Longrightarrow> (of_char (digit_char n) :: nat) = 48 + n"
  by (simp add: digit_char_def)

lemma digit_char_props:
  assumes "n < 10"
  shows "is_digit (digit_char n)" and "digit_val (digit_char n) = n"
    and "\<not> is_space (digit_char n)" and "digit_char n \<noteq> CHR ''_''"
    and "digit_char n \<noteq> CHR ''-''" and "digit_char n \<noteq> CHR ''+''"
proof -
  note o = of_char_digit_char [OF assms]
  show "is_digit (digit_char n)" using o assms by (simp add: is_digit_def)
  show "digit_val (digit_char n) = n" using o by (simp add: digit_val_def)
  show "\<not> is_space (digit_char n)" using o assms by (auto simp: is_space_def)
  show "digit_char n \<noteq> CHR ''_''"
  proof
    assume "digit_char n = CHR ''_''"
    then have "(of_char (digit_char n) :: nat) = 95" by simp
    with o assms show False by simp
  qed
  show "digit_char n \<noteq> CHR ''-''"
  proof
    assume "digit_char n = CHR ''-''"
    then have "(of_char (digit_char n) :: nat) = 45" by simp
    with o show False by simp
  qed
  show "digit_char n \<noteq> CHR ''+''"
  proof
    assume "digit_char n = CHR ''+''"
    then have "(of_char (digit_char n) :: nat) = 43" by simp
    with o show False by simp
  qed
qed

lemma nat_digits_props:
  "nat_digits n \<noteq> [] \<and> (\<forall>c \<in> set (nat_digits n). \<exists>k < 10. c = digit_char k)"
proof (induction n rule: nat_digits.induct)
  case (1 n)
  show ?case
  proof (cases "n < 10")
    case True
    then show ?thesis by (auto simp: nat_digits.simps [of n])
  next
    case False
    have "\<exists>k < 10. digit_char (n mod 10) = digit_char k"
      by (rule exI [of _ "n mod 10"]) simp
    with False "1.IH" show ?thesis by (auto simp: nat_digits.simps [of n])
  qed
qed

lemma digits_value_snoc: "digits_value (xs @ [c]) = 10 * digits_value xs + digit_val c"
  by (simp add: digits_value_def)

lemma digits_value_nat_digits: "digits_value (nat_digits n) = n"
proof (induction n rule: nat_digits.induct)
  case (1 n)
  show ?case
  proof (cases "n < 10")
    case True
    then show ?thesis
      by (simp add: nat_digits.simps [of n] digits_value_def digit_char_props)
  next
    case False
    with "1.IH" show ?thesis
      by (simp add: nat_digits.simps [of n] digits_value_snoc digit_char_props)
  qed
qed

section \<open>The round trip\<close>

lemma nat_digits_chars:
  assumes "c \<in> set (nat_digits n)"
  shows "is_digit c \<and> \<not> is_space c \<and> c \<noteq> CHR ''_'' \<and> c \<noteq> CHR ''-'' \<and> c \<noteq> CHR ''+''"
proof -
  obtain k where "k < 10" and "c = digit_char k"
    using nat_digits_props [of n] assms by blast
  then show ?thesis using digit_char_props [of k] by simp
qed

lemma nat_digits_ne: "nat_digits n \<noteq> []"
  using nat_digits_props by blast

lemma parse_unsigned_nat_digits: "parse_unsigned (nat_digits n) = Some n"
proof -
  let ?ds = "nat_digits n"
  have ne: "?ds \<noteq> []" by (rule nat_digits_ne)
  have ch: "\<forall>c \<in> set ?ds. is_digit c \<and> c \<noteq> CHR ''_''"
    using nat_digits_chars by blast
  have "\<not> sublist ''__'' ?ds"
  proof
    assume "sublist ''__'' ?ds"
    then have "set ''__'' \<subseteq> set ?ds" by (rule set_mono_sublist)
    with ch show False by auto
  qed
  with ne ch have "digit_group_ok ?ds"
    by (simp add: digit_group_ok_def)
  moreover from ch have "filter (\<lambda>c. c \<noteq> CHR ''_'') ?ds = ?ds"
    by (simp add: filter_id_conv)
  ultimately show ?thesis
    by (simp add: parse_unsigned_def digits_value_nat_digits)
qed

lemma py_strip_id:
  assumes "s \<noteq> []" and "\<not> is_space (hd s)" and "\<not> is_space (last s)"
  shows "py_strip s = s"
proof -
  obtain ys y where "s = ys @ [y]" using assms(1) by (cases s rule: rev_cases) auto
  with assms(3) have r: "dropWhile is_space (rev s) = rev s" by simp
  from assms(1,2) have "dropWhile is_space s = s" by (cases s) simp_all
  with r show ?thesis by (simp add: py_strip_def)
qed

theorem py_int_dec_string: "py_int (dec_string i) = Some i"
proof (cases "i < 0")
  case True
  let ?ds = "nat_digits (nat (- i))"
  have "\<not> is_space (last ?ds)"
    using nat_digits_chars [OF last_in_set [OF nat_digits_ne]] by blast
  moreover have "\<not> is_space (CHR ''-'')" by (simp add: is_space_def)
  ultimately have "py_strip (CHR ''-'' # ?ds) = CHR ''-'' # ?ds"
    using nat_digits_ne by (intro py_strip_id) simp_all
  with True show ?thesis
    by (simp add: py_int_def dec_string_def parse_unsigned_nat_digits)
next
  case False
  let ?ds = "nat_digits (nat i)"
  obtain c cs where cs: "?ds = c # cs" using nat_digits_ne by (cases "nat_digits (nat i)") auto
  then have c: "\<not> is_space c \<and> c \<noteq> CHR ''-'' \<and> c \<noteq> CHR ''+''"
    using nat_digits_chars [of c "nat i"] by simp
  have "\<not> is_space (last ?ds)"
    using nat_digits_chars [OF last_in_set [OF nat_digits_ne]] by blast
  with c cs have "py_strip ?ds = ?ds" by (intro py_strip_id) simp_all
  moreover have "parse_unsigned (c # cs) = Some (nat i)"
    using parse_unsigned_nat_digits [of "nat i"] cs by simp
  ultimately show ?thesis
    using False cs c by (simp add: py_int_def dec_string_def)
qed

lemma digit_char_simps:
  "digit_char 0 = CHR ''0''" "digit_char 1 = CHR ''1''" "digit_char (Suc 0) = CHR ''1''"
  "digit_char 2 = CHR ''2''"
  "digit_char 3 = CHR ''3''" "digit_char 4 = CHR ''4''" "digit_char 5 = CHR ''5''"
  "digit_char 6 = CHR ''6''" "digit_char 7 = CHR ''7''" "digit_char 8 = CHR ''8''"
  "digit_char 9 = CHR ''9''"
  by (simp_all add: digit_char_def char_of_eq_iff)

section \<open>The strings str() prints\<close>

lemma digit_char_digit_val: "is_digit c \<Longrightarrow> digit_char (digit_val c) = c"
  by (simp add: is_digit_def digit_val_def digit_char_def)

lemma is_digit_val_less: "is_digit c \<Longrightarrow> digit_val c < 10"
  unfolding is_digit_def digit_val_def by linarith

lemma nat_digits_zero: "nat_digits 0 = ''0''"
  by (simp add: nat_digits.simps digit_char_simps)

lemma nat_digits_snoc: "d < 10 \<Longrightarrow> 0 < v \<Longrightarrow> nat_digits (10 * v + d) = nat_digits v @ [digit_char d]"
  by (simp add: nat_digits.simps [of "10 * v + d"])

lemma hd_nat_digits_pos: "0 < n \<Longrightarrow> hd (nat_digits n) \<noteq> CHR ''0''"
proof (induction n rule: nat_digits.induct)
  case (1 n)
  show ?case
  proof (cases "n < 10")
    case True
    then have "(of_char (digit_char n) :: nat) \<noteq> 48" using "1.prems" by (simp add: of_char_digit_char)
    with True show ?thesis by (auto simp: nat_digits.simps [of n])
  next
    case False
    then have "hd (nat_digits n) = hd (nat_digits (n div 10))"
      using nat_digits_ne [of "n div 10"] by (simp add: nat_digits.simps [of n])
    with False "1.IH" show ?thesis by simp
  qed
qed

lemma canonical_nat_digits: "canonical_nat (nat_digits n)"
proof -
  have "hd (nat_digits n) = CHR ''0'' \<Longrightarrow> nat_digits n = ''0''"
    using hd_nat_digits_pos [of n] nat_digits_zero by (cases "n = 0") auto
  then show ?thesis
    using nat_digits_ne nat_digits_chars by (auto simp: canonical_nat_def)
qed

lemma canonical_nat_value: "canonical_nat ds \<Longrightarrow> nat_digits (digits_value ds) = ds"
proof (induction ds rule: rev_induct)
  case (snoc c xs)
  have c: "is_digit c" using snoc.prems by (simp add: canonical_nat_def)
  show ?case
  proof (cases "xs = []")
    case True
    with c show ?thesis
      by (simp add: digits_value_def nat_digits.simps is_digit_val_less digit_char_digit_val)
  next
    case False
    then have "hd (xs @ [c]) = hd xs" by simp
    moreover have "xs @ [c] \<noteq> ''0''" using False by (cases xs) auto
    ultimately have xs: "canonical_nat xs" using snoc.prems False by (simp add: canonical_nat_def)
    then have v: "nat_digits (digits_value xs) = xs" by (rule snoc.IH)
    have "digits_value xs \<noteq> 0"
    proof
      assume "digits_value xs = 0"
      with v have "xs = ''0''" by (simp add: nat_digits_zero)
      with \<open>xs @ [c] \<noteq> ''0''\<close> \<open>hd (xs @ [c]) = hd xs\<close> snoc.prems show False
        by (simp add: canonical_nat_def)
    qed
    with v c show ?thesis
      by (simp add: digits_value_snoc nat_digits_snoc is_digit_val_less digit_char_digit_val)
  qed
qed (simp add: canonical_nat_def)

lemma canonical_dec_iff: "canonical_dec s \<longleftrightarrow> (\<exists>i. dec_string i = s)"
proof
  assume s: "canonical_dec s"
  show "\<exists>i. dec_string i = s"
  proof (cases s)
    case (Cons c ds)
    show ?thesis
    proof (cases "c = CHR ''-''")
      case True
      with s Cons have ds: "canonical_nat ds" "ds \<noteq> ''0''" by (simp_all add: canonical_dec_def)
      have "digits_value ds \<noteq> 0"
      proof
        assume "digits_value ds = 0"
        then have "ds = ''0''" using canonical_nat_value [OF ds(1)] nat_digits_zero by simp
        with ds(2) show False ..
      qed
      then have "dec_string (- int (digits_value ds)) = s"
        using True Cons canonical_nat_value [OF ds(1)] by (simp add: dec_string_def)
      then show ?thesis ..
    next
      case False
      with s Cons have "canonical_nat s" by (simp add: canonical_dec_def)
      then have "dec_string (int (digits_value s)) = s" by (simp add: dec_string_def canonical_nat_value)
      then show ?thesis ..
    qed
  qed (use s in \<open>simp add: canonical_dec_def\<close>)
next
  assume "\<exists>i. dec_string i = s"
  then obtain i where s: "s = dec_string i" by blast
  show "canonical_dec s"
  proof (cases "i < 0")
    case True
    then have "nat_digits (nat (- i)) \<noteq> ''0''"
      using hd_nat_digits_pos [of "nat (- i)"] by auto
    with True s canonical_nat_digits show ?thesis by (simp add: dec_string_def canonical_dec_def)
  next
    case False
    obtain c cs where cs: "nat_digits (nat i) = c # cs" using nat_digits_ne by (cases "nat_digits (nat i)") auto
    then have "c \<noteq> CHR ''-''" using nat_digits_chars [of c "nat i"] by simp
    with False s cs canonical_nat_digits [of "nat i"] show ?thesis
      by (simp add: dec_string_def canonical_dec_def)
  qed
qed

lemmas py_int_eval = py_int_def py_strip_def is_space_def parse_unsigned_def digit_group_ok_def
  digits_value_def is_digit_def digit_val_def sublist_Cons_right dec_string_def nat_digits.simps
  digit_char_simps

end
