(* ===== verification/Timetable.thy ===== *)
theory Timetable
  imports Calendar PyInt
begin

text \<open>
  The timetable editor, \<open>manage_class_timetable\<close> in \<open>src/functions.py\<close> (lines
  98-168).  The page reads the class and subject lists, takes a class label and a day
  from two select boxes and converts the class id with \<open>int(...)\<close> before anything
  else, lists the class's entries for that day, and on one interaction either deletes a
  listed entry or saves a period: it looks the slot \<open>(class, day, period)\<close> up and
  updates its subject if there is one, or inserts a new row.  The integer class id is
  bound into SQL; in the text column it is stored, and compared, as its decimal digits,
  \<open>dec_string\<close>.  The invariant kept is that every slot holds at most one row.
\<close>

section \<open>The page\<close>

text \<open>The select-box labels: \<open>f"{c['c_id']} - {c['c_name']}"\<close> and the subject
  labels of the form.\<close>

definition class_labels :: "db \<Rightarrow> string list" where
  "class_labels d = map (\<lambda>c. option_label (c_id c) (c_name c)) (tbl_classes d)"

definition subject_labels :: "db \<Rightarrow> string list" where
  "subject_labels d = map (\<lambda>s. option_label (s_id s) (s_name s)) (tbl_subjects d)"

text \<open>\<open>class_id = int(class_option.split(" - ")[0])\<close>: an empty select box returns
  \<open>None\<close>, whose \<open>split\<close> raises \<open>AttributeError\<close>.\<close>

definition tt_class_key :: "string option \<Rightarrow> py_error + class_id" where
  "tt_class_key opt =
     (case opt of
        None \<Rightarrow> Inl Attribute_error
      | Some lbl \<Rightarrow>
          (case py_int (split_label lbl) of
             None \<Rightarrow> Inl Value_error
           | Some i \<Rightarrow> Inr (dec_string i)))"

text \<open>The listed entries: \<open>SELECT ct.id, ct.period, s.s_name FROM class_timetable ct
  JOIN subjects s ON ct.subject_id = s.s_id WHERE ct.class_id = %s AND ct.day = %s ORDER BY
  ct.period\<close>.\<close>

definition tt_entries :: "db \<Rightarrow> class_id \<Rightarrow> day_name \<Rightarrow> (row_id \<times> period \<times> string) list" where
  "tt_entries d k dy =
     sort_key (\<lambda>(i, p, n). p)
       [(ct_id ct, ct_period ct, s_name s). ct \<leftarrow> tbl_timetable d, s \<leftarrow> tbl_subjects d,
          ct_subject ct = s_id s \<and> ct_class ct = k \<and> ct_day ct = dy]"

text \<open>The slot key, and \<open>SELECT id FROM class_timetable WHERE class_id = %s AND day = %s
  AND period = %s\<close> followed by \<open>fetchone()\<close>: the first matching row.\<close>

definition slot_key :: "tt_row \<Rightarrow> class_id \<times> day_name \<times> period" where
  "slot_key r = (ct_class r, ct_day r, ct_period r)"

definition tt_lookup :: "db \<Rightarrow> class_id \<Rightarrow> day_name \<Rightarrow> period \<Rightarrow> tt_row option" where
  "tt_lookup d k dy p = find (\<lambda>r. slot_key r = (k, dy, p)) (tbl_timetable d)"

text \<open>Save/Update: \<open>UPDATE class_timetable SET subject_id = %s WHERE id = %s\<close> on the
  existing row, otherwise the \<open>INSERT\<close>.\<close>

definition tt_save :: "db \<Rightarrow> class_id \<Rightarrow> day_name \<Rightarrow> period \<Rightarrow> subject_id \<Rightarrow> db" where
  "tt_save d k dy p sid =
     (case tt_lookup d k dy p of
        Some r \<Rightarrow>
          d\<lparr>tbl_timetable :=
               sql_update (\<lambda>x. ct_id x = ct_id r) (\<lambda>x. x\<lparr>ct_subject := sid\<rparr>) (tbl_timetable d)\<rparr>
      | None \<Rightarrow> insert_tt k sid dy p d)"

text \<open>The one interaction of a run: nothing, the delete button of a listed entry, or the
  form's submit with the chosen period and subject label.\<close>

datatype tt_action = Tt_view | Tt_delete row_id | Tt_save period "string option"

definition manage_class_timetable ::
  "db \<Rightarrow> string option \<Rightarrow> day_name \<Rightarrow> tt_action \<Rightarrow> py_error + db" where
  "manage_class_timetable d cls dy act =
     (case tt_class_key cls of
        Inl e \<Rightarrow> Inl e
      | Inr k \<Rightarrow>
          (case act of
             Tt_view \<Rightarrow> Inr d
           | Tt_delete i \<Rightarrow>
               (if i \<in> fst ` set (tt_entries d k dy)
                then Inr (d\<lparr>tbl_timetable := sql_delete (\<lambda>r. ct_id r = i) (tbl_timetable d)\<rparr>)
                else Inr d)
           | Tt_save p subj \<Rightarrow>
               (case subj of
                  None \<Rightarrow> Inl Attribute_error
                | Some lbl \<Rightarrow> Inr (tt_save d k dy p (split_label lbl)))))"

section \<open>The invariant\<close>

text \<open>
  At most one row per slot \<open>(class, day, period)\<close>, which the spec states as the
  invariant of \<open>class_timetable\<close> and the code keeps by its check before the write; and
  distinct row ids below the next auto-increment value.
\<close>

definition tt_wf :: "db \<Rightarrow> bool" where
  "tt_wf d \<longleftrightarrow> distinct (map slot_key (tbl_timetable d)) \<and> distinct (map ct_id (tbl_timetable d))
     \<and> (\<forall>r \<in> set (tbl_timetable d). ct_id r < next_ct_id d)"

text \<open>The type of the \<open>class_id\<close> column as the editor writes it: \<open>int()\<close> of the label,
  stored as its decimal digits.  A string is an integer literal when \<open>int()\<close> accepts it
  and \<open>str()\<close> prints the result back as the same string.\<close>

definition int_literal :: "string \<Rightarrow> bool" where
  "int_literal s \<longleftrightarrow> (case py_int s of None \<Rightarrow> False | Some i \<Rightarrow> dec_string i = s)"

definition tt_class_ids_int :: "db \<Rightarrow> bool" where
  "tt_class_ids_int d \<longleftrightarrow> (\<forall>r \<in> set (tbl_timetable d). int_literal (ct_class r))"

section \<open>Lemmas\<close>

lemma filter_key_single:
  "distinct (map f xs) \<Longrightarrow> x \<in> set xs \<Longrightarrow> filter (\<lambda>y. f y = f x) xs = [x]"
  by (induction xs) (auto simp: filter_empty_conv image_iff)

lemma map_if_update:
  "f (h r) = f r \<Longrightarrow> map f (map (\<lambda>y. if y = r then h y else y) xs) = map f xs"
  by (induction xs) auto

lemma sql_update_none: "\<forall>y \<in> set xs. \<not> P y \<Longrightarrow> sql_update P h xs = xs"
  by (induction xs) auto

lemma sql_update_unique_key:
  "distinct (map g xs) \<Longrightarrow> x \<in> set xs \<Longrightarrow>
     sql_update (\<lambda>y. g y = g x) h xs = map (\<lambda>y. if y = x then h y else y) xs"
proof (induction xs)
  case Nil
  then show ?case by simp
next
  case (Cons y ys)
  show ?case
  proof (cases "y = x")
    case True
    with Cons.prems have "\<forall>z \<in> set ys. g z \<noteq> g x" and "x \<notin> set ys"
      by (auto simp: image_iff)
    moreover have "map (\<lambda>y. if y = x then h y else y) ys = ys"
      using \<open>x \<notin> set ys\<close> by (induction ys) auto
    ultimately show ?thesis using True by (simp add: sql_update_none)
  next
    case False
    with Cons show ?thesis by auto
  qed
qed


lemma tt_lookup_Some: "tt_lookup d k dy p = Some r \<Longrightarrow> r \<in> set (tbl_timetable d) \<and> slot_key r = (k, dy, p)"
  unfolding tt_lookup_def by (rule find_Some_first)

lemma tt_lookup_None:
  "tt_lookup d k dy p = None \<longleftrightarrow> (\<forall>r \<in> set (tbl_timetable d). slot_key r \<noteq> (k, dy, p))"
  by (simp add: tt_lookup_def find_None_iff')

lemma slot_key_update_subject [simp]: "slot_key (r\<lparr>ct_subject := s\<rparr>) = slot_key r"
  by (simp add: slot_key_def)

lemma tt_save_wf: "tt_wf d \<Longrightarrow> tt_wf (tt_save d k dy p sid)"
proof (cases "tt_lookup d k dy p")
  case None
  assume wf: "tt_wf d"
  then have "\<forall>r \<in> set (tbl_timetable d). ct_id r \<noteq> next_ct_id d" by (auto simp: tt_wf_def)
  moreover from None have "\<forall>r \<in> set (tbl_timetable d). slot_key r \<noteq> (k, dy, p)"
    by (simp add: tt_lookup_None)
  ultimately show ?thesis using wf None
    by (auto simp: tt_save_def tt_wf_def insert_tt_def slot_key_def image_iff)
next
  case (Some r)
  assume wf: "tt_wf d"
  then show ?thesis using Some
    by (simp add: tt_save_def tt_wf_def sql_update_map_id set_sql_update) auto
qed

lemma tt_save_slot:
  assumes "tt_wf d"
  shows "\<exists>r. filter (\<lambda>x. slot_key x = (k, dy, p)) (tbl_timetable (tt_save d k dy p sid)) = [r]
            \<and> ct_subject r = sid"
proof (cases "tt_lookup d k dy p")
  case None
  then have "filter (\<lambda>x. slot_key x = (k, dy, p)) (tbl_timetable d) = []"
    by (auto simp: tt_lookup_None filter_empty_conv)
  with None show ?thesis
    by (simp add: tt_save_def insert_tt_def slot_key_def)
next
  case (Some r)
  from tt_lookup_Some [OF Some] have r: "r \<in> set (tbl_timetable d)" "slot_key r = (k, dy, p)" by auto
  from assms have ids: "distinct (map ct_id (tbl_timetable d))"
    and keys: "distinct (map slot_key (tbl_timetable d))" by (auto simp: tt_wf_def)
  let ?tt' = "map (\<lambda>y. if y = r then y\<lparr>ct_subject := sid\<rparr> else y) (tbl_timetable d)"
  have upd: "tbl_timetable (tt_save d k dy p sid) = ?tt'"
    using Some sql_update_unique_key [OF ids r(1)] by (simp add: tt_save_def)
  have keq: "map slot_key ?tt' = map slot_key (tbl_timetable d)"
    by (rule map_if_update) simp
  from keys have "distinct (map slot_key ?tt')" by (simp only: keq)
  moreover have "r\<lparr>ct_subject := sid\<rparr> \<in> set ?tt'" using r(1) by auto
  ultimately have "filter (\<lambda>x. slot_key x = slot_key (r\<lparr>ct_subject := sid\<rparr>)) ?tt' = [r\<lparr>ct_subject := sid\<rparr>]"
    by (rule filter_key_single)
  with upd r(2) show ?thesis by auto
qed

lemma tt_save_frame:
  assumes "tt_wf d"
  shows "filter (\<lambda>x. slot_key x \<noteq> (k, dy, p)) (tbl_timetable (tt_save d k dy p sid)) =
         filter (\<lambda>x. slot_key x \<noteq> (k, dy, p)) (tbl_timetable d)"
proof (cases "tt_lookup d k dy p")
  case None
  then show ?thesis by (simp add: tt_save_def insert_tt_def slot_key_def)
next
  case (Some r)
  from tt_lookup_Some [OF Some] have r: "r \<in> set (tbl_timetable d)" "slot_key r = (k, dy, p)" by auto
  from assms have inj: "inj_on ct_id (set (tbl_timetable d))" by (simp add: tt_wf_def distinct_map)
  have "\<forall>x \<in> set (filter (\<lambda>x. slot_key x \<noteq> (k, dy, p)) (tbl_timetable d)). ct_id x \<noteq> ct_id r"
    using r inj by (auto dest: inj_onD)
  then have "sql_update (\<lambda>x. ct_id x = ct_id r) (\<lambda>x. x\<lparr>ct_subject := sid\<rparr>)
               (filter (\<lambda>x. slot_key x \<noteq> (k, dy, p)) (tbl_timetable d)) =
             filter (\<lambda>x. slot_key x \<noteq> (k, dy, p)) (tbl_timetable d)"
    by (rule sql_update_none)
  then show ?thesis using Some
    by (simp add: tt_save_def sql_update_def filter_map comp_def)
qed

lemma tt_delete_wf:
  "tt_wf d \<Longrightarrow> tt_wf (d\<lparr>tbl_timetable := sql_delete P (tbl_timetable d)\<rparr>)"
  by (auto simp: tt_wf_def sql_delete_def distinct_map_filter)

lemma dec_string_no_space: "CHR '' '' \<notin> set (dec_string i)"
proof -
  have "\<not> is_space c" if "c \<in> set (nat_digits n)" for c n
    using nat_digits_chars [OF that] by blast
  moreover have "is_space (CHR '' '')" by (simp add: is_space_def)
  ultimately show ?thesis by (auto simp: dec_string_def)
qed

lemma manage_class_timetable_Inr:
  "manage_class_timetable d cls dy act = Inr d' \<Longrightarrow>
     \<exists>k. tt_class_key cls = Inr k \<and>
       (d' = d
        \<or> (\<exists>i. d' = d\<lparr>tbl_timetable := sql_delete (\<lambda>r. ct_id r = i) (tbl_timetable d)\<rparr>)
        \<or> (\<exists>p lbl. act = Tt_save p (Some lbl) \<and> d' = tt_save d k dy p (split_label lbl)))"
  by (auto simp: manage_class_timetable_def split: sum.splits tt_action.splits option.splits if_splits)

lemma tt_save_rows:
  assumes "r \<in> set (tbl_timetable (tt_save d k dy p sid))"
  shows "(\<exists>r0 \<in> set (tbl_timetable d). slot_key r = slot_key r0) \<or> slot_key r = (k, dy, p)"
  using assms
  by (auto simp: tt_save_def insert_tt_def sql_update_def slot_key_def split: option.splits if_splits)

lemma int_literal_dec_string: "int_literal (dec_string i)"
  by (simp add: int_literal_def py_int_dec_string)

lemma tt_class_key_literal: "tt_class_key cls = Inr k \<Longrightarrow> int_literal k"
  by (auto simp: tt_class_key_def int_literal_dec_string split: option.splits)

lemma manage_class_timetable_class_ids:
  assumes "tt_class_ids_int d" and "manage_class_timetable d cls dy act = Inr d'"
  shows "tt_class_ids_int d'"
proof -
  obtain k where k: "tt_class_key cls = Inr k"
    and cases: "d' = d
      \<or> (\<exists>i. d' = d\<lparr>tbl_timetable := sql_delete (\<lambda>r. ct_id r = i) (tbl_timetable d)\<rparr>)
      \<or> (\<exists>p lbl. act = Tt_save p (Some lbl) \<and> d' = tt_save d k dy p (split_label lbl))"
    using manage_class_timetable_Inr [OF assms(2)] by blast
  have "int_literal (ct_class r)" if r: "r \<in> set (tbl_timetable d')" for r
  proof -
    have "(\<exists>r0 \<in> set (tbl_timetable d). ct_class r = ct_class r0) \<or> ct_class r = k"
      using cases r by (auto simp: sql_delete_def slot_key_def dest!: tt_save_rows)
    then show ?thesis using assms(1) tt_class_key_literal [OF k] by (auto simp: tt_class_ids_int_def)
  qed
  then show ?thesis by (simp add: tt_class_ids_int_def)
qed

section \<open>A class with one period\<close>

text \<open>Class \<open>101\<close> has Maths in period 2 on Monday.\<close>

definition tt_scen :: db where
  "tt_scen = empty_db\<lparr>tbl_classes := [\<lparr>c_id = ''101'', c_name = ''1A''\<rparr>],
     tbl_subjects := [\<lparr>s_id = ''S1'', s_name = ''Maths''\<rparr>, \<lparr>s_id = ''S2'', s_name = ''Art''\<rparr>],
     tbl_timetable := [\<lparr>ct_id = 1, ct_class = ''101'', ct_subject = ''S1'', ct_day = ''Monday'',
                         ct_period = 2\<rparr>],
     next_ct_id := 2\<rparr>"

lemma tt_scen_wf: "tt_wf tt_scen"
  by (simp add: tt_wf_def tt_scen_def empty_db_def slot_key_def)

lemma tt_scen_key: "tt_class_key (Some ''101 - 1A'') = Inr ''101''"
  by (simp add: tt_class_key_def label_sep_def py_int_eval)

lemma tt_scen_save:
  "manage_class_timetable tt_scen (Some ''101 - 1A'') ''Monday'' (Tt_save 2 (Some ''S2 - Art''))
   = Inr (tt_scen\<lparr>tbl_timetable := [\<lparr>ct_id = 1, ct_class = ''101'', ct_subject = ''S2'',
                                       ct_day = ''Monday'', ct_period = 2\<rparr>]\<rparr>)"
  by (simp add: manage_class_timetable_def tt_scen_key tt_save_def tt_lookup_def slot_key_def
      label_sep_def tt_scen_def empty_db_def)

section \<open>Correctness of the editor\<close>

text \<open>
  C10: every interaction of the timetable editor keeps the timetable well formed: at most
  one row per class, day and period, and distinct row ids below the auto-increment value.
\<close>

theorem manage_class_timetable_wf:
  assumes "tt_wf d" and "manage_class_timetable d cls dy act = Inr d'"
  shows "tt_wf d'"
  using manage_class_timetable_Inr [OF assms(2)] assms(1) tt_delete_wf tt_save_wf by blast

theorem manage_class_timetable_wf_witness:
  "tt_wf (tt_scen\<lparr>tbl_timetable := [\<lparr>ct_id = 1, ct_class = ''101'', ct_subject = ''S2'',
                                       ct_day = ''Monday'', ct_period = 2\<rparr>]\<rparr>)"
  by (rule manage_class_timetable_wf [OF tt_scen_wf tt_scen_save])

text \<open>
  C11: saving a period puts exactly one row in the slot, holding the chosen subject, and
  leaves every other slot's rows as they were (update of the existing row, or insert).
\<close>

theorem manage_class_timetable_save:
  assumes "tt_wf d" and "tt_class_key cls = Inr k"
    and "manage_class_timetable d cls dy (Tt_save p (Some lbl)) = Inr d'"
  shows "(\<exists>r. filter (\<lambda>x. slot_key x = (k, dy, p)) (tbl_timetable d') = [r]
             \<and> ct_subject r = split_label lbl)
         \<and> filter (\<lambda>x. slot_key x \<noteq> (k, dy, p)) (tbl_timetable d') =
           filter (\<lambda>x. slot_key x \<noteq> (k, dy, p)) (tbl_timetable d)"
proof -
  from assms(2,3) have "d' = tt_save d k dy p (split_label lbl)"
    by (simp add: manage_class_timetable_def)
  with tt_save_slot [OF assms(1)] tt_save_frame [OF assms(1)] show ?thesis by simp
qed

theorem manage_class_timetable_save_witness:
  "\<exists>r. filter (\<lambda>x. slot_key x = (''101'', ''Monday'', 2))
          [\<lparr>ct_id = 1, ct_class = ''101'', ct_subject = ''S2'', ct_day = ''Monday'', ct_period = 2\<rparr>]
        = [r] \<and> ct_subject r = ''S2''"
  using manage_class_timetable_save [OF tt_scen_wf tt_scen_key tt_scen_save]
  by (simp add: label_sep_def)

text \<open>
  C12: the editor fails only with \<open>AttributeError\<close> when a select box is empty (no
  class, or no subject on submit) and with \<open>ValueError\<close> when the selected class id is
  not an integer literal; the conversion runs on every visit, so such a class makes the
  whole page fail, viewing included.
\<close>

theorem manage_class_timetable_error_iff:
  "manage_class_timetable d cls dy act = Inl e \<longleftrightarrow>
     (cls = None \<and> e = Attribute_error)
     \<or> (\<exists>lbl. cls = Some lbl \<and> py_int (split_label lbl) = None \<and> e = Value_error)
     \<or> ((\<exists>k. tt_class_key cls = Inr k) \<and> (\<exists>p. act = Tt_save p None) \<and> e = Attribute_error)"
  by (auto simp: manage_class_timetable_def tt_class_key_def
      split: option.splits sum.splits tt_action.splits if_splits)

theorem manage_class_timetable_error_iff_witness:
  "manage_class_timetable tt_scen (Some ''C101 - 1A'') ''Monday'' Tt_view = Inl Value_error"
  by (rule manage_class_timetable_error_iff [THEN iffD2]) (simp add: label_sep_def py_int_eval)

text \<open>
  C13: for a class whose id is an integer in canonical decimal form, the label the select
  box shows converts back to that very id, so its timetable rows carry the class's id.
\<close>

theorem tt_class_key_roundtrip:
  "tt_class_key (Some (option_label (dec_string i) n)) = Inr (dec_string i)"
  by (simp add: tt_class_key_def option_label_def split_label_option_label_aux
      dec_string_no_space py_int_dec_string)

text \<open>
  C14: the editor files a class's lessons under the class's own id exactly when that id
  is a canonical decimal integer (an optional minus sign, digits, no leading zero): for
  any other id the conversion either raises (\<open>C101\<close>, the form the class page
  suggests) or yields another id (\<open>007\<close> becomes \<open>7\<close>), which no class or
  assignment has.
\<close>

theorem tt_class_key_keeps_id_iff:
  assumes "CHR '' '' \<notin> set c"
  shows "tt_class_key (Some (option_label c n)) = Inr c \<longleftrightarrow> canonical_dec c"
proof -
  have "tt_class_key (Some (option_label c n)) =
      (case py_int c of None \<Rightarrow> Inl Value_error | Some i \<Rightarrow> Inr (dec_string i))"
    using assms by (simp add: tt_class_key_def option_label_def split_label_option_label_aux)
  then show ?thesis
    by (auto simp: canonical_dec_iff py_int_dec_string split: option.splits)
qed

theorem tt_class_key_keeps_id_iff_witness:
  "tt_class_key (Some (option_label ''101'' ''1A'')) = Inr ''101''
   \<and> tt_class_key (Some (option_label ''007'' ''Year 7'')) \<noteq> Inr ''007''
   \<and> tt_class_key (Some (option_label ''C101'' ''Year 1'')) \<noteq> Inr ''C101''"
  using tt_class_key_keeps_id_iff [of "''101''" "''1A''"] tt_class_key_keeps_id_iff [of "''007''" "''Year 7''"]
    tt_class_key_keeps_id_iff [of "''C101''" "''Year 1''"]
  by (simp add: canonical_dec_def canonical_nat_def is_digit_def)

end
