(* ===== verification/Views.thy ===== *)
theory Views
  imports Substitution Timetable "HOL-Library.Product_Lexorder"
begin

text \<open>
  The read-only report \<open>view_timetables\<close> (lines 225-288 of \<open>src/functions.py\<close>): a radio
  button chooses the teacher or the class view, a select box over a name-to-id dictionary
  chooses the teacher or class, and one query lists the timetable ordered by
  \<open>FIELD(ct.day, 'Monday', ..., 'Saturday'), ct.period\<close>.  The teacher view joins the same
  four tables as the substitution engine's step 2 (\<open>Substitution.slot_join\<close>); the main
  fact is that the engine's missed periods are this view filtered to the day; the select
  boxes are keyed by name, so of two classes with one name only the later can be viewed.
\<close>

text \<open>MySQL \<open>FIELD(x, v1, ..., vn)\<close>: the 1-based position of the first \<open>vi\<close> equal to
  \<open>x\<close>, 0 when there is none.\<close>

fun sql_field :: "'a \<Rightarrow> 'a list \<Rightarrow> nat" where
  "sql_field x [] = 0"
| "sql_field x (y # ys) = (if x = y then 1 else (case sql_field x ys of 0 \<Rightarrow> 0 | n \<Rightarrow> Suc n))"

definition day_order :: "day_name \<times> period \<Rightarrow> nat \<times> nat" where
  "day_order dp = (sql_field (fst dp) school_days, snd dp)"

text \<open>The teacher view: \<open>teacher_map = {t["t_name"]: t["t_id"] for t in teachers}\<close> and the
  query \<open>... WHERE tsc.teacher_id = %s ORDER BY FIELD(...), ct.period\<close>; the rows shown are
  \<open>(class_name, subject_name, day, period)\<close>.\<close>

definition view_teacher_map :: "db \<Rightarrow> string \<Rightarrow> teacher_id option" where
  "view_teacher_map d = dict_of (map (\<lambda>t. (t_name t, t_id t)) (tbl_teachers d))"

definition teacher_view_slots :: "db \<Rightarrow> teacher_id \<Rightarrow> slot_info list" where
  "teacher_view_slots d tid =
     sort_key (\<lambda>r. day_order (si_day r, si_period r)) [r. (t, r) \<leftarrow> slot_join d, t = tid]"

definition teacher_view_rows :: "db \<Rightarrow> teacher_id \<Rightarrow> (string \<times> string \<times> day_name \<times> period) list" where
  "teacher_view_rows d tid =
     map (\<lambda>r. (si_c_name r, si_s_name r, si_day r, si_period r)) (teacher_view_slots d tid)"

text \<open>The class view: \<open>class_map = {c["c_name"]: c["c_id"] for c in classes}\<close> and the
  query joining \<open>class_timetable\<close>, \<open>teacher_subject_class\<close>, \<open>subjects\<close> and
  \<open>teachers\<close>; the rows shown are \<open>(subject_name, day, period, teacher_name)\<close>.  The join
  is written per timetable row of the class (\<open>class_slot_rows\<close>): the rows the other three
  tables join to it.\<close>

definition view_class_map :: "db \<Rightarrow> string \<Rightarrow> class_id option" where
  "view_class_map d = dict_of (map (\<lambda>c. (c_name c, c_id c)) (tbl_classes d))"

definition class_slot_rows :: "db \<Rightarrow> tt_row \<Rightarrow> (string \<times> day_name \<times> period \<times> string) list" where
  "class_slot_rows d ct =
     [(s_name s, ct_day ct, ct_period ct, t_name t).
        a \<leftarrow> tbl_tsc d, teaches a ct,
        s \<leftarrow> tbl_subjects d, s_id s = ct_subject ct,
        t \<leftarrow> tbl_teachers d, t_id t = tsc_teacher a]"

definition class_rows :: "db \<Rightarrow> class_id \<Rightarrow> (string \<times> day_name \<times> period \<times> string) list" where
  "class_rows d c = concat (map (class_slot_rows d) [ct \<leftarrow> tbl_timetable d. ct_class ct = c])"

definition class_view_rows :: "db \<Rightarrow> class_id \<Rightarrow> (string \<times> day_name \<times> period \<times> string) list" where
  "class_view_rows d c = sort_key (\<lambda>(sn, dy, p, tn). day_order (dy, p)) (class_rows d c)"

datatype view_choice = View_teacher "string option" | View_class "string option"

datatype view_report =
    View_none
  | Teacher_view string "(string \<times> string \<times> day_name \<times> period) list"
  | Class_view string "(string \<times> day_name \<times> period \<times> string) list"

text \<open>The handler.  The select box returns \<open>None\<close> when its option list is empty; the
  \<open>if selected_teacher:\<close> test also skips the empty name; \<open>teacher_map[...]\<close> raises
  \<open>KeyError\<close> on a name that is not a key.\<close>

definition view_timetables :: "db \<Rightarrow> view_choice \<Rightarrow> py_error + view_report" where
  "view_timetables d ch =
     (case ch of
        View_teacher sel \<Rightarrow>
          (case sel of None \<Rightarrow> Inr View_none
           | Some n \<Rightarrow> if n = [] then Inr View_none else
               (case view_teacher_map d n of None \<Rightarrow> Inl Key_error
                | Some tid \<Rightarrow> Inr (Teacher_view n (teacher_view_rows d tid))))
      | View_class sel \<Rightarrow>
          (case sel of None \<Rightarrow> Inr View_none
           | Some n \<Rightarrow> if n = [] then Inr View_none else
               (case view_class_map d n of None \<Rightarrow> Inl Key_error
                | Some c \<Rightarrow> Inr (Class_view n (class_view_rows d c)))))"

section \<open>Lemmas\<close>

lemma insort_key_fst_const:
  assumes "\<forall>y \<in> insert x (set ys). g y = (c, f y)"
  shows "insort_key g x ys = insort_key f x ys"
  using assms by (induction ys) auto

lemma sort_key_fst_const:
  "\<forall>y \<in> set xs. g y = (c, f y) \<Longrightarrow> sort_key g xs = sort_key f xs"
proof (induction xs)
  case (Cons x xs)
  then have "insort_key g x (sort_key f xs) = insort_key f x (sort_key f xs)"
    by (intro insort_key_fst_const) auto
  with Cons show ?case by simp
qed simp

lemma comprehension_filter_conj:
  "[r. (t', r) \<leftarrow> xs, t' = t \<and> P r] = filter P [r. (t', r) \<leftarrow> xs, t' = t]"
  by (induction xs) auto

lemma class_slot_rows_le1:
  assumes "distinct (map (\<lambda>a. (tsc_subject a, tsc_class a)) (tbl_tsc d))"
    and "distinct (map s_id (tbl_subjects d))" and "distinct (map t_id (tbl_teachers d))"
  shows "length (class_slot_rows d ct) \<le> 1"
  unfolding class_slot_rows_def
proof (rule guarded_concat_le1)
  have "teaches a ct \<longleftrightarrow> (tsc_subject a, tsc_class a) = (ct_subject ct, ct_class ct)" for a
    by (auto simp: teaches_def)
  then show "length (filter (\<lambda>a. teaches a ct) (tbl_tsc d)) \<le> 1"
    using filter_key_le1 [OF assms(1), of "(ct_subject ct, ct_class ct)"] by simp
next
  fix a :: tsc_row
  show "length [(s_name s, ct_day ct, ct_period ct, t_name t). s \<leftarrow> tbl_subjects d, s_id s = ct_subject ct,
          t \<leftarrow> tbl_teachers d, t_id t = tsc_teacher a] \<le> 1"
  proof (rule guarded_concat_le1)
    show "length (filter (\<lambda>s. s_id s = ct_subject ct) (tbl_subjects d)) \<le> 1"
      by (rule filter_key_le1 [OF assms(2)])
  next
    fix s :: subject_row
    show "length [(s_name s, ct_day ct, ct_period ct, t_name t). t \<leftarrow> tbl_teachers d, t_id t = tsc_teacher a] \<le> 1"
      using filter_key_le1 [OF assms(3), of "tsc_teacher a"] by (simp add: concat_map_guard)
  qed
qed

lemma class_view_distinct:
  assumes "distinct (map slot_key (tbl_timetable d))"
    and "distinct (map (\<lambda>a. (tsc_subject a, tsc_class a)) (tbl_tsc d))"
    and "distinct (map s_id (tbl_subjects d))" and "distinct (map t_id (tbl_teachers d))"
  shows "distinct (map (\<lambda>(sn, dy, p, tn). (dy, p)) (class_view_rows d c))"
proof -
  let ?cts = "filter (\<lambda>ct. ct_class ct = c) (tbl_timetable d)"
  let ?h = "\<lambda>ct. (ct_day ct, ct_period ct)"
  have "map slot_key ?cts = map (Pair c \<circ> ?h) ?cts" by (auto simp: slot_key_def)
  moreover have "distinct (map slot_key ?cts)" using assms(1) by (simp add: distinct_map_filter)
  ultimately have "distinct (map ?h ?cts)" by (simp add: distinct_map inj_on_def)
  then have "distinct (map (\<lambda>(sn, dy, p, tn). (dy, p)) (class_rows d c))"
    unfolding class_rows_def
  proof (rule concat_key_distinct)
    show "length (class_slot_rows d ct) \<le> 1" for ct by (rule class_slot_rows_le1 [OF assms(2-4)])
    show "(\<lambda>(sn, dy, p, tn). (dy, p)) y = ?h ct" if "y \<in> set (class_slot_rows d ct)" for ct y
      using that by (auto simp: class_slot_rows_def)
  qed
  then show ?thesis by (simp add: class_view_rows_def distinct_map_sort_key)
qed

section \<open>The engine agrees with the view\<close>

text \<open>
  C23: the periods the substitution engine lists as missed by a teacher today are exactly
  the rows of that teacher's timetable view whose day is today, in the same order: the
  view's order by day and period, restricted to one day, is the engine's order by period.
\<close>

theorem missed_classes_teacher_view:
  "Substitution.missed_classes d today t =
     filter (\<lambda>r. si_day r = dayname today) (teacher_view_slots d t)"
proof -
  let ?L = "[r. (t', r) \<leftarrow> slot_join d, t' = t]"
  let ?P = "\<lambda>r. si_day r = dayname today"
  have "filter ?P (teacher_view_slots d t) =
      sort_key (\<lambda>r. day_order (si_day r, si_period r)) (filter ?P ?L)"
    by (simp add: teacher_view_slots_def filter_sort)
  also have "\<dots> = sort_key si_period (filter ?P ?L)"
    by (rule sort_key_fst_const [where c = "sql_field (dayname today) school_days"])
      (simp add: day_order_def)
  finally show ?thesis by (simp add: missed_classes_def comprehension_filter_conj)
qed

section \<open>Classes that share a name\<close>

text \<open>\<open>class_map\<close> is keyed by class name, so of two classes with one name the later
  row wins.  Two classes named 1A:\<close>

definition twin_classes_db :: db where
  "twin_classes_db = empty_db\<lparr>tbl_classes := [\<lparr>c_id = ''1'', c_name = ''1A''\<rparr>, \<lparr>c_id = ''2'', c_name = ''1A''\<rparr>]\<rparr>"

text \<open>
  C38: the class view resolves a name shared by several classes to the last of them: a class
  followed in the table by another class of the same name is never the one the view shows,
  whatever the user selects, so its timetable cannot be viewed (the teacher view and the
  teacher page behave the same way, C20).
\<close>

theorem class_view_hides_first_duplicate:
  assumes dist: "distinct (map c_id (tbl_classes d))"
    and ij: "i < j" "j < length (tbl_classes d)"
    and same: "c_name (tbl_classes d ! i) = c_name (tbl_classes d ! j)"
    and shown: "view_timetables d (View_class sel) = Inr (Class_view n rows)"
  shows "\<exists>c. view_class_map d n = Some c \<and> c \<noteq> c_id (tbl_classes d ! i) \<and> rows = class_view_rows d c"
proof -
  from shown obtain c where c: "view_class_map d n = Some c" and rows: "rows = class_view_rows d c"
    by (auto simp: view_timetables_def split: option.splits if_splits)
  have "c \<noteq> c_id (tbl_classes d ! i)"
    using dict_of_shadowed [OF dist ij same] c by (simp add: view_class_map_def)
  with c rows show ?thesis by blast
qed

theorem class_view_hides_first_duplicate_witness:
  "\<exists>c. view_class_map twin_classes_db ''1A'' = Some c \<and> c \<noteq> ''1''
     \<and> class_view_rows twin_classes_db ''2'' = class_view_rows twin_classes_db c"
proof -
  have "view_timetables twin_classes_db (View_class (Some ''1A'')) =
      Inr (Class_view ''1A'' (class_view_rows twin_classes_db ''2''))"
    by (simp add: view_timetables_def view_class_map_def dict_of_def twin_classes_db_def)
  from class_view_hides_first_duplicate [of twin_classes_db 0 1, OF _ _ _ _ this]
  show ?thesis by (simp add: twin_classes_db_def empty_db_def)
qed

end
