(* ===== verification/Attendance.thy ===== *)
theory Attendance
  imports Schema "HOL-Library.Char_ord" "HOL-Library.List_Lexorder"
begin

text \<open>
  The attendance form, \<open>mark_teacher_attendance\<close> in \<open>src/functions.py\<close> (lines
  171-222).  The page lists the teachers by name, with a Present/Absent radio button each
  whose default is the teacher's recorded status of the day (\<open>Present\<close> when there is
  none), and on submit writes every teacher's selected status: an \<open>UPDATE\<close> of the day's
  record when the teacher had one when the page was read, an \<open>INSERT\<close> otherwise.  The
  records of the day are read once, before the loop.  \<open>ORDER BY t_name\<close> is taken in
  byte order (a binary collation); the order only decides where inserted rows go.  The
  property kept is the spec's invariant of \<open>teacher_attendence\<close>: at most one record per
  teacher and date.
\<close>

section \<open>The page\<close>

text \<open>\<open>SELECT t_id, t_name FROM teachers ORDER BY t_name\<close>.\<close>

definition att_teachers :: "db \<Rightarrow> teacher_row list" where
  "att_teachers d = sort_key t_name (tbl_teachers d)"

text \<open>\<open>attendance_records = {row['teacher_id']: row['status'] for row in ...}\<close> over
  \<open>SELECT teacher_id, status FROM teacher_attendence WHERE date = %s\<close>.\<close>

definition att_records :: "db \<Rightarrow> date \<Rightarrow> teacher_id \<Rightarrow> status option" where
  "att_records d today =
     dict_of [(ta_teacher a, ta_status a). a \<leftarrow> tbl_attendance d, ta_date a = today]"

text \<open>The radio buttons: the user's choice for a teacher, or, where the user leaves the
  button alone, its default \<open>attendance_records.get(t_id, 'Present')\<close>.\<close>

definition att_choice :: "db \<Rightarrow> date \<Rightarrow> (teacher_id \<Rightarrow> status option) \<Rightarrow> teacher_id \<Rightarrow> status" where
  "att_choice d today ch x =
     (case ch x of
        Some s \<Rightarrow> s
      | None \<Rightarrow> (case att_records d today x of None \<Rightarrow> Present | Some s \<Rightarrow> s))"

text \<open>\<open>selections[teacher['t_id']] = st.radio(...)\<close> over the teachers in name order.\<close>

definition att_selections ::
  "db \<Rightarrow> date \<Rightarrow> (teacher_id \<Rightarrow> status option) \<Rightarrow> (teacher_id \<times> status) list" where
  "att_selections d today ch = map (\<lambda>t. (t_id t, att_choice d today ch (t_id t))) (att_teachers d)"

text \<open>One iteration of the save loop: \<open>UPDATE teacher_attendence SET status = %s WHERE
  teacher_id = %s AND date = %s\<close> when the teacher had a record, else the \<open>INSERT\<close>.\<close>

definition att_write ::
  "date \<Rightarrow> (teacher_id \<Rightarrow> status option) \<Rightarrow> teacher_id \<Rightarrow> status \<Rightarrow> db \<Rightarrow> db" where
  "att_write today recs tid st d =
     (if recs tid \<noteq> None
      then d\<lparr>tbl_attendance :=
             sql_update (\<lambda>a. ta_teacher a = tid \<and> ta_date a = today) (\<lambda>a. a\<lparr>ta_status := st\<rparr>)
               (tbl_attendance d)\<rparr>
      else insert_att tid today st d)"

fun att_save_loop ::
  "date \<Rightarrow> (teacher_id \<Rightarrow> status option) \<Rightarrow> (teacher_id \<times> status) list \<Rightarrow> db \<Rightarrow> db" where
  "att_save_loop today recs [] d = d"
| "att_save_loop today recs ((tid, st) # sels) d =
     att_save_loop today recs sels (att_write today recs tid st d)"

datatype att_action = Att_view | Att_save "teacher_id \<Rightarrow> status option"

definition mark_teacher_attendance :: "db \<Rightarrow> date \<Rightarrow> att_action \<Rightarrow> db" where
  "mark_teacher_attendance d today act =
     (case act of
        Att_view \<Rightarrow> d
      | Att_save ch \<Rightarrow>
          att_save_loop today (att_records d today) (att_selections d today ch) d)"

section \<open>The invariant\<close>

text \<open>The records of one teacher and date.\<close>

definition att_of :: "db \<Rightarrow> teacher_id \<Rightarrow> date \<Rightarrow> att_row list" where
  "att_of d x dt = filter (\<lambda>a. ta_teacher a = x \<and> ta_date a = dt) (tbl_attendance d)"

definition att_unique :: "db \<Rightarrow> bool" where
  "att_unique d \<longleftrightarrow> distinct (map (\<lambda>a. (ta_teacher a, ta_date a)) (tbl_attendance d))"

section \<open>Lemmas\<close>

lemma filter_sql_update_disjoint:
  "(\<And>r. P r \<Longrightarrow> \<not> Q r) \<Longrightarrow> (\<And>r. P (f r) = P r) \<Longrightarrow> filter P (sql_update Q f xs) = filter P xs"
  by (induction xs) auto

lemma filter_sql_update_same:
  "(\<And>r. Q (f r) = Q r) \<Longrightarrow> filter Q (sql_update Q f xs) = map f (filter Q xs)"
  by (induction xs) auto

lemma distinct_map_iff_filter:
  "distinct (map f xs) \<longleftrightarrow> (\<forall>k. length (filter (\<lambda>y. f y = k) xs) \<le> 1)"
proof (induction xs)
  case Nil
  then show ?case by simp
next
  case (Cons x xs)
  have "f x \<notin> f ` set xs \<longleftrightarrow> filter (\<lambda>y. f y = f x) xs = []"
    by (auto simp: filter_empty_conv image_iff)
  with Cons show ?case
    by (auto simp: le_Suc_eq length_0_conv [symmetric] simp del: length_0_conv)
qed

lemma att_unique_iff: "att_unique d \<longleftrightarrow> (\<forall>x dt. length (att_of d x dt) \<le> 1)"
  by (simp add: att_unique_def att_of_def distinct_map_iff_filter)

lemma att_write_other:
  "(x, dt) \<noteq> (tid, today) \<Longrightarrow> att_of (att_write today recs tid st d) x dt = att_of d x dt"
  by (auto simp: att_write_def att_of_def insert_att_def intro: filter_sql_update_disjoint)

lemma att_write_self:
  "att_of (att_write today recs tid st d) tid today =
     (if recs tid \<noteq> None then map (\<lambda>a. a\<lparr>ta_status := st\<rparr>) (att_of d tid today)
      else att_of d tid today @ [\<lparr>ta_teacher = tid, ta_date = today, ta_status = st\<rparr>])"
  by (simp add: att_write_def att_of_def insert_att_def filter_sql_update_same)

lemma att_save_loop_other:
  "x \<notin> fst ` set sels \<or> dt \<noteq> today \<Longrightarrow>
     att_of (att_save_loop today recs sels d) x dt = att_of d x dt"
  by (induction sels arbitrary: d) (auto simp: att_write_other)

lemma att_save_loop_self:
  assumes "distinct (map fst sels)" and "(x, st) \<in> set sels"
  shows "att_of (att_save_loop today recs sels d) x today = att_of (att_write today recs x st d) x today"
  using assms
proof (induction sels arbitrary: d)
  case Nil
  then show ?case by simp
next
  case (Cons e sels)
  obtain tid st' where e: "e = (tid, st')" by (cases e)
  show ?case
  proof (cases "tid = x")
    case True
    with Cons.prems e have "st' = st" and "x \<notin> fst ` set sels" by (auto simp: image_iff)
    with True e show ?thesis by (simp add: att_save_loop_other)
  next
    case False
    with Cons.prems e have "distinct (map fst sels)" and "(x, st) \<in> set sels" by auto
    then have "att_of (att_save_loop today recs sels (att_write today recs tid st' d)) x today =
               att_of (att_write today recs x st (att_write today recs tid st' d)) x today"
      by (rule Cons.IH)
    also have "\<dots> = att_of (att_write today recs x st d) x today"
      using False by (simp add: att_write_self att_write_other)
    finally show ?thesis using e by simp
  qed
qed

lemma att_row_eq:
  "ta_teacher a = x \<Longrightarrow> ta_date a = dt \<Longrightarrow> a = \<lparr>ta_teacher = x, ta_date = dt, ta_status = ta_status a\<rparr>"
  by (cases a) simp

lemma att_of_unique:
  assumes "att_unique d"
  shows "att_of d x dt = [] \<or> (\<exists>s. att_of d x dt = [\<lparr>ta_teacher = x, ta_date = dt, ta_status = s\<rparr>])"
proof (cases "att_of d x dt")
  case Nil
  then show ?thesis by simp
next
  case (Cons a rest)
  from assms have "length (att_of d x dt) \<le> 1" by (simp add: att_unique_iff)
  with Cons have "rest = []" by simp
  moreover from Cons have "a \<in> set (att_of d x dt)" by simp
  then have "ta_teacher a = x" and "ta_date a = dt" by (simp_all add: att_of_def)
  then have "a = \<lparr>ta_teacher = x, ta_date = dt, ta_status = ta_status a\<rparr>"
    by (rule att_row_eq)
  ultimately show ?thesis using Cons by metis
qed

lemma att_records_None_iff: "att_records d today x = None \<longleftrightarrow> att_of d x today = []"
  by (auto simp: att_records_def att_of_def dict_of_None_iff filter_empty_conv image_iff)

lemma att_write_result:
  assumes "att_unique d"
  shows "att_of (att_write today (att_records d today) x st d) x today =
           [\<lparr>ta_teacher = x, ta_date = today, ta_status = st\<rparr>]"
  using att_of_unique [OF assms, of x today] att_records_None_iff [of d today x]
  by (auto simp: att_write_self)

lemma distinct_att_selections:
  "distinct (map t_id (tbl_teachers d)) \<Longrightarrow> distinct (map fst (att_selections d today ch))"
  by (simp add: att_selections_def att_teachers_def comp_def distinct_map)

lemma mem_att_selections:
  "(x, st) \<in> set (att_selections d today ch) \<longleftrightarrow>
     x \<in> t_id ` set (tbl_teachers d) \<and> st = att_choice d today ch x"
  by (auto simp: att_selections_def att_teachers_def)

lemma mark_attendance_self:
  assumes "att_unique d" and "distinct (map t_id (tbl_teachers d))"
    and "x \<in> t_id ` set (tbl_teachers d)"
  shows "att_of (mark_teacher_attendance d today (Att_save ch)) x today =
           [\<lparr>ta_teacher = x, ta_date = today, ta_status = att_choice d today ch x\<rparr>]"
proof -
  have "(x, att_choice d today ch x) \<in> set (att_selections d today ch)"
    using assms(3) by (simp add: mem_att_selections)
  with distinct_att_selections [OF assms(2)] show ?thesis
    by (simp add: mark_teacher_attendance_def att_save_loop_self att_write_result [OF assms(1)])
qed

lemma fst_att_selections:
  "fst ` set (att_selections d today ch) = t_id ` set (tbl_teachers d)"
  by (simp add: att_selections_def att_teachers_def image_image)

lemma mark_attendance_other:
  assumes "x \<notin> t_id ` set (tbl_teachers d) \<or> dt \<noteq> today"
  shows "att_of (mark_teacher_attendance d today act) x dt = att_of d x dt"
proof (cases act)
  case Att_view
  then show ?thesis by (simp add: mark_teacher_attendance_def)
next
  case (Att_save ch)
  from assms have "x \<notin> fst ` set (att_selections d today ch) \<or> dt \<noteq> today"
    by (simp add: fst_att_selections)
  with Att_save show ?thesis
    by (simp add: mark_teacher_attendance_def att_save_loop_other)
qed

text \<open>After a save every listed teacher has one record of the day, so the next run's radio
  defaults are the statuses just saved.\<close>

lemma day_pairs_key:
  "[p \<leftarrow> [(ta_teacher a, ta_status a). a \<leftarrow> xs, ta_date a = today]. fst p = x] =
     map (\<lambda>a. (ta_teacher a, ta_status a)) (filter (\<lambda>a. ta_teacher a = x \<and> ta_date a = today) xs)"
  by (induction xs) auto

lemma att_records_single:
  assumes "att_of d x today = [\<lparr>ta_teacher = x, ta_date = today, ta_status = s\<rparr>]"
  shows "att_records d today x = Some s"
proof -
  from assms show ?thesis
    by (simp add: att_records_def dict_of_single_key day_pairs_key flip: att_of_def)
qed

lemma att_choice_after_save:
  assumes "att_unique d" and "distinct (map t_id (tbl_teachers d))"
    and "x \<in> t_id ` set (tbl_teachers d)"
  shows "att_choice (mark_teacher_attendance d today (Att_save ch)) today ch x = att_choice d today ch x"
  using att_records_single [OF mark_attendance_self [OF assms]] by (simp add: att_choice_def split: option.splits)

section \<open>Two teachers, one already marked absent\<close>

definition att_scen :: db where
  "att_scen = empty_db\<lparr>tbl_teachers := [\<lparr>t_id = 1, t_name = ''Ann''\<rparr>, \<lparr>t_id = 2, t_name = ''Bob''\<rparr>],
     tbl_attendance := [\<lparr>ta_teacher = 1, ta_date = 739257, ta_status = Absent\<rparr>], next_t_id := 3\<rparr>"

text \<open>The user marks Bob absent and leaves Ann's button at its default.\<close>

definition att_scen_choice :: "teacher_id \<Rightarrow> status option" where
  "att_scen_choice x = (if x = 2 then Some Absent else None)"

lemma att_scen_facts:
  "att_unique att_scen" "distinct (map t_id (tbl_teachers att_scen))"
  "\<lparr>t_id = 1, t_name = ''Ann''\<rparr> \<in> set (tbl_teachers att_scen)"
  "\<lparr>t_id = 2, t_name = ''Bob''\<rparr> \<in> set (tbl_teachers att_scen)"
  by (simp_all add: att_scen_def empty_db_def att_unique_def)

lemma att_scen_choices:
  "att_choice att_scen 739257 att_scen_choice 1 = Absent"
  "att_choice att_scen 739257 att_scen_choice (Suc 0) = Absent"
  "att_choice att_scen 739257 att_scen_choice 2 = Absent"
  by (simp_all add: att_choice_def att_scen_choice_def att_records_def dict_of_def att_scen_def
      empty_db_def)

lemma att_save_loop_frame: "\<exists>as. att_save_loop today recs sels d = d\<lparr>tbl_attendance := as\<rparr>"
proof (induction sels arbitrary: d)
  case Nil
  show ?case by (rule exI [of _ "tbl_attendance d"]) simp
next
  case (Cons x sels)
  obtain tid st where x: "x = (tid, st)" by (cases x)
  obtain as where "att_save_loop today recs sels (att_write today recs tid st d) =
      (att_write today recs tid st d)\<lparr>tbl_attendance := as\<rparr>"
    using Cons.IH by blast
  then show ?case by (auto simp: x att_write_def insert_att_def)
qed

lemma mark_attendance_frame: "\<exists>as. mark_teacher_attendance d today act = d\<lparr>tbl_attendance := as\<rparr>"
proof (cases act)
  case Att_view
  then have "mark_teacher_attendance d today act = d\<lparr>tbl_attendance := tbl_attendance d\<rparr>"
    by (simp add: mark_teacher_attendance_def)
  then show ?thesis ..
qed (simp add: mark_teacher_attendance_def att_save_loop_frame)

lemma mark_attendance_att_of_le1:
  assumes "att_unique d" and "distinct (map t_id (tbl_teachers d))"
  shows "length (att_of (mark_teacher_attendance d today act) x dt) \<le> 1"
proof (cases "x \<in> t_id ` set (tbl_teachers d) \<and> dt = today \<and> act \<noteq> Att_view")
  case True
  then obtain ch where "act = Att_save ch" by (cases act) auto
  with True assms show ?thesis by (simp add: mark_attendance_self)
next
  case False
  then consider "x \<notin> t_id ` set (tbl_teachers d) \<or> dt \<noteq> today" | "act = Att_view"
    by blast
  then have "att_of (mark_teacher_attendance d today act) x dt = att_of d x dt"
  proof cases
    case 1
    then show ?thesis by (rule mark_attendance_other)
  next
    case 2
    then show ?thesis by (simp add: mark_teacher_attendance_def)
  qed
  with assms(1) show ?thesis by (simp add: att_unique_iff)
qed

section \<open>Correctness of the form\<close>

text \<open>
  C15: saving the form keeps at most one attendance record per teacher and date, the
  spec's invariant of \<open>teacher_attendence\<close>, given that teacher ids are distinct (the
  auto-increment key).
\<close>

theorem mark_teacher_attendance_unique:
  assumes "att_unique d" and "distinct (map t_id (tbl_teachers d))"
  shows "att_unique (mark_teacher_attendance d today act)"
  using mark_attendance_att_of_le1 [OF assms] by (simp add: att_unique_iff)

theorem mark_teacher_attendance_unique_witness:
  "att_unique (mark_teacher_attendance att_scen 739257 (Att_save att_scen_choice))"
  by (rule mark_teacher_attendance_unique [OF att_scen_facts(1,2)])

text \<open>
  C16: after a save, every teacher of the table has exactly one record for the day,
  holding the status the radio button showed (the user's choice, else the recorded status,
  else Present); records of other days and of ids no teacher has are unchanged.
\<close>

theorem mark_teacher_attendance_saves:
  assumes "att_unique d" and "distinct (map t_id (tbl_teachers d))"
    and "t \<in> set (tbl_teachers d)"
  shows "att_of (mark_teacher_attendance d today (Att_save ch)) (t_id t) today =
           [\<lparr>ta_teacher = t_id t, ta_date = today, ta_status = att_choice d today ch (t_id t)\<rparr>]
         \<and> (\<forall>x dt. x \<notin> t_id ` set (tbl_teachers d) \<or> dt \<noteq> today \<longrightarrow>
              att_of (mark_teacher_attendance d today (Att_save ch)) x dt = att_of d x dt)"
  using mark_attendance_self [OF assms(1,2)] mark_attendance_other assms(3) by blast

theorem mark_teacher_attendance_saves_witness:
  "att_of (mark_teacher_attendance att_scen 739257 (Att_save att_scen_choice)) 1 739257 =
     [\<lparr>ta_teacher = 1, ta_date = 739257, ta_status = Absent\<rparr>]
   \<and> att_of (mark_teacher_attendance att_scen 739257 (Att_save att_scen_choice)) 2 739257 =
     [\<lparr>ta_teacher = 2, ta_date = 739257, ta_status = Absent\<rparr>]"
  using mark_teacher_attendance_saves [OF att_scen_facts(1,2,3), of 739257 att_scen_choice]
    mark_teacher_attendance_saves [OF att_scen_facts(1,2,4), of 739257 att_scen_choice]
  by (simp add: att_scen_choices)

text \<open>
  C39: submitting the form a second time with the same buttons changes no record: the
  save of line 220 re-reads the day's records, so the second run updates every teacher's
  record to the status it already has and inserts nothing.
\<close>

theorem mark_teacher_attendance_idempotent:
  assumes wf: "att_unique d" and dist: "distinct (map t_id (tbl_teachers d))"
  shows "att_of (mark_teacher_attendance (mark_teacher_attendance d today (Att_save ch)) today (Att_save ch)) x dt
       = att_of (mark_teacher_attendance d today (Att_save ch)) x dt"
proof -
  let ?d' = "mark_teacher_attendance d today (Att_save ch)"
  have tch: "tbl_teachers ?d' = tbl_teachers d"
    using mark_attendance_frame [of d today "Att_save ch"] by auto
  have wf': "att_unique ?d'"
    using mark_attendance_att_of_le1 [OF wf dist] by (simp add: att_unique_iff)
  have dist': "distinct (map t_id (tbl_teachers ?d'))" using dist tch by simp
  show ?thesis
  proof (cases "x \<in> t_id ` set (tbl_teachers d) \<and> dt = today")
    case True
    then have x': "x \<in> t_id ` set (tbl_teachers ?d')" using tch by simp
    show ?thesis
      using True mark_attendance_self [OF wf' dist' x'] mark_attendance_self [OF wf dist, of x]
        att_choice_after_save [OF wf dist, of x] by simp
  next
    case False
    then have "x \<notin> t_id ` set (tbl_teachers ?d') \<or> dt \<noteq> today" using tch by simp
    then show ?thesis by (rule mark_attendance_other)
  qed
qed

theorem mark_teacher_attendance_idempotent_witness:
  "att_of (mark_teacher_attendance (mark_teacher_attendance att_scen 739257 (Att_save att_scen_choice)) 739257
       (Att_save att_scen_choice)) 1 739257
   = att_of (mark_teacher_attendance att_scen 739257 (Att_save att_scen_choice)) 1 739257"
  by (rule mark_teacher_attendance_idempotent [OF att_scen_facts(1,2)])

end
