(* ===== verification/Teachers.thy ===== *)
theory Teachers
  imports Schema
begin

text \<open>
  The teacher form, \<open>manage_teachers\<close> in \<open>src/functions.py\<close> (lines 6-95).  A select
  box offers \<open>-- Add New --\<close> and the teachers' names, taken from the dictionary
  \<open>{t_name: t_id}\<close>, so a name shared by several teachers appears once and stands for the
  last of them.  In the add branch a non-empty name is inserted and the session flag
  \<open>teacher_added\<close> is set (the next visit of the branch shows the message and clears
  it).  For a selected teacher the page assigns a subject/class pair (refused by the unique
  key \<open>unique_subject_class\<close>, which the page reports as a warning), lists the teacher's
  assignments with a delete button each, and deletes the teacher together with its
  assignments.  The attendance rows of a deleted teacher stay.
\<close>

section \<open>The page\<close>

definition add_new_label :: string where
  "add_new_label = ''-- Add New --''"

text \<open>\<open>teacher_names = {t['t_name']: t['t_id'] for t in teachers}\<close> and the options of
  the select box.\<close>

definition teacher_names :: "db \<Rightarrow> string \<Rightarrow> teacher_id option" where
  "teacher_names d = dict_of (map (\<lambda>t. (t_name t, t_id t)) (tbl_teachers d))"

definition teacher_options :: "db \<Rightarrow> string list" where
  "teacher_options d = add_new_label # dict_keys (map (\<lambda>t. (t_name t, t_id t)) (tbl_teachers d))"

text \<open>\<open>SELECT tsc.id, s.s_name, c.c_name FROM teacher_subject_class tsc JOIN subjects s ON
  s.s_id = tsc.subject_id JOIN classes c ON c.c_id = tsc.class_id WHERE tsc.teacher_id =
  %s\<close>: the listed assignments, each with its delete button.\<close>

definition teacher_assignments :: "db \<Rightarrow> teacher_id \<Rightarrow> (row_id \<times> string \<times> string) list" where
  "teacher_assignments d tid =
     [(tsc_id a, s_name s, c_name c). a \<leftarrow> tbl_tsc d, s \<leftarrow> tbl_subjects d, s_id s = tsc_subject a,
        c \<leftarrow> tbl_classes d, c_id c = tsc_class a \<and> tsc_teacher a = tid]"

text \<open>The one interaction of a run: none, the add button with the typed name, the assign
  form with its two select-box values, an assignment's delete button, or the delete button
  of the teacher.\<close>

datatype teacher_action =
    T_view
  | T_add string
  | T_assign "string option" "string option"
  | T_delete_assignment row_id
  | T_delete_teacher

text \<open>
  \<open>flag\<close> is \<open>st.session_state.teacher_added\<close>.  The result is the new database and
  the new flag, or the exception the run raises: \<open>KeyError\<close> for a name that is not a
  key of \<open>teacher_names\<close>, \<open>AttributeError\<close> for \<open>None.split\<close> when a select box of
  the assign form is empty.
\<close>

definition manage_teachers ::
  "db \<Rightarrow> bool \<Rightarrow> string \<Rightarrow> teacher_action \<Rightarrow> py_error + (db \<times> bool)" where
  "manage_teachers d flag sel act =
     (if sel = add_new_label then
        (case act of
           T_add name \<Rightarrow> (if name \<noteq> [] then Inr (insert_teacher name d, True) else Inr (d, False))
         | _ \<Rightarrow> Inr (d, False))
      else
        (case teacher_names d sel of
           None \<Rightarrow> Inl Key_error
         | Some tid \<Rightarrow>
             (case act of
                T_assign subj cls \<Rightarrow>
                  (case subj of
                     None \<Rightarrow> Inl Attribute_error
                   | Some sl \<Rightarrow>
                       (case cls of
                          None \<Rightarrow> Inl Attribute_error
                        | Some cl \<Rightarrow>
                            (case insert_tsc tid (split_label sl) (split_label cl) d of
                               None \<Rightarrow> Inr (d, flag)
                             | Some d' \<Rightarrow> Inr (d', flag))))
              | T_delete_assignment i \<Rightarrow>
                  (if i \<in> fst ` set (teacher_assignments d tid)
                   then Inr (d\<lparr>tbl_tsc := sql_delete (\<lambda>a. tsc_id a = i) (tbl_tsc d)\<rparr>, flag)
                   else Inr (d, flag))
              | T_delete_teacher \<Rightarrow>
                  Inr (d\<lparr>tbl_tsc := sql_delete (\<lambda>a. tsc_teacher a = tid) (tbl_tsc d),
                         tbl_teachers := sql_delete (\<lambda>t. t_id t = tid) (tbl_teachers d)\<rparr>, flag)
              | _ \<Rightarrow> Inr (d, flag))))"

section \<open>The invariant\<close>

text \<open>Distinct teacher and assignment ids below their auto-increment values, and at most
  one teacher per subject and class (\<open>unique_subject_class\<close>).\<close>

definition teachers_wf :: "db \<Rightarrow> bool" where
  "teachers_wf d \<longleftrightarrow>
     distinct (map t_id (tbl_teachers d)) \<and> (\<forall>t \<in> set (tbl_teachers d). t_id t < next_t_id d)
     \<and> distinct (map (\<lambda>a. (tsc_subject a, tsc_class a)) (tbl_tsc d))
     \<and> distinct (map tsc_id (tbl_tsc d)) \<and> (\<forall>a \<in> set (tbl_tsc d). tsc_id a < next_tsc_id d)"

section \<open>Lemmas\<close>

lemma insert_teacher_wf: "teachers_wf d \<Longrightarrow> teachers_wf (insert_teacher n d)"
  by (auto simp: teachers_wf_def insert_teacher_def)

lemma insert_tsc_wf:
  assumes wf: "teachers_wf d" and ins: "insert_tsc t s c d = Some d'"
  shows "teachers_wf d'"
proof -
  let ?new = "\<lparr>tsc_id = next_tsc_id d, tsc_teacher = t, tsc_subject = s, tsc_class = c\<rparr>"
  from ins have none: "\<forall>a \<in> set (tbl_tsc d). \<not> (tsc_subject a = s \<and> tsc_class a = c)"
    and d': "d' = d\<lparr>tbl_tsc := tbl_tsc d @ [?new], next_tsc_id := Suc (next_tsc_id d)\<rparr>"
    by (auto simp: insert_tsc_def split: if_splits)
  from none have "(s, c) \<notin> set (map (\<lambda>a. (tsc_subject a, tsc_class a)) (tbl_tsc d))" by auto
  moreover from wf have "next_tsc_id d \<notin> set (map tsc_id (tbl_tsc d))"
    by (auto simp: teachers_wf_def)
  moreover from wf have "\<forall>a \<in> set (tbl_tsc d). tsc_id a < Suc (next_tsc_id d)"
    by (auto simp: teachers_wf_def)
  ultimately show ?thesis using wf d' by (simp add: teachers_wf_def)
qed

lemma delete_wf:
  "teachers_wf d \<Longrightarrow>
     teachers_wf (d\<lparr>tbl_tsc := sql_delete P (tbl_tsc d), tbl_teachers := sql_delete Q (tbl_teachers d)\<rparr>)"
  by (auto simp: teachers_wf_def sql_delete_def distinct_map_filter)

lemma delete_tsc_wf: "teachers_wf d \<Longrightarrow> teachers_wf (d\<lparr>tbl_tsc := sql_delete P (tbl_tsc d)\<rparr>)"
  by (auto simp: teachers_wf_def sql_delete_def distinct_map_filter)

lemma manage_teachers_cases:
  assumes "manage_teachers d flag sel act = Inr (d', flag')"
  shows "d' = d
     \<or> (\<exists>n. d' = insert_teacher n d)
     \<or> (\<exists>t s c. insert_tsc t s c d = Some d')
     \<or> (\<exists>i. d' = d\<lparr>tbl_tsc := sql_delete (\<lambda>a. tsc_id a = i) (tbl_tsc d)\<rparr>)
     \<or> (\<exists>tid. d' = d\<lparr>tbl_tsc := sql_delete (\<lambda>a. tsc_teacher a = tid) (tbl_tsc d),
                     tbl_teachers := sql_delete (\<lambda>t. t_id t = tid) (tbl_teachers d)\<rparr>)"
  using assms
  by (auto simp: manage_teachers_def split: if_splits teacher_action.splits option.splits)

lemma manage_teachers_teachers:
  assumes "manage_teachers d flag sel act = Inr (d', flag')"
  shows "tbl_teachers d' = tbl_teachers d
     \<or> (\<exists>n. tbl_teachers d' = tbl_teachers d @ [\<lparr>t_id = next_t_id d, t_name = n\<rparr>])
     \<or> (\<exists>tid. teacher_names d sel = Some tid
              \<and> tbl_teachers d' = sql_delete (\<lambda>t. t_id t = tid) (tbl_teachers d))"
  using assms
  by (auto simp: manage_teachers_def insert_teacher_def insert_tsc_def
      split: if_splits teacher_action.splits option.splits)

section \<open>Two teachers named Lee\<close>

definition lee_db :: db where
  "lee_db = empty_db\<lparr>tbl_teachers := [\<lparr>t_id = 1, t_name = ''Lee''\<rparr>, \<lparr>t_id = 2, t_name = ''Lee''\<rparr>],
     tbl_classes := [\<lparr>c_id = ''C1'', c_name = ''1A''\<rparr>],
     tbl_subjects := [\<lparr>s_id = ''S1'', s_name = ''Maths''\<rparr>], next_t_id := 3\<rparr>"

lemma lee_db_wf: "teachers_wf lee_db"
  by (simp add: teachers_wf_def lee_db_def empty_db_def)

lemma lee_names: "teacher_names lee_db ''Lee'' = Some 2"
  by (simp add: teacher_names_def dict_of_def lee_db_def)

lemma lee_not_add: "''Lee'' \<noteq> add_new_label"
  by (simp add: add_new_label_def)

lemma lee_assign:
  "manage_teachers lee_db False ''Lee'' (T_assign (Some ''S1 - Maths'') (Some ''C1 - 1A'')) =
     Inr (lee_db\<lparr>tbl_tsc := [\<lparr>tsc_id = 1, tsc_teacher = 2, tsc_subject = ''S1'', tsc_class = ''C1''\<rparr>],
                  next_tsc_id := 2\<rparr>, False)"
  by (simp add: manage_teachers_def lee_not_add lee_names insert_tsc_def label_sep_def)
     (simp add: lee_db_def empty_db_def)

lemma lee_delete:
  "manage_teachers lee_db False ''Lee'' T_delete_teacher =
     Inr (lee_db\<lparr>tbl_teachers := [\<lparr>t_id = 1, t_name = ''Lee''\<rparr>]\<rparr>, False)"
  by (simp add: manage_teachers_def lee_not_add lee_names) (simp add: lee_db_def empty_db_def)

section \<open>Correctness of the form\<close>

text \<open>
  C17: every run of the teacher form keeps teacher and assignment ids distinct and below
  their auto-increment values, and at most one teacher per subject and class.
\<close>

theorem manage_teachers_wf:
  assumes "teachers_wf d" and "manage_teachers d flag sel act = Inr (d', flag')"
  shows "teachers_wf d'"
  using manage_teachers_cases [OF assms(2)] assms(1)
    insert_teacher_wf insert_tsc_wf delete_wf delete_tsc_wf by blast

theorem manage_teachers_wf_witness:
  "teachers_wf (lee_db\<lparr>tbl_tsc := [\<lparr>tsc_id = 1, tsc_teacher = 2, tsc_subject = ''S1'', tsc_class = ''C1''\<rparr>],
                         next_tsc_id := 2\<rparr>)"
  by (rule manage_teachers_wf [OF lee_db_wf lee_assign])

text \<open>
  C18: deleting the selected teacher removes exactly that teacher and its assignments; the
  teacher's attendance rows, the timetable, the classes and the subjects stay as they were.
\<close>

theorem manage_teachers_delete_teacher:
  assumes "sel \<noteq> add_new_label" and "teacher_names d sel = Some tid"
    and "manage_teachers d flag sel T_delete_teacher = Inr (d', flag')"
  shows "tbl_teachers d' = [t \<leftarrow> tbl_teachers d. t_id t \<noteq> tid]
         \<and> tbl_tsc d' = [a \<leftarrow> tbl_tsc d. tsc_teacher a \<noteq> tid]
         \<and> tbl_attendance d' = tbl_attendance d \<and> tbl_timetable d' = tbl_timetable d
         \<and> tbl_classes d' = tbl_classes d \<and> tbl_subjects d' = tbl_subjects d"
  using assms by (auto simp: manage_teachers_def sql_delete_def)

theorem manage_teachers_delete_teacher_witness:
  "tbl_teachers (lee_db\<lparr>tbl_teachers := [\<lparr>t_id = 1, t_name = ''Lee''\<rparr>]\<rparr>) =
     [t \<leftarrow> tbl_teachers lee_db. t_id t \<noteq> 2]"
  using manage_teachers_delete_teacher [OF lee_not_add lee_names lee_delete] by simp

text \<open>
  C19: assigning a subject/class pair that is already assigned (to any teacher) leaves the
  database unchanged, the \<open>IntegrityError\<close> the page reports as a warning; otherwise it
  appends exactly one assignment of the pair to the selected teacher, with the ids parsed
  from the two labels.
\<close>

theorem manage_teachers_assign:
  assumes "sel \<noteq> add_new_label" and "teacher_names d sel = Some tid"
    and "manage_teachers d flag sel (T_assign (Some sl) (Some cl)) = Inr (d', flag')"
  shows "(if \<exists>a \<in> set (tbl_tsc d). tsc_subject a = split_label sl \<and> tsc_class a = split_label cl
          then d' = d
          else tbl_tsc d' = tbl_tsc d @ [\<lparr>tsc_id = next_tsc_id d, tsc_teacher = tid,
                                          tsc_subject = split_label sl, tsc_class = split_label cl\<rparr>])"
  using assms by (auto simp: manage_teachers_def insert_tsc_def split: if_splits)

theorem manage_teachers_assign_witness:
  "[\<lparr>tsc_id = 1, tsc_teacher = 2, tsc_subject = ''S1'', tsc_class = ''C1''\<rparr>] =
     tbl_tsc lee_db @ [\<lparr>tsc_id = next_tsc_id lee_db, tsc_teacher = 2, tsc_subject = ''S1'',
                         tsc_class = ''C1''\<rparr>]"
  using manage_teachers_assign [OF lee_not_add lee_names lee_assign]
  by (simp add: label_sep_def lee_db_def empty_db_def)

text \<open>
  C20: the teacher select box resolves a name to the last teacher who has it, so of two
  teachers with the same name the earlier one can never be deleted from this page (while the
  substitution page resolves a shared name to the first, C9).
\<close>

theorem teacher_page_keeps_first_duplicate:
  assumes wf: "teachers_wf d" and ij: "i < j" "j < length (tbl_teachers d)"
    and same: "t_name (tbl_teachers d ! i) = t_name (tbl_teachers d ! j)"
    and run: "manage_teachers d flag sel act = Inr (d', flag')"
  shows "tbl_teachers d ! i \<in> set (tbl_teachers d')"
proof -
  have dist: "distinct (map t_id (tbl_teachers d))" using wf by (simp add: teachers_wf_def)
  have xi: "tbl_teachers d ! i \<in> set (tbl_teachers d)" using ij by simp
  from manage_teachers_teachers [OF run] show ?thesis
  proof (elim disjE exE conjE)
    fix tid
    assume "teacher_names d sel = Some tid"
      and d': "tbl_teachers d' = sql_delete (\<lambda>t. t_id t = tid) (tbl_teachers d)"
    then have "tid \<noteq> t_id (tbl_teachers d ! i)"
      using dict_of_shadowed [OF dist ij same] by (simp add: teacher_names_def)
    with xi d' show ?thesis by (simp add: set_sql_delete)
  qed (use xi in auto)
qed

theorem teacher_page_keeps_first_duplicate_witness:
  "\<lparr>t_id = 1, t_name = ''Lee''\<rparr> \<in> set [\<lparr>t_id = 1, t_name = ''Lee''\<rparr>]"
  using teacher_page_keeps_first_duplicate [OF lee_db_wf, of 0 1, OF _ _ _ lee_delete]
  by (simp add: lee_db_def empty_db_def)

end
