(* ===== verification/App.thy ===== *)
theory App
  imports Catalog Views Timetable Attendance Teachers
begin

text \<open>
  The dashboard of \<open>src/app.py\<close>: a sidebar select box routes each run of the script to one
  of the seven handlers of \<open>src/functions.py\<close>.  One run is one step \<open>app_step\<close> on the
  database and the session flag \<open>teacher_added\<close>, driven by a \<open>menu_action\<close> that holds
  the menu entry and the widget values of that run.  \<open>widget_ok\<close> says which widget values
  the page can produce (a select box returns one of its options, or \<open>None\<close> when it has
  none).  \<open>reachable\<close> is the set of states a session reaches from the empty database;
  the schema invariants \<open>db_wf\<close> hold on all of them.
\<close>

datatype menu_action =
    Menu_teachers string teacher_action
  | Menu_classes catalog_action
  | Menu_timetable "string option" day_name tt_action
  | Menu_attendance att_action
  | Menu_views view_choice
  | Menu_substitutions string
  | Menu_subjects catalog_action

datatype page_output = Shown | Shown_view view_report | Shown_subst subst_report

type_synonym app_state = "db \<times> bool"

definition app_step :: "date \<Rightarrow> app_state \<Rightarrow> menu_action \<Rightarrow> py_error + (app_state \<times> page_output)" where
  "app_step today s act =
     (case s of (d, flag) \<Rightarrow>
        (case act of
           Menu_teachers sel ta \<Rightarrow>
             (case manage_teachers d flag sel ta of Inl e \<Rightarrow> Inl e | Inr s' \<Rightarrow> Inr (s', Shown))
         | Menu_classes ca \<Rightarrow> Inr ((manage_classes d ca, flag), Shown)
         | Menu_timetable cls dy ta \<Rightarrow>
             (case manage_class_timetable d cls dy ta of
                Inl e \<Rightarrow> Inl e | Inr d' \<Rightarrow> Inr ((d', flag), Shown))
         | Menu_attendance aa \<Rightarrow> Inr ((mark_teacher_attendance d today aa, flag), Shown)
         | Menu_views vc \<Rightarrow>
             (case view_timetables d vc of Inl e \<Rightarrow> Inl e | Inr r \<Rightarrow> Inr ((d, flag), Shown_view r))
         | Menu_substitutions sel \<Rightarrow>
             (case find_substitutions d today sel of
                Inl e \<Rightarrow> Inl e | Inr r \<Rightarrow> Inr ((d, flag), Shown_subst r))
         | Menu_subjects ca \<Rightarrow> Inr ((manage_subjects d ca, flag), Shown)))"

section \<open>The widget values a page can produce\<close>

definition select_from :: "'a list \<Rightarrow> 'a option \<Rightarrow> bool" where
  "select_from opts sel \<longleftrightarrow> (case sel of None \<Rightarrow> opts = [] | Some x \<Rightarrow> x \<in> set opts)"

definition widget_ok :: "date \<Rightarrow> db \<Rightarrow> menu_action \<Rightarrow> bool" where
  "widget_ok today d act =
     (case act of
        Menu_teachers sel ta \<Rightarrow>
          sel \<in> set (teacher_options d)
          \<and> (case ta of T_assign s c \<Rightarrow> select_from (subject_labels d) s \<and> select_from (class_labels d) c
             | _ \<Rightarrow> True)
      | Menu_timetable cls dy ta \<Rightarrow>
          select_from (class_labels d) cls \<and> dy \<in> set school_days
          \<and> (case ta of Tt_save p s \<Rightarrow> p \<in> {1..8} \<and> select_from (subject_labels d) s | _ \<Rightarrow> True)
      | Menu_views (View_teacher sel) \<Rightarrow>
          select_from (dict_keys (map (\<lambda>t. (t_name t, t_id t)) (tbl_teachers d))) sel
      | Menu_views (View_class sel) \<Rightarrow>
          select_from (dict_keys (map (\<lambda>c. (c_name c, c_id c)) (tbl_classes d))) sel
      | Menu_substitutions sel \<Rightarrow>
          absentees d today \<noteq> [] \<longrightarrow> sel \<in> t_name ` set (absentees d today)
      | _ \<Rightarrow> True)"

section \<open>Sessions\<close>

inductive reachable :: "app_state \<Rightarrow> bool" where
  reachable_init: "reachable (empty_db, False)"
| reachable_step:
    "reachable (d, flag) \<Longrightarrow> widget_ok today d act \<Longrightarrow> app_step today (d, flag) act = Inr (s', out)
     \<Longrightarrow> reachable s'"

section \<open>The schema invariants\<close>

definition slots_in_range :: "db \<Rightarrow> bool" where
  "slots_in_range d \<longleftrightarrow>
     (\<forall>r \<in> set (tbl_timetable d). ct_day r \<in> set school_days \<and> ct_period r \<in> {1..8})"

definition db_wf :: "db \<Rightarrow> bool" where
  "db_wf d \<longleftrightarrow> teachers_wf d \<and> catalog_wf d \<and> tt_wf d \<and> att_unique d \<and> slots_in_range d
     \<and> tt_class_ids_int d"

section \<open>Frames: the tables each handler writes\<close>

lemma manage_teachers_frame:
  assumes "manage_teachers d flag sel act = Inr (d', flag')"
  shows "\<exists>ts as n m. d' = d\<lparr>tbl_teachers := ts, tbl_tsc := as, next_t_id := n, next_tsc_id := m\<rparr>"
  using manage_teachers_cases [OF assms]
  by (cases d) (auto simp: insert_teacher_def insert_tsc_def split: if_splits)

lemma manage_class_timetable_frame:
  assumes "manage_class_timetable d cls dy act = Inr d'"
  shows "\<exists>rs n. d' = d\<lparr>tbl_timetable := rs, next_ct_id := n\<rparr>"
  using manage_class_timetable_Inr [OF assms]
  by (cases d) (auto simp: tt_save_def insert_tt_def split: option.splits)

section \<open>Every step keeps the invariants\<close>

lemma db_wf_teachers_update:
  "db_wf d \<Longrightarrow> teachers_wf (d\<lparr>tbl_teachers := ts, tbl_tsc := as, next_t_id := n, next_tsc_id := m\<rparr>) \<Longrightarrow>
   db_wf (d\<lparr>tbl_teachers := ts, tbl_tsc := as, next_t_id := n, next_tsc_id := m\<rparr>)"
  by (simp add: db_wf_def catalog_wf_def tt_wf_def att_unique_def slots_in_range_def tt_class_ids_int_def)

lemma manage_teachers_db_wf:
  assumes "db_wf d" and "manage_teachers d flag sel act = Inr (d', flag')"
  shows "db_wf d'"
proof -
  from assms(1) have "teachers_wf d" by (simp add: db_wf_def)
  then have "teachers_wf d'"
    using manage_teachers_cases [OF assms(2)] insert_teacher_wf insert_tsc_wf delete_wf delete_tsc_wf
    by blast
  moreover obtain ts as n m where "d' = d\<lparr>tbl_teachers := ts, tbl_tsc := as, next_t_id := n, next_tsc_id := m\<rparr>"
    using manage_teachers_frame [OF assms(2)] by blast
  ultimately show ?thesis using assms(1) db_wf_teachers_update by blast
qed

lemma manage_class_timetable_slots:
  assumes "slots_in_range d" and "dy \<in> set school_days" and "\<And>p s. act = Tt_save p s \<Longrightarrow> p \<in> {1..8}"
    and "manage_class_timetable d cls dy act = Inr d'"
  shows "slots_in_range d'"
  using manage_class_timetable_Inr [OF assms(4)]
proof (elim exE conjE disjE)
  assume "d' = d"
  with assms(1) show ?thesis by simp
next
  fix i assume "d' = d\<lparr>tbl_timetable := sql_delete (\<lambda>r. ct_id r = i) (tbl_timetable d)\<rparr>"
  with assms(1) show ?thesis by (auto simp: slots_in_range_def sql_delete_def)
next
  fix k p lbl assume "act = Tt_save p (Some lbl)" and d': "d' = tt_save d k dy p (split_label lbl)"
  then have "p \<in> {1..8}" using assms(3) by blast
  with assms(1,2) show ?thesis
    unfolding d' slots_in_range_def by (fastforce simp: slot_key_def dest: tt_save_rows)
qed

lemma manage_class_timetable_db_wf:
  assumes "db_wf d" and "dy \<in> set school_days" and "\<And>p s. act = Tt_save p s \<Longrightarrow> p \<in> {1..8}"
    and "manage_class_timetable d cls dy act = Inr d'"
  shows "db_wf d'"
proof -
  from assms(1) have "tt_wf d" and "slots_in_range d" by (simp_all add: db_wf_def)
  then have "tt_wf d'"
    using manage_class_timetable_Inr [OF assms(4)] tt_delete_wf tt_save_wf by blast
  moreover have "slots_in_range d'"
    using manage_class_timetable_slots [OF \<open>slots_in_range d\<close> assms(2,3,4)] .
  moreover have "tt_class_ids_int d'"
    using manage_class_timetable_class_ids [OF _ assms(4)] assms(1) by (simp add: db_wf_def)
  moreover obtain rs n where "d' = d\<lparr>tbl_timetable := rs, next_ct_id := n\<rparr>"
    using manage_class_timetable_frame [OF assms(4)] by blast
  ultimately show ?thesis using assms(1)
    by (simp add: db_wf_def catalog_wf_def teachers_wf_def att_unique_def)
qed

lemma mark_attendance_db_wf:
  assumes "db_wf d"
  shows "db_wf (mark_teacher_attendance d today act)"
proof -
  from assms have "att_unique d" and "distinct (map t_id (tbl_teachers d))"
    by (simp_all add: db_wf_def teachers_wf_def)
  then have "att_unique (mark_teacher_attendance d today act)"
    using mark_attendance_att_of_le1 by (simp add: att_unique_iff)
  moreover obtain as where "mark_teacher_attendance d today act = d\<lparr>tbl_attendance := as\<rparr>"
    using mark_attendance_frame by blast
  ultimately show ?thesis using assms
    by (simp add: db_wf_def catalog_wf_def teachers_wf_def tt_wf_def slots_in_range_def tt_class_ids_int_def)
qed

lemma manage_classes_db_wf: "db_wf d \<Longrightarrow> db_wf (manage_classes d act)"
proof -
  assume wf: "db_wf d"
  then have "catalog_wf (manage_classes d act)" by (simp add: db_wf_def manage_classes_wf)
  moreover obtain cs where "manage_classes d act = d\<lparr>tbl_classes := cs\<rparr>"
    using manage_classes_frame by blast
  ultimately show ?thesis using wf
    by (simp add: db_wf_def catalog_wf_def teachers_wf_def tt_wf_def att_unique_def slots_in_range_def tt_class_ids_int_def)
qed

lemma manage_subjects_db_wf: "db_wf d \<Longrightarrow> db_wf (manage_subjects d act)"
proof -
  assume wf: "db_wf d"
  then have "catalog_wf (manage_subjects d act)" by (simp add: db_wf_def manage_subjects_wf)
  moreover obtain ss where "manage_subjects d act = d\<lparr>tbl_subjects := ss\<rparr>"
    using manage_subjects_frame by blast
  ultimately show ?thesis using wf
    by (simp add: db_wf_def catalog_wf_def teachers_wf_def tt_wf_def att_unique_def slots_in_range_def tt_class_ids_int_def)
qed

lemma app_step_db_wf:
  assumes "db_wf d" and "widget_ok today d act" and "app_step today (d, flag) act = Inr ((d', flag'), out)"
  shows "db_wf d'"
proof (cases act)
  case (Menu_teachers sel ta)
  with assms(3) have "manage_teachers d flag sel ta = Inr (d', flag')"
    by (auto simp: app_step_def split: sum.splits)
  with assms(1) show ?thesis by (rule manage_teachers_db_wf)
next
  case (Menu_timetable cls dy ta)
  with assms(3) have "manage_class_timetable d cls dy ta = Inr d'"
    by (auto simp: app_step_def split: sum.splits)
  moreover from assms(2) Menu_timetable have "dy \<in> set school_days"
    and "\<And>p s. ta = Tt_save p s \<Longrightarrow> p \<in> {1..8}"
    by (auto simp: widget_ok_def)
  ultimately show ?thesis using assms(1) manage_class_timetable_db_wf by blast
qed (use assms in \<open>auto simp: app_step_def manage_classes_db_wf manage_subjects_db_wf mark_attendance_db_wf
     split: sum.splits\<close>)

section \<open>Sessions\<close>

text \<open>A session is a sequence of runs on one date; \<open>run_session\<close> performs them in order and
  stops (\<open>None\<close>) at a widget value the page cannot produce or at a run that raises.\<close>

fun run_session :: "date \<Rightarrow> app_state \<Rightarrow> menu_action list \<Rightarrow> app_state option" where
  "run_session today s [] = Some s"
| "run_session today s (a # acts) =
     (if widget_ok today (fst s) a then
        (case app_step today s a of Inl e \<Rightarrow> None | Inr (s', out) \<Rightarrow> run_session today s' acts)
      else None)"

lemma run_session_reachable:
  "reachable s \<Longrightarrow> run_session today s acts = Some s' \<Longrightarrow> reachable s'"
proof (induction acts arbitrary: s)
  case (Cons a acts)
  obtain d flag where s: "s = (d, flag)" by (cases s)
  from Cons.prems obtain s1 out where ok: "widget_ok today d a"
    and st: "app_step today (d, flag) a = Inr (s1, out)" and rest: "run_session today s1 acts = Some s'"
    by (auto simp: s split: if_splits sum.splits)
  have "reachable s1" using reachable_step [OF _ ok st] Cons.prems(1) s by simp
  then show ?case using rest by (rule Cons.IH)
qed simp

lemma reachable_db_wf: "reachable s \<Longrightarrow> db_wf (fst s)"
proof (induction rule: reachable.induct)
  case reachable_init
  show ?case
    by (simp add: db_wf_def teachers_wf_def catalog_wf_def tt_wf_def att_unique_def
        slots_in_range_def tt_class_ids_int_def empty_db_def)
next
  case (reachable_step d flag today act s' out)
  obtain d' flag' where s': "s' = (d', flag')" by (cases s')
  with reachable_step app_step_db_wf show ?case by auto
qed

section \<open>Which runs raise\<close>

lemma select_from_None: "select_from opts sel \<Longrightarrow> sel = None \<longleftrightarrow> opts = []"
  by (cases sel) (auto simp: select_from_def)

lemma teachers_page_error_iff:
  assumes "sel \<in> set (teacher_options d)"
    and "\<And>s c. ta = T_assign s c \<Longrightarrow> select_from (subject_labels d) s \<and> select_from (class_labels d) c"
  shows "(\<exists>e. manage_teachers d flag sel ta = Inl e) \<longleftrightarrow>
           (case ta of T_assign s c \<Rightarrow> sel \<noteq> add_new_label \<and> (subject_labels d = [] \<or> class_labels d = [])
            | _ \<Rightarrow> False)"
proof (cases "sel = add_new_label")
  case True
  then show ?thesis by (auto simp: manage_teachers_def split: teacher_action.splits)
next
  case False
  with assms(1) have "teacher_names d sel \<noteq> None"
    by (auto simp: teacher_options_def teacher_names_def dest: dict_keys_lookup)
  then obtain tid where tid: "teacher_names d sel = Some tid" by blast
  show ?thesis
  proof (cases ta)
    case (T_assign s c)
    with assms(2) select_from_None have "s = None \<longleftrightarrow> subject_labels d = []" "c = None \<longleftrightarrow> class_labels d = []"
      by blast+
    with False tid T_assign show ?thesis
      by (auto simp: manage_teachers_def split: option.splits)
  qed (use False tid in \<open>simp_all add: manage_teachers_def\<close>)
qed

lemma timetable_page_error_iff:
  assumes "select_from (class_labels d) cls"
    and "\<And>p s. ta = Tt_save p s \<Longrightarrow> select_from (subject_labels d) s"
  shows "(\<exists>e. manage_class_timetable d cls dy ta = Inl e) \<longleftrightarrow>
           class_labels d = [] \<or> (\<exists>lbl. cls = Some lbl \<and> py_int (split_label lbl) = None)
           \<or> (case ta of Tt_save p s \<Rightarrow> subject_labels d = [] | _ \<Rightarrow> False)"
proof (cases cls)
  case None
  with assms(1) show ?thesis
    by (simp add: manage_class_timetable_def tt_class_key_def select_from_def)
next
  case (Some lbl)
  with assms(1) have ne: "class_labels d \<noteq> []" by (auto simp: select_from_def)
  show ?thesis
  proof (cases "py_int (split_label lbl)")
    case None
    with Some show ?thesis by (simp add: manage_class_timetable_def tt_class_key_def)
  next
    case (Some i)
    have "(\<exists>e. manage_class_timetable d (Some lbl) dy ta = Inl e) \<longleftrightarrow>
          (case ta of Tt_save p s \<Rightarrow> subject_labels d = [] | _ \<Rightarrow> False)"
    proof (cases ta)
      case (Tt_save p s)
      with assms(2) select_from_None have "s = None \<longleftrightarrow> subject_labels d = []" by blast
      with Some Tt_save show ?thesis
        by (auto simp: manage_class_timetable_def tt_class_key_def split: option.splits)
    qed (use Some in \<open>simp_all add: manage_class_timetable_def tt_class_key_def\<close>)
    with \<open>cls = Some lbl\<close> ne Some show ?thesis by simp
  qed
qed

lemma views_page_no_error:
  assumes "widget_ok today d (Menu_views vc)"
  shows "\<exists>r. view_timetables d vc = Inr r"
  using assms
  by (cases vc) (auto simp: widget_ok_def select_from_def view_timetables_def view_teacher_map_def
      view_class_map_def dest: dict_keys_lookup split: option.splits)

lemma substitutions_page_no_error:
  assumes "widget_ok today d (Menu_substitutions sel)"
  shows "\<exists>r. find_substitutions d today sel = Inr r"
  using assms
  by (auto simp: widget_ok_def find_substitutions_def selected_absentee_def find_None_iff'
      split: option.splits)

lemma slots_in_range_no_sunday:
  assumes "slots_in_range d" and "dayname today = ''Sunday''"
  shows "missed_classes d today t = []"
proof -
  have "''Sunday'' \<notin> set school_days" by (simp add: school_days_def)
  with assms have "set (missed_classes d today t) = {}"
    by (auto simp: set_missed_classes mem_slot_join slots_in_range_def tt_class_ids_int_def)
  then show ?thesis by simp
qed

section \<open>Properties of every run\<close>

text \<open>
  C21: in every state a session reaches, the schema's invariants hold: teacher ids and
  assignment ids are distinct and below their counters and each \<open>(subject, class)\<close> pair is
  assigned once; class and subject ids are distinct; each timetable slot \<open>(class, day,
  period)\<close> has one row; each teacher has at most one attendance record per day; and every
  timetable row is on a school day in periods 1 to 8.
\<close>

theorem reachable_invariants:
  assumes "reachable (d, flag)"
  shows "teachers_wf d \<and> catalog_wf d \<and> tt_wf d \<and> att_unique d \<and> slots_in_range d"
  using reachable_db_wf [OF assms] by (simp add: db_wf_def)

theorem reachable_invariants_witness:
  "teachers_wf (insert_teacher ''Asha'' empty_db) \<and> catalog_wf (insert_teacher ''Asha'' empty_db)
   \<and> tt_wf (insert_teacher ''Asha'' empty_db) \<and> att_unique (insert_teacher ''Asha'' empty_db)
   \<and> slots_in_range (insert_teacher ''Asha'' empty_db)"
proof -
  let ?a = "Menu_teachers add_new_label (T_add ''Asha'')"
  have "widget_ok 739257 empty_db ?a"
    by (simp add: widget_ok_def teacher_options_def)
  moreover have "app_step 739257 (empty_db, False) ?a = Inr ((insert_teacher ''Asha'' empty_db, True), Shown)"
    by (simp add: app_step_def manage_teachers_def)
  ultimately have "reachable (insert_teacher ''Asha'' empty_db, True)"
    by (rule reachable_step [OF reachable_init])
  then show ?thesis by (rule reachable_invariants)
qed

text \<open>
  C25: for the widget values a page can produce, a run raises exactly when: the teacher
  form assigns while there is no subject or no class; the timetable page has no class, or
  the selected class id is not an integer literal, or saves while there is no subject.  The
  view and substitution pages never raise.
\<close>

theorem app_step_error_iff:
  assumes "widget_ok today d act"
  shows "(\<exists>e. app_step today (d, flag) act = Inl e) \<longleftrightarrow>
    (case act of
       Menu_teachers sel (T_assign s c) \<Rightarrow>
         sel \<noteq> add_new_label \<and> (subject_labels d = [] \<or> class_labels d = [])
     | Menu_timetable cls dy ta \<Rightarrow>
         class_labels d = [] \<or> (\<exists>lbl. cls = Some lbl \<and> py_int (split_label lbl) = None)
         \<or> (case ta of Tt_save p s \<Rightarrow> subject_labels d = [] | _ \<Rightarrow> False)
     | _ \<Rightarrow> False)"
proof (cases act)
  case (Menu_teachers sel ta)
  with assms have "(\<exists>e. manage_teachers d flag sel ta = Inl e) \<longleftrightarrow>
           (case ta of T_assign s c \<Rightarrow> sel \<noteq> add_new_label \<and> (subject_labels d = [] \<or> class_labels d = [])
            | _ \<Rightarrow> False)"
    by (intro teachers_page_error_iff) (auto simp: widget_ok_def)
  with Menu_teachers show ?thesis
    by (cases ta) (auto simp: app_step_def split: sum.splits)
next
  case (Menu_timetable cls dy ta)
  with assms have "(\<exists>e. manage_class_timetable d cls dy ta = Inl e) \<longleftrightarrow>
           class_labels d = [] \<or> (\<exists>lbl. cls = Some lbl \<and> py_int (split_label lbl) = None)
           \<or> (case ta of Tt_save p s \<Rightarrow> subject_labels d = [] | _ \<Rightarrow> False)"
    by (intro timetable_page_error_iff) (auto simp: widget_ok_def)
  with Menu_timetable show ?thesis
    by (auto simp: app_step_def split: sum.splits)
next
  case (Menu_views vc)
  with assms views_page_no_error show ?thesis by (force simp: app_step_def)
next
  case (Menu_substitutions sel)
  with assms substitutions_page_no_error show ?thesis by (force simp: app_step_def)
qed (simp_all add: app_step_def)

theorem app_step_error_iff_witness:
  "widget_ok 739257 empty_db (Menu_timetable None ''Monday'' Tt_view)
   \<and> (\<exists>e. app_step 739257 (empty_db, False) (Menu_timetable None ''Monday'' Tt_view) = Inl e)"
proof
  show ok: "widget_ok 739257 empty_db (Menu_timetable None ''Monday'' Tt_view)"
    by (simp add: widget_ok_def select_from_def class_labels_def empty_db_def school_days_def)
  show "\<exists>e. app_step 739257 (empty_db, False) (Menu_timetable None ''Monday'' Tt_view) = Inl e"
    using app_step_error_iff [OF ok, of False] by (simp add: class_labels_def empty_db_def)
qed

end
