(* ===== verification/Rerun.thy ===== *)
theory Rerun
  imports App
begin

text \<open>
  \<open>st.rerun()\<close>: every handler that commits a write calls \<open>st.rerun()\<close>, which stops the
  run and starts the script again.  In the new run no button is pressed and no form is
  submitted (Streamlit resets them), and each select box keeps its value while it is still
  among the options, else falls back to its first option.  \<open>run_until_settled\<close> is this
  loop, a \<open>partial_function\<close> in the option monad: \<open>None\<close> would be a page that reruns
  forever.  The main facts: it always returns, after at most one rerun, and the rerun
  writes nothing.
\<close>

section \<open>Where the handlers call st.rerun()\<close>

text \<open>\<open>manage_teachers\<close>: after adding a teacher (line 32), after a successful assignment
  (line 58, not after the \<open>IntegrityError\<close> of line 59), after deleting an assignment
  (line 85) and after deleting the teacher (line 93).\<close>

definition teachers_rerun :: "db \<Rightarrow> string \<Rightarrow> teacher_action \<Rightarrow> bool" where
  "teachers_rerun d sel ta =
     (if sel = add_new_label then (case ta of T_add n \<Rightarrow> n \<noteq> [] | _ \<Rightarrow> False)
      else (case teacher_names d sel of
              None \<Rightarrow> False
            | Some tid \<Rightarrow>
                (case ta of
                   T_assign (Some sl) (Some cl) \<Rightarrow>
                     insert_tsc tid (split_label sl) (split_label cl) d \<noteq> None
                 | T_delete_assignment i \<Rightarrow> i \<in> fst ` set (teacher_assignments d tid)
                 | T_delete_teacher \<Rightarrow> True
                 | _ \<Rightarrow> False)))"

text \<open>\<open>manage_class_timetable\<close>: after deleting a listed entry (line 133) and after a save
  (line 166); the class id is converted first, so a run that raises never reruns.\<close>

definition tt_rerun :: "db \<Rightarrow> string option \<Rightarrow> day_name \<Rightarrow> tt_action \<Rightarrow> bool" where
  "tt_rerun d cls dy ta =
     (case tt_class_key cls of
        Inl e \<Rightarrow> False
      | Inr k \<Rightarrow>
          (case ta of
             Tt_delete i \<Rightarrow> i \<in> fst ` set (tt_entries d k dy)
           | Tt_save p (Some lbl) \<Rightarrow> True
           | _ \<Rightarrow> False))"

text \<open>\<open>mark_teacher_attendance\<close>: after every submitted form (line 220).\<close>

definition att_rerun :: "att_action \<Rightarrow> bool" where
  "att_rerun aa = (case aa of Att_save ch \<Rightarrow> True | Att_view \<Rightarrow> False)"

text \<open>\<open>manage_classes\<close> and \<open>manage_subjects\<close>: after deleting a listed row (lines 388
  and 423) and after an insert that succeeded (lines 399 and 435, not in the
  \<open>except\<close> branch).\<close>

definition classes_rerun :: "db \<Rightarrow> catalog_action \<Rightarrow> bool" where
  "classes_rerun d ca =
     (case ca of
        Cat_view \<Rightarrow> False
      | Cat_delete k \<Rightarrow> k \<in> c_id ` set (tbl_classes d)
      | Cat_add k n \<Rightarrow> k \<noteq> [] \<and> n \<noteq> [] \<and> insert_class k n d \<noteq> None)"

definition subjects_rerun :: "db \<Rightarrow> catalog_action \<Rightarrow> bool" where
  "subjects_rerun d ca =
     (case ca of
        Cat_view \<Rightarrow> False
      | Cat_delete k \<Rightarrow> k \<in> s_id ` set (tbl_subjects d)
      | Cat_add k n \<Rightarrow> k \<noteq> [] \<and> n \<noteq> [] \<and> insert_subject k n d \<noteq> None)"

definition calls_rerun :: "db \<Rightarrow> menu_action \<Rightarrow> bool" where
  "calls_rerun d act =
     (case act of
        Menu_teachers sel ta \<Rightarrow> teachers_rerun d sel ta
      | Menu_classes ca \<Rightarrow> classes_rerun d ca
      | Menu_timetable cls dy ta \<Rightarrow> tt_rerun d cls dy ta
      | Menu_attendance aa \<Rightarrow> att_rerun aa
      | Menu_views vc \<Rightarrow> False
      | Menu_substitutions sel \<Rightarrow> False
      | Menu_subjects ca \<Rightarrow> subjects_rerun d ca)"

section \<open>The run after st.rerun()\<close>

text \<open>The same page with nothing pressed, its select boxes re-read against the options of
  the new database \<open>d\<close>.\<close>

definition keep_or_first :: "'a list \<Rightarrow> 'a \<Rightarrow> 'a \<Rightarrow> 'a" where
  "keep_or_first opts dflt x = (if x \<in> set opts then x else (case opts of [] \<Rightarrow> dflt | y # ys \<Rightarrow> y))"

definition idle_action :: "db \<Rightarrow> menu_action \<Rightarrow> menu_action" where
  "idle_action d act =
     (case act of
        Menu_teachers sel ta \<Rightarrow> Menu_teachers (keep_or_first (teacher_options d) sel sel) T_view
      | Menu_classes ca \<Rightarrow> Menu_classes Cat_view
      | Menu_timetable cls dy ta \<Rightarrow>
          Menu_timetable (map_option (\<lambda>l. keep_or_first (class_labels d) l l) cls) dy Tt_view
      | Menu_attendance aa \<Rightarrow> Menu_attendance Att_view
      | Menu_views vc \<Rightarrow> Menu_views vc
      | Menu_substitutions sel \<Rightarrow> Menu_substitutions sel
      | Menu_subjects ca \<Rightarrow> Menu_subjects Cat_view)"

partial_function (option) run_until_settled ::
  "date \<Rightarrow> app_state \<Rightarrow> menu_action \<Rightarrow> (py_error + app_state) option" where
  "run_until_settled today s act =
     (case app_step today s act of
        Inl e \<Rightarrow> Some (Inl e)
      | Inr (s', out) \<Rightarrow>
          (if calls_rerun (fst s) act
           then run_until_settled today s' (idle_action (fst s') act)
           else Some (Inr s')))"

section \<open>Lemmas\<close>

lemma calls_rerun_idle: "\<not> calls_rerun d (idle_action d' act)"
  by (cases act)
    (simp_all add: calls_rerun_def idle_action_def teachers_rerun_def tt_rerun_def att_rerun_def
      classes_rerun_def subjects_rerun_def split: sum.splits option.splits)

lemma app_step_idle:
  assumes "app_step today (d, flag) (idle_action d' act) = Inr ((d'', flag'), out)"
  shows "d'' = d"
  using assms
  by (cases act)
    (auto simp: app_step_def idle_action_def manage_teachers_def manage_classes_def
      manage_subjects_def manage_class_timetable_def mark_teacher_attendance_def
      split: sum.splits if_splits option.splits)

lemma run_until_settled_idle:
  "run_until_settled today s (idle_action d' act) =
     (case app_step today s (idle_action d' act) of Inl e \<Rightarrow> Some (Inl e) | Inr (s', out) \<Rightarrow> Some (Inr s'))"
  by (subst run_until_settled.simps) (simp add: calls_rerun_idle split: sum.splits prod.splits)

lemma run_until_settled_unfold:
  "run_until_settled today s act =
     (case app_step today s act of
        Inl e \<Rightarrow> Some (Inl e)
      | Inr (s', out) \<Rightarrow>
          (if calls_rerun (fst s) act
           then (case app_step today s' (idle_action (fst s') act) of
                   Inl e \<Rightarrow> Some (Inl e) | Inr (s'', out') \<Rightarrow> Some (Inr s''))
           else Some (Inr s')))"
  by (subst run_until_settled.simps) (simp add: run_until_settled_idle split: sum.splits prod.splits)

section \<open>The rerun loop ends\<close>

text \<open>
  C34: the \<open>st.rerun()\<close> loop of every page ends: whatever the state and the user's action,
  the runs settle (or raise) after at most one rerun, because the rerun presses nothing.
\<close>

theorem run_until_settled_terminates: "\<exists>r. run_until_settled today s act = Some r"
  by (simp add: run_until_settled_unfold split: sum.splits prod.splits)

text \<open>
  C35: the rerun writes nothing: when the runs settle without an error, the database is the
  one the user's own run wrote.
\<close>

theorem rerun_writes_nothing:
  assumes "app_step today (d, flag) act = Inr ((d1, flag1), out)"
    and "run_until_settled today (d, flag) act = Some (Inr (d', flag'))"
  shows "d' = d1"
proof (cases "calls_rerun d act")
  case True
  with assms have "app_step today (d1, flag1) (idle_action d1 act) = Inr ((d', flag'), out')
      \<or> (\<exists>out'. app_step today (d1, flag1) (idle_action d1 act) = Inr ((d', flag'), out'))" for out'
    by (auto simp: run_until_settled_unfold split: sum.splits prod.splits)
  then obtain out' where "app_step today (d1, flag1) (idle_action d1 act) = Inr ((d', flag'), out')"
    by blast
  then show ?thesis by (rule app_step_idle)
next
  case False
  with assms show ?thesis by (simp add: run_until_settled_unfold)
qed

theorem rerun_writes_nothing_witness:
  "mark_teacher_attendance (mark_teacher_attendance att_scen 739257 (Att_save att_scen_choice)) 739257 Att_view
   = mark_teacher_attendance att_scen 739257 (Att_save att_scen_choice)"
proof -
  let ?d1 = "mark_teacher_attendance att_scen 739257 (Att_save att_scen_choice)"
  have step: "app_step 739257 (att_scen, False) (Menu_attendance (Att_save att_scen_choice)) =
      Inr ((?d1, False), Shown)"
    by (simp add: app_step_def)
  have "run_until_settled 739257 (att_scen, False) (Menu_attendance (Att_save att_scen_choice)) =
      Some (Inr (mark_teacher_attendance ?d1 739257 Att_view, False))"
    by (simp only: run_until_settled_unfold step) (simp add: calls_rerun_def att_rerun_def
        idle_action_def app_step_def)
  from rerun_writes_nothing [OF step this] show ?thesis .
qed

text \<open>
  C36: adding a teacher settles with the teacher appended and the \<open>teacher_added\<close> flag
  consumed: the run that adds sets the flag, and the rerun shows the success message and
  deletes it.
\<close>

theorem add_teacher_settles:
  assumes "n \<noteq> []"
  shows "run_until_settled today (d, flag) (Menu_teachers add_new_label (T_add n)) =
           Some (Inr (insert_teacher n d, False))"
  using assms
  by (simp add: run_until_settled_unfold app_step_def manage_teachers_def calls_rerun_def
      teachers_rerun_def idle_action_def keep_or_first_def teacher_options_def)

theorem add_teacher_settles_witness:
  "run_until_settled 739257 (empty_db, False) (Menu_teachers add_new_label (T_add ''Asha'')) =
     Some (Inr (insert_teacher ''Asha'' empty_db, False))"
  by (rule add_teacher_settles) simp

end
