(* ===== verification/Sessions.thy ===== *)
theory Sessions
  imports App
begin

text \<open>
  Concrete sessions of the dashboard, each a list of runs performed by \<open>run_session\<close>
  from the empty database on Monday 739257, and the properties of reachable states they
  exhibit: a teacher booked twice in one period, classes deleted under their timetable,
  and the class view's bound per slot.
\<close>

section \<open>A session that double-books a teacher\<close>

text \<open>One teacher, two classes and one subject; the teacher is assigned the subject in both
  classes (two different \<open>(subject, class)\<close> pairs, which \<open>unique_subject_class\<close>
  allows), and both classes get the subject in Monday's first period.\<close>

definition dbl_acts :: "menu_action list" where
 "dbl_acts = [Menu_teachers add_new_label (T_add ''Asha''),
   Menu_classes (Cat_add ''1'' ''1A''), Menu_classes (Cat_add ''2'' ''1B''),
   Menu_subjects (Cat_add ''M'' ''Maths''),
   Menu_teachers ''Asha'' (T_assign (Some ''M - Maths'') (Some ''1 - 1A'')),
   Menu_teachers ''Asha'' (T_assign (Some ''M - Maths'') (Some ''2 - 1B'')),
   Menu_timetable (Some ''1 - 1A'') ''Monday'' (Tt_save 1 (Some ''M - Maths'')),
   Menu_timetable (Some ''2 - 1B'') ''Monday'' (Tt_save 1 (Some ''M - Maths''))]"

definition dbl_db :: db where
  "dbl_db = \<lparr>tbl_teachers = [\<lparr>t_id = 1, t_name = ''Asha''\<rparr>],
      tbl_classes = [\<lparr>c_id = ''1'', c_name = ''1A''\<rparr>, \<lparr>c_id = ''2'', c_name = ''1B''\<rparr>],
      tbl_subjects = [\<lparr>s_id = ''M'', s_name = ''Maths''\<rparr>],
      tbl_tsc = [\<lparr>tsc_id = 1, tsc_teacher = 1, tsc_subject = ''M'', tsc_class = ''1''\<rparr>,
                 \<lparr>tsc_id = 2, tsc_teacher = 1, tsc_subject = ''M'', tsc_class = ''2''\<rparr>],
      tbl_timetable =
        [\<lparr>ct_id = 1, ct_class = ''1'', ct_subject = ''M'', ct_day = ''Monday'', ct_period = 1\<rparr>,
         \<lparr>ct_id = 2, ct_class = ''2'', ct_subject = ''M'', ct_day = ''Monday'', ct_period = 1\<rparr>],
      tbl_attendance = [], next_t_id = 2, next_tsc_id = 3, next_ct_id = 3\<rparr>"

lemmas app_eval = dbl_acts_def app_step_def widget_ok_def select_from_def teacher_options_def dict_keys_def
  add_new_label_def subject_labels_def class_labels_def option_label_def label_sep_def
  school_days_def manage_teachers_def insert_teacher_def teacher_names_def dict_of_def
  manage_classes_def insert_class_def manage_subjects_def insert_subject_def insert_tsc_def
  manage_class_timetable_def tt_class_key_def py_int_eval tt_save_def tt_lookup_def slot_key_def
  insert_tt_def empty_db_def

lemma dbl_session: "run_session 739257 (empty_db, False) dbl_acts = Some (dbl_db, True)"
  by (simp add: app_eval dbl_db_def)


lemma dbl_reachable: "reachable (dbl_db, True)"
  by (rule run_session_reachable [OF reachable_init dbl_session])

section \<open>A session that deletes the classes\<close>

text \<open>From the double-booking state, both classes are deleted on the class page; their
  assignments and timetable rows stay.\<close>

definition orphan_db :: db where
  "orphan_db = dbl_db\<lparr>tbl_classes := []\<rparr>"

lemma orphan_session:
  "run_session 739257 (dbl_db, True) [Menu_classes (Cat_delete ''1''), Menu_classes (Cat_delete ''2'')]
   = Some (orphan_db, True)"
  by (simp add: app_step_def widget_ok_def manage_classes_def sql_delete_def orphan_db_def dbl_db_def)

lemma orphan_reachable: "reachable (orphan_db, True)"
  by (rule run_session_reachable [OF dbl_reachable orphan_session])

section \<open>A session whose substitutes are not in name order\<close>

text \<open>Three teachers added as Tom, Zoe, Amy; Tom teaches Maths to class 1A in Monday's
  first period and is marked absent (the others keep the default Present).\<close>

definition ord_acts :: "menu_action list" where
 "ord_acts = [Menu_teachers add_new_label (T_add ''Tom''), Menu_teachers add_new_label (T_add ''Zoe''),
   Menu_teachers add_new_label (T_add ''Amy''),
   Menu_classes (Cat_add ''1'' ''1A''), Menu_subjects (Cat_add ''M'' ''Maths''),
   Menu_teachers ''Tom'' (T_assign (Some ''M - Maths'') (Some ''1 - 1A'')),
   Menu_timetable (Some ''1 - 1A'') ''Monday'' (Tt_save 1 (Some ''M - Maths'')),
   Menu_attendance (Att_save (\<lambda>x. if x = 1 then Some Absent else None))]"

definition ord_db :: db where
  "ord_db = \<lparr>tbl_teachers = [\<lparr>t_id = 1, t_name = ''Tom''\<rparr>, \<lparr>t_id = 2, t_name = ''Zoe''\<rparr>,
                            \<lparr>t_id = 3, t_name = ''Amy''\<rparr>],
      tbl_classes = [\<lparr>c_id = ''1'', c_name = ''1A''\<rparr>],
      tbl_subjects = [\<lparr>s_id = ''M'', s_name = ''Maths''\<rparr>],
      tbl_tsc = [\<lparr>tsc_id = 1, tsc_teacher = 1, tsc_subject = ''M'', tsc_class = ''1''\<rparr>],
      tbl_timetable =
        [\<lparr>ct_id = 1, ct_class = ''1'', ct_subject = ''M'', ct_day = ''Monday'', ct_period = 1\<rparr>],
      tbl_attendance = [\<lparr>ta_teacher = 3, ta_date = 739257, ta_status = Present\<rparr>,
                        \<lparr>ta_teacher = 1, ta_date = 739257, ta_status = Absent\<rparr>,
                        \<lparr>ta_teacher = 2, ta_date = 739257, ta_status = Present\<rparr>],
      next_t_id = 4, next_tsc_id = 2, next_ct_id = 2\<rparr>"

lemma ord_session: "run_session 739257 (empty_db, False) ord_acts = Some (ord_db, True)"
  by (simp add: app_eval ord_acts_def ord_db_def mark_teacher_attendance_def att_selections_def
      att_teachers_def att_choice_def att_records_def att_write_def insert_att_def)

definition ord_slot :: slot_info where
  "ord_slot = \<lparr>si_class = ''1'', si_c_name = ''1A'', si_subject = ''M'', si_s_name = ''Maths'',
                si_day = ''Monday'', si_period = 1\<rparr>"

lemma ord_suggestions:
  "find_substitutions ord_db 739257 ''Tom'' =
     Inr (Suggestions [(ord_slot, [\<lparr>t_id = 2, t_name = ''Zoe''\<rparr>, \<lparr>t_id = 3, t_name = ''Amy''\<rparr>])])"
proof -
  have mon: "dayname 739257 = ''Monday''" by (simp add: dayname_def week_days_def)
  show ?thesis
    by (simp add: find_substitutions_def absentees_def selected_absentee_def substitutions_for_def
        missed_classes_def slot_join_def teaches_def free_teachers_def busy_teachers_def
        absent_ids_def mon ord_db_def ord_slot_def)
qed

section \<open>Properties of sessions\<close>

text \<open>
  C22: the schema does not keep a teacher from teaching two classes in the same period: a
  session of valid runs reaches a database in which one teacher has two lessons, in
  different classes, on the same day and period (the consistency gap the spec flags).
\<close>

theorem teacher_double_booking_reachable:
  "\<exists>d flag. reachable (d, flag) \<and>
     (\<exists>t r1 r2. (t, r1) \<in> set (slot_join d) \<and> (t, r2) \<in> set (slot_join d)
        \<and> si_class r1 \<noteq> si_class r2 \<and> si_day r1 = si_day r2 \<and> si_period r1 = si_period r2)"
proof (intro exI conjI)
  show "reachable (dbl_db, True)" by (rule dbl_reachable)
  let ?r = "\<lambda>c n. \<lparr>si_class = c, si_c_name = n, si_subject = ''M'', si_s_name = ''Maths'',
                   si_day = ''Monday'', si_period = 1\<rparr>"
  show "(1, ?r ''1'' ''1A'') \<in> set (slot_join dbl_db)" and "(1, ?r ''2'' ''1B'') \<in> set (slot_join dbl_db)"
    by (simp_all add: slot_join_def dbl_db_def teaches_def)
qed simp_all

text \<open>
  C24: on a Sunday the engine never suggests substitutes in a reachable database: the
  timetable form only offers Monday to Saturday, so the page shows that everyone is present,
  or that the teacher has no periods today, or (for a name no absentee has) raises.
\<close>

theorem sunday_no_suggestions:
  assumes "reachable (d, flag)" and "dayname today = ''Sunday''"
  shows "find_substitutions d today sel \<in> {Inr All_present, Inr No_periods, Inl Stop_iteration}"
proof -
  have "slots_in_range d" using reachable_db_wf [OF assms(1)] by (simp add: db_wf_def)
  then have "missed_classes d today t = []" for t using assms(2) by (rule slots_in_range_no_sunday)
  then show ?thesis
    by (auto simp: find_substitutions_def substitutions_for_def split: option.splits)
qed

theorem sunday_no_suggestions_witness:
  "dayname 739256 = ''Sunday'' \<and> find_substitutions dbl_db 739256 ''Asha'' \<in> {Inr All_present, Inr No_periods, Inl Stop_iteration}"
proof
  show "dayname 739256 = ''Sunday''" by (simp add: dayname_def week_days_def)
  then show "find_substitutions dbl_db 739256 ''Asha'' \<in> {Inr All_present, Inr No_periods, Inl Stop_iteration}"
    by (rule sunday_no_suggestions [OF dbl_reachable])
qed


text \<open>
  C26: in every state a session reaches, the class view lists at most one lesson for each
  day and period: the timetable's one row per slot, the one teacher per subject and class,
  and the primary keys of subjects and teachers together make the four-table join give
  at most one row per timetable row.
\<close>

theorem reachable_class_view_one_per_slot:
  assumes "reachable (d, flag)"
  shows "distinct (map (\<lambda>(sn, dy, p, tn). (dy, p)) (class_view_rows d c))"
proof -
  have "db_wf d" using reachable_db_wf [OF assms] by simp
  then show ?thesis
    by (intro class_view_distinct) (simp_all add: db_wf_def tt_wf_def teachers_wf_def catalog_wf_def)
qed

theorem reachable_class_view_one_per_slot_witness:
  "distinct (map (\<lambda>(sn, dy, p, tn). (dy, p)) (class_view_rows dbl_db ''1''))"
  by (rule reachable_class_view_one_per_slot [OF dbl_reachable])

text \<open>
  C27: deleting a class leaves its timetable rows and assignments, and the engine's two
  queries then disagree: a reachable database has a teacher whom step 3 counts as teaching
  in a period (its query joins only assignments and timetable) while step 2, which also
  joins classes, lists no period for that teacher today.  Such a teacher is withheld from
  the suggestions for a lesson that no longer exists.
\<close>

theorem deleted_class_teacher_still_busy:
  "\<exists>d flag today t p. reachable (d, flag) \<and> t \<in> set (busy_teachers d today p)
     \<and> missed_classes d today t = []"
proof (intro exI conjI)
  show "reachable (orphan_db, True)" by (rule orphan_reachable)
  have mon: "dayname 739257 = ''Monday''" by (simp add: dayname_def week_days_def)
  show "1 \<in> set (busy_teachers orphan_db 739257 1)"
    by (simp add: busy_teachers_def mon orphan_db_def dbl_db_def teaches_def)
  show "missed_classes orphan_db 739257 1 = []"
    by (simp add: missed_classes_def slot_join_def orphan_db_def dbl_db_def)
qed

text \<open>
  C37: the substitutes of a period are listed in table order, not by name as the spec's
  output section asks: a reachable state has a missed period whose suggested teachers are
  not sorted by name.
\<close>

theorem substitutes_not_by_name:
  "\<exists>d flag today sel xs r subs. reachable (d, flag)
     \<and> find_substitutions d today sel = Inr (Suggestions xs) \<and> (r, subs) \<in> set xs
     \<and> \<not> sorted (map t_name subs)"
proof (intro exI conjI)
  show "reachable (ord_db, True)"
    by (rule run_session_reachable [OF reachable_init ord_session])
  show "find_substitutions ord_db 739257 ''Tom'' =
     Inr (Suggestions [(ord_slot, [\<lparr>t_id = 2, t_name = ''Zoe''\<rparr>, \<lparr>t_id = 3, t_name = ''Amy''\<rparr>])])"
    by (rule ord_suggestions)
  show "\<not> sorted (map t_name [\<lparr>t_id = 2, t_name = ''Zoe''\<rparr>, \<lparr>t_id = 3, t_name = ''Amy''\<rparr>])"
    by simp
qed simp

end
