(* ===== verification/Spec2Isabelle.thy ===== *)
theory Spec2Isabelle
  imports Rerun Sessions
begin

text \<open>
  \<^bold>\<open>A verification library for the Dynamic Timetable Adjustment System.\<close>

  \<^emph>\<open>The program.\<close>  \<open>src/app.py\<close> is a Streamlit page that routes a sidebar menu
  to seven handlers of \<open>src/functions.py\<close>.  Each handler opens a MySQL connection
  (\<open>db.get_connection\<close>, not part of the sources), reads and writes six tables
  (\<open>teachers\<close>, \<open>classes\<close>, \<open>subjects\<close>, \<open>teacher_subject_class\<close>,
  \<open>class_timetable\<close>, \<open>teacher_attendence\<close>) and renders widgets.  Five handlers are
  data-entry forms; \<open>view_timetables\<close> is a read-only report; \<open>find_substitutions\<close>
  is the substitution engine: it lists the teachers absent today, lets the user pick one
  by name, lists the periods that teacher misses today in period order, and for each
  period the teachers who are neither teaching then, nor the absentee, nor absent.
  Every click reruns the script, so a session is a sequence of runs, each one handler
  call on the current database.

  \<^emph>\<open>Theories\<close> (each opens with a note of what it holds).
  \<^item> \<open>Prelude\<close>: column types, the Python errors the handlers raise (\<open>py_error\<close>),
    the select-box label idiom (\<open>option_label\<close> for \<open>f"{id} - {name}"\<close>,
    \<open>split_label\<close> for \<open>.split(" - ")[0]\<close>), dictionaries built by comprehension
    (\<open>dict_of\<close>, \<open>dict_keys\<close>), the \<open>query_simps\<close> collection and the list lemmas
    the components share (uniqueness of keyed rows, joins of at most one row, and
    \<open>dict_of_shadowed\<close>: a row whose name a later row repeats is never looked up).
  \<^item> \<open>Schema\<close>: the database as a record \<open>db\<close> of six row lists in table order plus the
    auto-increment counters; the \<open>INSERT\<close>, \<open>UPDATE\<close> and \<open>DELETE\<close> statements
    with the keys the code relies on (\<open>unique_subject_class\<close>, the primary keys).  The
    schema is not in the sources; it is modelled from the queries and the spec.
  \<^item> \<open>Calendar\<close>: dates as proleptic Gregorian ordinals, \<open>dayname\<close> (MySQL
    \<open>DAYNAME\<close>), the six school days of the timetable form.
  \<^item> \<open>PyInt\<close>: Python's \<open>int()\<close> on strings and \<open>str()\<close> on integers, with the
    round trip \<open>py_int (dec_string i) = Some i\<close> and the syntactic description
    \<open>canonical_dec\<close> of the strings \<open>str()\<close> prints; used for the class id of the
    timetable editor.
  \<^item> \<open>Substitution\<close>: \<open>find_substitutions\<close> (lines 291-367): \<open>absentees\<close>,
    \<open>slot_join\<close> and \<open>missed_classes\<close>, \<open>busy_teachers\<close>, \<open>absent_ids\<close> and
    \<open>free_teachers\<close>, \<open>selected_absentee\<close> (the \<open>next(...)\<close> of line 310),
    \<open>substitutions_for\<close> and the pipeline, whose result \<open>subst_report\<close> has one
    constructor per message the page shows; the spec's sets \<open>teaching_at\<close>,
    \<open>absent_on\<close>, \<open>eligible\<close> (spec 4.3) as the abstract specification.
  \<^item> \<open>Timetable\<close>: \<open>manage_class_timetable\<close> (lines 98-168): the class-id conversion
    \<open>tt_class_key\<close>, the entry list, delete, and \<open>tt_save\<close>, the lookup then
    update-or-insert; the invariant \<open>tt_wf\<close>.
  \<^item> \<open>Attendance\<close>: \<open>mark_teacher_attendance\<close> (lines 171-222): the day's records
    read once (\<open>att_records\<close>), the radio defaults (\<open>att_choice\<close>), the save loop
    \<open>att_save_loop\<close> of \<open>att_write\<close>; the invariant \<open>att_unique\<close>.
  \<^item> \<open>Teachers\<close>: \<open>manage_teachers\<close> (lines 6-95) with the \<open>teacher_added\<close> session
    flag, the name-keyed select box, assignments and the deletes; the invariant
    \<open>teachers_wf\<close>.
  \<^item> \<open>Catalog\<close>: \<open>manage_classes\<close> and \<open>manage_subjects\<close> (lines 370-439); the
    invariant \<open>catalog_wf\<close> (unique ids).
  \<^item> \<open>Views\<close>: \<open>view_timetables\<close> (lines 225-288): the teacher view
    (\<open>teacher_view_slots\<close>, the same join as the engine) and the class view
    (\<open>class_rows\<close>), ordered by MySQL \<open>FIELD\<close> of the day and the period; the
    name-keyed select boxes \<open>view_teacher_map\<close> and \<open>view_class_map\<close>.
  \<^item> \<open>App\<close>: \<open>src/app.py\<close>: \<open>menu_action\<close> (menu entry and widget values of one
    run), \<open>app_step\<close> (the routing), \<open>widget_ok\<close> (what the select boxes can return),
    the inductive set \<open>reachable\<close> of session states from the empty database,
    \<open>run_session\<close> for concrete sessions, the combined invariant \<open>db_wf\<close> and its
    preservation by every run, and which runs raise.
  \<^item> \<open>Sessions\<close>: concrete sessions from the empty database (a teacher booked twice,
    classes deleted under their timetable, substitutes out of name order) and the
    properties of reachable states they exhibit or that follow from \<open>db_wf\<close>.
  \<^item> \<open>Rerun\<close>: where each handler calls \<open>st.rerun()\<close> (\<open>calls_rerun\<close> and one
    predicate per handler), the run that follows (\<open>idle_action\<close>: no button pressed,
    select boxes kept or reset to their first option) and the loop \<open>run_until_settled\<close>.
  \<^item> \<open>Spec2Isabelle\<close> (this theory): the properties that span components.

  \<^emph>\<open>What is proved.\<close>
  \<^item> The engine (C1-C9): the suggestions are for an absentee with the selected name,
    over exactly that teacher's missed periods, each with exactly the eligible set (C1);
    the free-teacher query refines the eligible set (C2); with the keys of assignments,
    classes and subjects the missed periods are the teacher's lessons of the day
    (\<open>lesson_today\<close>), each once, in period order (C3); no absent (C4) or busy (C6)
    teacher is suggested (the self guard of line 351 is subsumed by C4); marking one more
    teacher absent withdraws exactly that teacher from every suggestion list (C5, in this
    theory: the attendance defaults re-save each recorded status); the all-present message
    and the only error are characterised (C7, C8); an absentee who shares an earlier
    absentee's name can never be selected (C9).
  \<^item> The timetable editor (C10-C14): it keeps one row per slot (C10); a save puts the
    chosen subject in the slot and leaves the other slots alone (C11); its errors
    (C12); the class-id round trip for canonical ids (C13); and the editor keeps a class's
    own id exactly when the id is a canonical decimal integer (\<open>PyInt.canonical_dec\<close>,
    proved equal to the range of \<open>str()\<close>), so \<open>C101\<close> raises and \<open>007\<close> is filed
    as \<open>7\<close> (C14).
  \<^item> Attendance (C15, C16, C39): one record per teacher and day is kept, a save records
    what the radio buttons showed, and submitting the same buttons again changes no
    record (C39: the second run's defaults are the statuses just saved).
  \<^item> The teacher form (C17-C20): its invariant, the deletes, the assignment, and that
    the earlier of two same-named teachers cannot be reached from it.
  \<^item> Runs and sessions (C21-C27, in \<open>App\<close> and \<open>Sessions\<close>): every reachable state satisfies \<open>db_wf\<close>, proved by rule
    induction over \<open>reachable\<close> from one preservation lemma per handler and frame
    lemmas saying which tables each handler writes (C21); a teacher can be double-booked
    in a reachable state, shown by a concrete session (C22); the engine's missed periods
    are the teacher view filtered to the day (C23); on a Sunday no suggestion is ever
    made (C24); exactly which valid runs raise (C25); the class view shows at most one
    lesson per slot (C26); after a class is deleted, the engine's step 3 can count a
    teacher busy for a lesson step 2 no longer lists (C27).
  \<^item> Across components (this theory, C5 and C28-C33): from any reachable state one attendance run
    makes any teacher an absentee whom the substitution page can select (C28, a liveness
    property: the helper \<open>marked_absent_iff_absentee\<close> says a saved form makes a teacher
    an absentee exactly when the radio showed Absent); a saved period makes the assigned
    teacher busy then (C29); a class view has at most 48 rows (C30, from the invariant's
    one row per slot and the form's six days and eight periods); the \<open>class_id\<close> column
    of the timetable holds only integer literals (C31, the conjunct \<open>tt_class_ids_int\<close>
    of \<open>db_wf\<close>); so a class with an id such as \<open>C101\<close> never gets a lesson (C32);
    a deleted teacher drops out of every query of the engine even though the attendance
    rows stay (C33).
  \<^item> The rerun loop (C34-C36): it always ends, after at most one rerun (C34); the rerun
    writes nothing (C35); adding a teacher settles with the teacher appended and the
    \<open>teacher_added\<close> flag consumed by the run that shows the success message (C36).
  \<^item> Orders and names (C37, C38): a reachable session lists a period's substitutes out of
    name order, since the free-teacher query has no \<open>ORDER BY\<close> while the spec orders
    them by name (C37); the class view resolves a shared class name to the last class, so
    an earlier class of that name can never be viewed (C38, the class-view analogue of
    C20, both from \<open>dict_of_shadowed\<close>).

  \<^emph>\<open>Modelling choices.\<close>  A \<open>SELECT\<close> without \<open>ORDER BY\<close> returns rows in table
  order, one of the orders SQL allows; \<open>ORDER BY\<close> is a stable sort on its key, and
  text is compared in byte order (a binary collation).  \<open>CURDATE()\<close> and
  \<open>date.today()\<close> are one parameter \<open>today\<close> per run, so the midnight race between an
  engine's separate queries is not modelled.  A run that raises changes nothing: every
  handler raises before its first write.  An uncaught exception is a value \<open>Inl e\<close>; a
  caught one (the class and subject forms, the duplicate assignment) leaves the database
  unchanged.  The widgets are not rendered: what a handler shows is a value of a
  datatype, what it writes is the new \<open>db\<close>.  One user action per run; the
  \<open>st.rerun()\<close> a handler calls after a write starts a run with nothing pressed
  (\<open>Rerun.idle_action\<close>).  Every loop inside a run iterates over a fetched list, so those
  definitions are total; the one loop that could run forever is the rerun chain, modelled as
  the \<open>partial_function (option)\<close> \<open>run_until_settled\<close>, whose termination is a theorem
  (C34), not an assumption.  Concurrent sessions are not modelled (the spec assumes one
  user).

  \<^emph>\<open>Not modelled.\<close>  The connection module \<open>db.py\<close> (not in the sources; a failed
  connection is an unhandled exception everywhere), the widget rendering and messages,
  non-ASCII digits and whitespace in \<open>int()\<close>, and foreign keys (none are declared by
  the queries; the orphans that deletes leave are part of the model).
\<close>

section \<open>Properties across components\<close>

text \<open>The attendance form feeds the engine's absentee list; the timetable editor feeds its
  busy-teacher query; the session invariants bound what the class view can show.\<close>

definition tt_assigned :: db where
  "tt_assigned = tt_scen\<lparr>tbl_tsc := [\<lparr>tsc_id = 1, tsc_teacher = 7, tsc_subject = ''S2'', tsc_class = ''101''\<rparr>],
     next_tsc_id := 2\<rparr>"

lemma tt_assigned_save:
  "manage_class_timetable tt_assigned (Some ''101 - 1A'') ''Monday'' (Tt_save 2 (Some ''S2 - Art''))
   = Inr (tt_assigned\<lparr>tbl_timetable := [\<lparr>ct_id = 1, ct_class = ''101'', ct_subject = ''S2'',
                                          ct_day = ''Monday'', ct_period = 2\<rparr>]\<rparr>)"
proof -
  have tt: "tbl_timetable tt_assigned = [\<lparr>ct_id = 1, ct_class = ''101'', ct_subject = ''S1'',
      ct_day = ''Monday'', ct_period = 2\<rparr>]"
    by (simp add: tt_assigned_def tt_scen_def)
  have "split_label ''S2 - Art'' = ''S2''" by (simp add: label_sep_def)
  then show ?thesis
    by (simp add: manage_class_timetable_def tt_scen_key tt_save_def tt_lookup_def tt slot_key_def)
qed

definition lee_abs :: db where
  "lee_abs = lee_db\<lparr>tbl_attendance := [\<lparr>ta_teacher = 2, ta_date = 739257, ta_status = Absent\<rparr>]\<rparr>"

lemma lee_abs_delete:
  "manage_teachers lee_abs False ''Lee'' T_delete_teacher =
     Inr (lee_abs\<lparr>tbl_teachers := [\<lparr>t_id = 1, t_name = ''Lee''\<rparr>]\<rparr>, False)"
proof -
  have n: "teacher_names lee_abs ''Lee'' = Some 2"
    by (simp add: teacher_names_def dict_of_def lee_abs_def lee_db_def)
  have "tbl_teachers lee_abs = [\<lparr>t_id = 1, t_name = ''Lee''\<rparr>, \<lparr>t_id = 2, t_name = ''Lee''\<rparr>]"
    and "tbl_tsc lee_abs = []"
    by (simp_all add: lee_abs_def lee_db_def empty_db_def)
  then show ?thesis by (simp add: manage_teachers_def lee_not_add n)
qed

lemma manage_teachers_deleted:
  assumes "sel \<noteq> add_new_label" and "teacher_names d sel = Some tid"
    and "manage_teachers d flag sel T_delete_teacher = Inr (d', flag')"
  shows "d' = d\<lparr>tbl_tsc := [a \<leftarrow> tbl_tsc d. tsc_teacher a \<noteq> tid],
                tbl_teachers := [t \<leftarrow> tbl_teachers d. t_id t \<noteq> tid]\<rparr>"
  using assms by (auto simp: manage_teachers_def sql_delete_def)

lemma absent_on_att_of: "x \<in> absent_on d dt \<longleftrightarrow> (\<exists>a \<in> set (att_of d x dt). ta_status a = Absent)"
  by (auto simp: absent_on_def att_of_def)

lemma marked_absent_iff_absentee:
  assumes "att_unique d" and "distinct (map t_id (tbl_teachers d))" and "t \<in> set (tbl_teachers d)"
  shows "t \<in> set (absentees (mark_teacher_attendance d today (Att_save ch)) today) \<longleftrightarrow>
           att_choice d today ch (t_id t) = Absent"
proof -
  let ?d' = "mark_teacher_attendance d today (Att_save ch)"
  obtain as where d': "?d' = d\<lparr>tbl_attendance := as\<rparr>" using mark_attendance_frame by blast
  have "att_of ?d' (t_id t) today =
      [\<lparr>ta_teacher = t_id t, ta_date = today, ta_status = att_choice d today ch (t_id t)\<rparr>]"
    using mark_attendance_self [OF assms(1,2)] assms(3) by blast
  then have "t_id t \<in> absent_on ?d' today \<longleftrightarrow> att_choice d today ch (t_id t) = Absent"
    by (simp add: absent_on_att_of)
  moreover have "tbl_teachers ?d' = tbl_teachers d" by (simp add: d')
  ultimately show ?thesis using assms(3) by (simp add: set_absentees)
qed

lemma att_default_absent:
  assumes "att_unique d" and "ch x = None"
  shows "att_choice d today ch x = Absent \<longleftrightarrow> x \<in> absent_on d today"
  using att_of_unique [OF assms(1), of x today]
proof (elim disjE exE)
  assume "att_of d x today = []"
  then show ?thesis using assms(2) att_records_None_iff [of d today x]
    by (simp add: att_choice_def absent_on_att_of)
next
  fix s
  assume "att_of d x today = [\<lparr>ta_teacher = x, ta_date = today, ta_status = s\<rparr>]"
  then show ?thesis using assms(2) att_records_single [of d x today s]
    by (simp add: att_choice_def absent_on_att_of)
qed

lemma mark_one_absent_on:
  assumes wf: "att_unique d" and dist: "distinct (map t_id (tbl_teachers d))"
    and u: "u \<in> t_id ` set (tbl_teachers d)"
  shows "absent_on (mark_teacher_attendance d today (Att_save (\<lambda>x. if x = u then Some Absent else None))) today
         = insert u (absent_on d today)"
proof -
  let ?ch = "\<lambda>x. if x = u then Some Absent else None"
  let ?d' = "mark_teacher_attendance d today (Att_save ?ch)"
  have "x \<in> absent_on ?d' today \<longleftrightarrow> x = u \<or> x \<in> absent_on d today" for x
  proof (cases "x \<in> t_id ` set (tbl_teachers d)")
    case True
    then have "att_of ?d' x today = [\<lparr>ta_teacher = x, ta_date = today, ta_status = att_choice d today ?ch x\<rparr>]"
      by (rule mark_attendance_self [OF wf dist])
    then have "x \<in> absent_on ?d' today \<longleftrightarrow> att_choice d today ?ch x = Absent"
      by (simp add: absent_on_att_of)
    also have "\<dots> \<longleftrightarrow> x = u \<or> x \<in> absent_on d today"
      using att_default_absent [OF wf, of ?ch x today] by (auto simp: att_choice_def)
    finally show ?thesis .
  next
    case False
    then have "att_of ?d' x today = att_of d x today" by (intro mark_attendance_other) simp
    with False u show ?thesis by (auto simp: absent_on_att_of)
  qed
  then show ?thesis by blast
qed

lemma absentee_selectable:
  assumes "t \<in> set (absentees d today)"
  shows "\<exists>rep. find_substitutions d today (t_name t) = Inr rep"
proof -
  have "selected_absentee d today (t_name t) \<noteq> None"
    using assms by (auto simp: selected_absentee_def find_None_iff')
  with assms show ?thesis by (auto simp: find_substitutions_def)
qed

lemma tt_save_tsc: "tbl_tsc (tt_save d k dy p sid) = tbl_tsc d"
  by (simp add: tt_save_def insert_tt_def split: option.splits)

lemma class_view_keys:
  "r \<in> set (class_view_rows d c) \<Longrightarrow>
     \<exists>ct \<in> set (tbl_timetable d). (\<lambda>(sn, dy, p, tn). (dy, p)) r = (ct_day ct, ct_period ct)
       \<and> ct_class ct = c"
  by (auto simp: class_view_rows_def class_rows_def class_slot_rows_def)

lemma card_school_slots: "card (set school_days \<times> {1..8::nat}) = 48"
proof -
  have "card (set school_days) = 6" by (simp add: school_days_def)
  then show ?thesis by (simp add: card_cartesian_product)
qed

text \<open>
  C5: marking one more teacher absent on the attendance page (every other button left at
  its default) withdraws exactly that teacher from every period's substitutes and changes
  nobody else's: the defaults re-save each recorded status, so the day's absent set grows
  by that teacher only.
\<close>

theorem marking_absent_withdraws_substitute:
  assumes wf: "att_unique d" and dist: "distinct (map t_id (tbl_teachers d))"
    and u: "u \<in> t_id ` set (tbl_teachers d)"
  shows "free_teachers (mark_teacher_attendance d today (Att_save (\<lambda>x. if x = u then Some Absent else None)))
           today t p = [x \<leftarrow> free_teachers d today t p. t_id x \<noteq> u]"
proof -
  let ?d' = "mark_teacher_attendance d today (Att_save (\<lambda>x. if x = u then Some Absent else None))"
  obtain as where d': "?d' = d\<lparr>tbl_attendance := as\<rparr>" using mark_attendance_frame by blast
  have "set (absent_ids ?d' today) = insert u (set (absent_ids d today))"
    using mark_one_absent_on [OF wf dist u, of today] by (simp add: set_absent_ids)
  moreover have "busy_teachers ?d' today p = busy_teachers d today p"
    by (simp add: d' busy_teachers_def)
  moreover have "tbl_teachers ?d' = tbl_teachers d" by (simp add: d')
  ultimately show ?thesis
    by (auto simp: free_teachers_def intro: filter_cong)
qed

theorem marking_absent_withdraws_substitute_witness:
  "free_teachers (mark_teacher_attendance scen_a scen_monday (Att_save (\<lambda>x. if x = 3 then Some Absent else None)))
     scen_monday 1 2 = []"
proof -
  have "att_unique scen_a" and "distinct (map t_id (tbl_teachers scen_a))"
    and "3 \<in> t_id ` set (tbl_teachers scen_a)"
    by (simp_all add: att_unique_def scen_a_def)
  from marking_absent_withdraws_substitute [OF this, of scen_monday 1 2] show ?thesis
    by (simp add: free_teachers_def busy_teachers_def absent_ids_def teaches_def scen_a_dayname scen_a_def)
qed

text \<open>
  C28: from every reachable state, any teacher of the table can be made an absentee of the
  day by one run of the attendance page, which writes nothing but attendance; the
  substitution page then answers for that teacher's name without raising.
\<close>

theorem any_teacher_can_be_marked_absent:
  assumes "reachable (d, flag)" and "t \<in> set (tbl_teachers d)"
  shows "\<exists>d'. reachable (d', flag) \<and> t \<in> set (absentees d' today)
           \<and> (\<exists>rep. find_substitutions d' today (t_name t) = Inr rep)
           \<and> tbl_teachers d' = tbl_teachers d \<and> tbl_tsc d' = tbl_tsc d
           \<and> tbl_timetable d' = tbl_timetable d"
proof -
  define ch where "ch = (\<lambda>x. if x = t_id t then Some Absent else None)"
  let ?d' = "mark_teacher_attendance d today (Att_save ch)"
  have wf: "db_wf d" using reachable_db_wf [OF assms(1)] by simp
  have "app_step today (d, flag) (Menu_attendance (Att_save ch)) = Inr ((?d', flag), Shown)"
    by (simp add: app_step_def)
  moreover have "widget_ok today d (Menu_attendance (Att_save ch))" by (simp add: widget_ok_def)
  ultimately have "reachable (?d', flag)" using assms(1) by (blast intro: reachable_step)
  moreover have "t \<in> set (absentees ?d' today)"
    using marked_absent_iff_absentee [of d t today ch] wf assms(2)
    by (simp add: db_wf_def teachers_wf_def att_choice_def ch_def)
  moreover obtain as where "?d' = d\<lparr>tbl_attendance := as\<rparr>" using mark_attendance_frame by blast
  ultimately show ?thesis using absentee_selectable by fastforce
qed

theorem any_teacher_can_be_marked_absent_witness:
  "\<exists>d'. reachable (d', True) \<and> \<lparr>t_id = 1, t_name = ''Asha''\<rparr> \<in> set (absentees d' 739257)
     \<and> (\<exists>rep. find_substitutions d' 739257 ''Asha'' = Inr rep)
     \<and> tbl_teachers d' = tbl_teachers dbl_db \<and> tbl_tsc d' = tbl_tsc dbl_db
     \<and> tbl_timetable d' = tbl_timetable dbl_db"
  using any_teacher_can_be_marked_absent [OF dbl_reachable, of "\<lparr>t_id = 1, t_name = ''Asha''\<rparr>" 739257]
  by (simp add: dbl_db_def)

text \<open>
  C29: once the timetable editor saves a subject in a class's period, the teacher assigned
  that subject in that class is busy in that period on that weekday, so the engine never
  suggests them for it.
\<close>

theorem saved_slot_makes_teacher_busy:
  assumes "tt_wf d" and "tt_class_key cls = Inr k"
    and "manage_class_timetable d cls dy (Tt_save p (Some lbl)) = Inr d'"
    and "a \<in> set (tbl_tsc d)" and "tsc_subject a = split_label lbl" and "tsc_class a = k"
    and "dayname today = dy"
  shows "tsc_teacher a \<in> set (busy_teachers d' today p)"
proof -
  have d': "d' = tt_save d k dy p (split_label lbl)"
    using assms(2,3) by (simp add: manage_class_timetable_def)
  obtain r where fr: "filter (\<lambda>x. slot_key x = (k, dy, p)) (tbl_timetable d') = [r]"
    and sub: "ct_subject r = split_label lbl"
    using tt_save_slot [OF assms(1)] d' by blast
  from filter_eq_single [OF fr] have r: "r \<in> set (tbl_timetable d')"
    and key: "ct_class r = k \<and> ct_day r = dy \<and> ct_period r = p"
    by (simp_all add: slot_key_def)
  have a: "a \<in> set (tbl_tsc d')" using assms(4) by (simp add: d' tt_save_tsc)
  have "teaches a r" using sub key assms(5,6) by (simp add: teaches_def)
  with r a key have "tsc_teacher a \<in> teaching_at d' dy p"
    unfolding teaching_at_def by blast
  then show ?thesis by (simp add: set_busy_teachers assms(7))
qed

theorem saved_slot_makes_teacher_busy_witness:
  "7 \<in> set (busy_teachers (tt_assigned\<lparr>tbl_timetable := [\<lparr>ct_id = 1, ct_class = ''101'', ct_subject = ''S2'',
                                          ct_day = ''Monday'', ct_period = 2\<rparr>]\<rparr>) 739257 2)"
proof -
  have wf: "tt_wf tt_assigned" by (simp add: tt_wf_def tt_assigned_def tt_scen_def empty_db_def slot_key_def)
  have a: "\<lparr>tsc_id = 1, tsc_teacher = 7, tsc_subject = ''S2'', tsc_class = ''101''\<rparr> \<in> set (tbl_tsc tt_assigned)"
    by (simp add: tt_assigned_def)
  have "tsc_teacher \<lparr>tsc_id = 1, tsc_teacher = 7, tsc_subject = ''S2'', tsc_class = ''101''\<rparr>
      \<in> set (busy_teachers (tt_assigned\<lparr>tbl_timetable := [\<lparr>ct_id = 1, ct_class = ''101'', ct_subject = ''S2'',
                                          ct_day = ''Monday'', ct_period = 2\<rparr>]\<rparr>) 739257 2)"
    by (rule saved_slot_makes_teacher_busy [OF wf tt_scen_key tt_assigned_save a])
      (simp_all add: label_sep_def dayname_def week_days_def)
  then show ?thesis by simp
qed

text \<open>
  C30: in every reachable database a class's timetable view has at most 48 rows, one per
  school day and period.
\<close>

theorem reachable_class_view_bound:
  assumes "reachable (d, flag)"
  shows "length (class_view_rows d c) \<le> 48"
proof -
  let ?k = "\<lambda>(sn :: string, dy :: day_name, p :: period, tn :: string). (dy, p)"
  let ?rows = "class_view_rows d c"
  have wf: "db_wf d" using reachable_db_wf [OF assms] by simp
  then have "distinct (map ?k ?rows)"
    by (intro class_view_distinct) (simp_all add: db_wf_def tt_wf_def teachers_wf_def catalog_wf_def)
  then have "length ?rows = card (set (map ?k ?rows))" by (metis distinct_card length_map)
  also have "\<dots> \<le> card (set school_days \<times> {1..8::nat})"
  proof (rule card_mono)
    show "set (map ?k ?rows) \<subseteq> set school_days \<times> {1..8}"
      using wf class_view_keys [of _ d c] by (fastforce simp: db_wf_def slots_in_range_def)
  qed simp
  also have "\<dots> = 48" by (rule card_school_slots)
  finally show ?thesis .
qed

theorem reachable_class_view_bound_witness: "length (class_view_rows dbl_db ''1'') \<le> 48"
  by (rule reachable_class_view_bound [OF dbl_reachable])

text \<open>
  C31: in every reachable database the \<open>class_id\<close> column of \<open>class_timetable\<close> holds
  only integer literals: the editor writes \<open>int()\<close> of the label back as decimal digits.
\<close>

theorem reachable_class_ids_int:
  assumes "reachable (d, flag)"
  shows "tt_class_ids_int d"
  using reachable_db_wf [OF assms] by (simp add: db_wf_def)

theorem reachable_class_ids_int_witness: "tt_class_ids_int dbl_db"
  by (rule reachable_class_ids_int [OF dbl_reachable])

text \<open>
  C32: a class whose id is not an integer literal (such as \<open>C101\<close>, the form's own example,
  or \<open>007\<close>) never has a lesson in a reachable database: its timetable view is empty.
\<close>

theorem non_integer_class_never_scheduled:
  assumes "reachable (d, flag)" and "\<not> int_literal c"
  shows "class_view_rows d c = []"
proof -
  have "tt_class_ids_int d" using reachable_db_wf [OF assms(1)] by (simp add: db_wf_def)
  with assms(2) have "\<forall>ct \<in> set (tbl_timetable d). ct_class ct \<noteq> c"
    by (auto simp: tt_class_ids_int_def)
  then show ?thesis by (auto simp: class_view_rows_def class_rows_def filter_empty_conv)
qed

theorem non_integer_class_never_scheduled_witness:
  "\<not> int_literal ''C101'' \<and> \<not> int_literal ''007'' \<and> class_view_rows dbl_db ''C101'' = []"
proof -
  have c: "\<not> int_literal ''C101''" by (simp add: int_literal_def py_int_eval)
  have "\<not> int_literal ''007''" by (simp add: int_literal_def py_int_eval)
  with c show ?thesis using non_integer_class_never_scheduled [OF dbl_reachable c] by simp
qed

text \<open>
  C33: deleting a teacher on the teacher page removes the teacher from the engine: no
  longer an absentee, never busy, without missed periods and never a suggested
  substitute, although the teacher's attendance rows stay in the table.
\<close>

theorem deleted_teacher_leaves_engine:
  assumes "sel \<noteq> add_new_label" and "teacher_names d sel = Some tid"
    and "manage_teachers d flag sel T_delete_teacher = Inr (d', flag')"
  shows "tid \<notin> t_id ` set (absentees d' today) \<and> tid \<notin> set (busy_teachers d' today p)
         \<and> missed_classes d' today tid = [] \<and> tid \<notin> t_id ` set (free_teachers d' today t p)"
proof -
  note d' = manage_teachers_deleted [OF assms]
  have "tid \<notin> t_id ` set (tbl_teachers d')" and "\<forall>a \<in> set (tbl_tsc d'). tsc_teacher a \<noteq> tid"
    by (auto simp: d')
  moreover have "set (missed_classes d' today tid) = {}"
    using calculation(2) by (auto simp: set_missed_classes mem_slot_join)
  ultimately show ?thesis
    by (auto simp: set_absentees set_busy_teachers teaching_at_def free_teachers_def)
qed

theorem deleted_teacher_leaves_engine_witness:
  "2 \<notin> t_id ` set (absentees (lee_abs\<lparr>tbl_teachers := [\<lparr>t_id = 1, t_name = ''Lee''\<rparr>]\<rparr>) 739257)
   \<and> 2 \<notin> set (busy_teachers (lee_abs\<lparr>tbl_teachers := [\<lparr>t_id = 1, t_name = ''Lee''\<rparr>]\<rparr>) 739257 1)
   \<and> missed_classes (lee_abs\<lparr>tbl_teachers := [\<lparr>t_id = 1, t_name = ''Lee''\<rparr>]\<rparr>) 739257 2 = []
   \<and> 2 \<notin> t_id ` set (free_teachers (lee_abs\<lparr>tbl_teachers := [\<lparr>t_id = 1, t_name = ''Lee''\<rparr>]\<rparr>) 739257 1 1)"
  by (rule deleted_teacher_leaves_engine [OF lee_not_add _ lee_abs_delete])
    (simp add: teacher_names_def dict_of_def lee_abs_def lee_db_def)

end
